theory Spec2Isabelle
  imports Main
begin

section \<open>The grammar description language\<close>

text \<open>
  \<^verbatim>\<open>grammar.js\<close> is a value of tree-sitter's grammar description language: a table of
  named rules built from \<^verbatim>\<open>seq\<close>, \<^verbatim>\<open>choice\<close>, \<^verbatim>\<open>repeat\<close>, \<^verbatim>\<open>optional\<close>, \<^verbatim>\<open>prec\<close>,
  \<^verbatim>\<open>field\<close>, \<^verbatim>\<open>alias\<close>, \<^verbatim>\<open>token\<close>, string literals, regular expressions and
  references \<^verbatim>\<open>$.name\<close>.  The table is embedded as data: one constructor for each
  combinator, one constant for each rule, in the order of the source.
\<close>

subsection \<open>Regular expressions\<close>

text \<open>
  A regular expression literal of the source is kept as its syntax tree.  Characters are
  code points.  A class such as \<^verbatim>\<open>[^"\\]\<close> is \<open>RSet True [CChar 34, CChar 92]\<close>; a
  Unicode property \<^verbatim>\<open>\p{XID_Start}\<close> or a class escape \<^verbatim>\<open>\s\<close> is \<open>CProp\<close> with its
  name, read through a table \<open>U\<close> that the source does not contain and that is therefore
  a parameter of matching.
\<close>

datatype citem = CChar nat | CRange nat nat | CProp string

datatype rx =
    RNone
  | REps
  | RSet bool "citem list"
  | RDot
  | RCat rx rx
  | RAlt rx rx
  | RStar rx

type_synonym utable = "string \<Rightarrow> nat \<Rightarrow> bool"

fun citem_has :: "utable \<Rightarrow> citem \<Rightarrow> nat \<Rightarrow> bool" where
  "citem_has U (CChar c) x = (x = c)"
| "citem_has U (CRange a b) x = (a \<le> x \<and> x \<le> b)"
| "citem_has U (CProp p) x = U p x"

definition cset_has :: "utable \<Rightarrow> bool \<Rightarrow> citem list \<Rightarrow> nat \<Rightarrow> bool" where
  "cset_has U neg items x = (list_ex (\<lambda>i. citem_has U i x) items \<noteq> neg)"

definition RPlus :: "rx \<Rightarrow> rx" where
  "RPlus r = RCat r (RStar r)"

definition ROpt :: "rx \<Rightarrow> rx" where
  "ROpt r = RAlt r REps"

definition RChr :: "nat \<Rightarrow> rx" where
  "RChr c = RSet False [CChar c]"

definition cps :: "string \<Rightarrow> nat list" where
  "cps s = map of_char s"

definition RLit :: "string \<Rightarrow> rx" where
  "RLit s = foldr (\<lambda>c r. RCat (RChr c) r) (cps s) REps"

fun RTimes :: "nat \<Rightarrow> rx \<Rightarrow> rx" where
  "RTimes 0 r = REps"
| "RTimes (Suc n) r = RCat r (RTimes n r)"

text \<open>\<open>RRep m k r\<close> is \<^verbatim>\<open>r{m,m+k}\<close>.\<close>

fun RRep :: "nat \<Rightarrow> nat \<Rightarrow> rx \<Rightarrow> rx" where
  "RRep m 0 r = RTimes m r"
| "RRep m (Suc k) r = RAlt (RTimes m r) (RRep (Suc m) k r)"

fun nullable :: "rx \<Rightarrow> bool" where
  "nullable RNone = False"
| "nullable REps = True"
| "nullable (RSet neg items) = False"
| "nullable RDot = False"
| "nullable (RCat a b) = (nullable a \<and> nullable b)"
| "nullable (RAlt a b) = (nullable a \<or> nullable b)"
| "nullable (RStar a) = True"

text \<open>The dot matches every character but the newline.\<close>

fun deriv :: "utable \<Rightarrow> nat \<Rightarrow> rx \<Rightarrow> rx" where
  "deriv U x RNone = RNone"
| "deriv U x REps = RNone"
| "deriv U x (RSet neg items) = (if cset_has U neg items x then REps else RNone)"
| "deriv U x RDot = (if x = 10 then RNone else REps)"
| "deriv U x (RCat a b) =
     (if nullable a then RAlt (RCat (deriv U x a) b) (deriv U x b) else RCat (deriv U x a) b)"
| "deriv U x (RAlt a b) = RAlt (deriv U x a) (deriv U x b)"
| "deriv U x (RStar a) = RCat (deriv U x a) (RStar a)"

fun rx_match :: "utable \<Rightarrow> rx \<Rightarrow> nat list \<Rightarrow> bool" where
  "rx_match U r [] = nullable r"
| "rx_match U r (x # xs) = rx_match U (deriv U x r) xs"

subsection \<open>Rules\<close>

datatype rule =
    Blank
  | Str string
  | Pat rx
  | Sym string
  | Seq "rule list"
  | Choice "rule list"
  | Repeat rule
  | Repeat1 rule
  | Token rule
  | TokenImm rule
  | Prec int rule
  | PrecLeft int rule
  | PrecRight int rule
  | PrecDynamic int rule
  | Field string rule
  | Alias rule string

definition optional :: "rule \<Rightarrow> rule" where
  "optional r = Choice [r, Blank]"

definition sep1 :: "rule \<Rightarrow> rule \<Rightarrow> rule" where
  "sep1 r separator = Seq [r, Repeat (Seq [separator, r])]"

definition commaSep1 :: "rule \<Rightarrow> rule" where
  "commaSep1 r = Seq [r, Repeat (Seq [Str '','', r])]"

definition commaSep :: "rule \<Rightarrow> rule" where
  "commaSep r = optional (commaSep1 r)"


section \<open>The grammar of \<^verbatim>\<open>grammar.js\<close>\<close>

subsection \<open>Shared tokens and the precedence table\<close>

definition r_digit :: rx where
  "r_digit = RSet False [CRange 48 57]"

definition r_hex :: rx where
  "r_hex = RSet False [CRange 48 57, CRange 97 102, CRange 65 70]"

definition DIGITS :: rule where
  "DIGITS = Token (Choice [Str ''0'',
     Seq [Pat (RSet False [CRange 49 57]),
          optional (Seq [optional (Str ''_''), sep1 (Pat (RPlus r_digit)) (Pat (RPlus (RChr 95)))])]])"

definition DECIMAL_DIGITS :: rule where
  "DECIMAL_DIGITS = Token (sep1 (Pat (RPlus r_digit)) (Str ''_''))"

definition HEX_DIGITS :: rule where
  "HEX_DIGITS = Token (sep1 (Pat (RPlus (RSet False [CRange 65 70, CRange 97 102, CRange 48 57]))) (Str ''_''))"

definition PREC_COMMENT :: int where "PREC_COMMENT = 0"
definition PREC_ASSIGN :: int where "PREC_ASSIGN = 1"
definition PREC_DECL :: int where "PREC_DECL = 2"
definition PREC_ELEMENT_VAL :: int where "PREC_ELEMENT_VAL = 2"
definition PREC_TERNARY :: int where "PREC_TERNARY = 3"
definition PREC_OR :: int where "PREC_OR = 4"
definition PREC_AND :: int where "PREC_AND = 5"
definition PREC_BIT_OR :: int where "PREC_BIT_OR = 6"
definition PREC_BIT_XOR :: int where "PREC_BIT_XOR = 7"
definition PREC_BIT_AND :: int where "PREC_BIT_AND = 8"
definition PREC_EQUALITY :: int where "PREC_EQUALITY = 9"
definition PREC_GENERIC :: int where "PREC_GENERIC = 10"
definition PREC_REL :: int where "PREC_REL = 10"
definition PREC_SHIFT :: int where "PREC_SHIFT = 11"
definition PREC_ADD :: int where "PREC_ADD = 12"
definition PREC_MULT :: int where "PREC_MULT = 13"
definition PREC_CAST :: int where "PREC_CAST = 14"
definition PREC_OBJ_INST :: int where "PREC_OBJ_INST = 14"
definition PREC_UNARY :: int where "PREC_UNARY = 15"
definition PREC_ARRAY :: int where "PREC_ARRAY = 16"
definition PREC_OBJ_ACCESS :: int where "PREC_OBJ_ACCESS = 16"
definition PREC_PARENS :: int where "PREC_PARENS = 16"
definition PREC_CLASS_LITERAL :: int where "PREC_CLASS_LITERAL = 17"


subsection \<open>The grammar's lists\<close>

text \<open>
  The grammar extends a base grammar (\<^verbatim>\<open>grammar(css, ...)\<close>) whose file is not part of
  the repository's sources; only the rules this file defines are embedded.  Rule names
  are the source's; a constant whose rule name starts with an underscore carries the
  prefix \<open>hid_\<close>, since an Isabelle name starts with a letter.
\<close>

definition extras :: "rule list" where
  "extras = [Sym ''line_comment'', Sym ''block_comment'', Pat (RSet False [CProp ''s''])]"

definition supertypes :: "string list" where
  "supertypes = [
    ''expression'',
    ''declaration'',
    ''statement'',
    ''primary_expression'',
    ''_literal'',
    ''_type'',
    ''_simple_type'',
    ''_unannotated_type'',
    ''module_directive'']"

definition inline :: "string list" where
  "inline = [
    ''_name'',
    ''_simple_type'',
    ''_class_body_declaration'',
    ''_variable_initializer'']"

definition conflicts :: "string list list" where
  "conflicts = [
    [''modifiers'', ''annotated_type'', ''receiver_parameter''],
    [''modifiers'', ''annotated_type'', ''module_declaration'', ''package_declaration''],
    [''_unannotated_type'', ''primary_expression'', ''inferred_parameters''],
    [''_unannotated_type'', ''primary_expression''],
    [''_unannotated_type'', ''primary_expression'', ''scoped_type_identifier''],
    [''_unannotated_type'', ''scoped_type_identifier''],
    [''_unannotated_type'', ''generic_type''],
    [''generic_type'', ''primary_expression''],
    [''expression'', ''statement''],
    [''lambda_expression'', ''primary_expression''],
    [''inferred_parameters'', ''primary_expression''],
    [''argument_list'', ''record_pattern_body''],
    [''yield_statement'', ''_reserved_identifier'']]"

definition word :: rule where
  "word = Sym ''identifier''"

subsection \<open>Rules: program and literals\<close>

definition program :: rule where
  "program = Repeat (Sym ''_toplevel_statement'')"

definition hid_toplevel_statement :: rule where
  "hid_toplevel_statement = Choice [
    Sym ''statement'',
    Sym ''method_declaration'']"

definition hid_literal :: rule where
  "hid_literal = Choice [
    Sym ''decimal_integer_literal'',
    Sym ''hex_integer_literal'',
    Sym ''octal_integer_literal'',
    Sym ''binary_integer_literal'',
    Sym ''decimal_floating_point_literal'',
    Sym ''hex_floating_point_literal'',
    Sym ''true'',
    Sym ''false'',
    Sym ''character_literal'',
    Sym ''string_literal'',
    Sym ''null_literal'']"

definition decimal_integer_literal :: rule where
  "decimal_integer_literal = Token (Seq [
    DIGITS,
    optional (Choice [Str ''l'', Str ''L''])])"

definition hex_integer_literal :: rule where
  "hex_integer_literal = Token (Seq [
    Choice [Str ''0x'', Str ''0X''],
    HEX_DIGITS,
    optional (Choice [Str ''l'', Str ''L''])])"

definition octal_integer_literal :: rule where
  "octal_integer_literal = Token (Seq [
    Choice [Str ''0o'', Str ''0O'', Str ''0''],
    sep1 (Pat (RPlus (RSet False [CRange 48 55]))) (Str ''_''),
    optional (Choice [Str ''l'', Str ''L''])])"

definition binary_integer_literal :: rule where
  "binary_integer_literal = Token (Seq [
    Choice [Str ''0b'', Str ''0B''],
    sep1 (Pat (RPlus (RSet False [CChar 48, CChar 49]))) (Str ''_''),
    optional (Choice [Str ''l'', Str ''L''])])"

definition r_eE :: rule where
  "r_eE = Pat (RSet False [CChar 101, CChar 69])"

definition r_fFdD :: rule where
  "r_fFdD = Pat (RSet False [CChar 102, CChar 70, CChar 100, CChar 68])"

definition decimal_floating_point_literal :: rule where
  "decimal_floating_point_literal = Token (Choice [
    Seq [DECIMAL_DIGITS, Str ''.'', optional DECIMAL_DIGITS,
         optional (Seq [r_eE, optional (Choice [Str ''-'', Str ''+'']), DECIMAL_DIGITS]),
         optional r_fFdD],
    Seq [Str ''.'', DECIMAL_DIGITS,
         optional (Seq [r_eE, optional (Choice [Str ''-'', Str ''+'']), DECIMAL_DIGITS]),
         optional r_fFdD],
    Seq [DIGITS, r_eE, optional (Choice [Str ''-'', Str ''+'']), DECIMAL_DIGITS, optional r_fFdD],
    Seq [DIGITS, optional (Seq [r_eE, optional (Choice [Str ''-'', Str ''+'']), DECIMAL_DIGITS]),
         r_fFdD]])"

definition hex_floating_point_literal :: rule where
  "hex_floating_point_literal = Token (Seq [
    Choice [Str ''0x'', Str ''0X''],
    Choice [
      Seq [HEX_DIGITS, optional (Str ''.'')],
      Seq [optional HEX_DIGITS, Str ''.'', HEX_DIGITS]],
    optional (Seq [
      Pat (RSet False [CChar 112, CChar 80]),
      optional (Choice [Str ''-'', Str ''+'']),
      DIGITS,
      optional r_fFdD])])"

definition true :: rule where
  "true = Str ''true''"

definition false :: rule where
  "false = Str ''false''"

text \<open>The quote characters and the backslash, which a string literal of HOL cannot hold.\<close>

definition squote :: string where "squote = [CHR 0x27]"
definition dquote :: string where "dquote = [CHR 0x22]"
definition dquote3 :: string where "dquote3 = [CHR 0x22, CHR 0x22, CHR 0x22]"
definition bslash :: string where "bslash = [CHR 0x5C]"
definition bslash_brace :: string where "bslash_brace = [CHR 0x5C, CHR 0x7B]"

definition character_literal :: rule where
  "character_literal = Token (Seq [
    Str squote,
    Repeat1 (Choice [
      Pat (RSet True [CChar 92, CChar 39, CChar 10]),
      Pat (RCat (RChr 92) RDot),
      Pat (RCat (RChr 92) (RChr 10))]),
    Str squote])"

definition string_literal :: rule where
  "string_literal = Choice [Sym ''_string_literal'', Sym ''_multiline_string_literal'']"

definition hid_string_literal :: rule where
  "hid_string_literal = Seq [
    Str dquote,
    Repeat (Choice [
      Sym ''string_fragment'',
      Sym ''escape_sequence'',
      Sym ''string_interpolation'']),
    Str dquote]"

definition hid_multiline_string_literal :: rule where
  "hid_multiline_string_literal = Seq [
    Str dquote3,
    Repeat (Choice [
      Alias (Sym ''_multiline_string_fragment'') ''multiline_string_fragment'',
      Sym ''_escape_sequence'',
      Sym ''string_interpolation'']),
    Str dquote3]"

definition string_fragment :: rule where
  "string_fragment = TokenImm (Prec 1 (Pat (RPlus (RSet True [CChar 34, CChar 92]))))"

definition hid_multiline_string_fragment :: rule where
  "hid_multiline_string_fragment = Choice [
    Pat (RPlus (RSet True [CChar 34, CChar 92])),
    Pat (RCat (RChr 34) (RStar (RAlt (RSet True [CChar 34, CChar 92]) (RCat (RChr 92) (RChr 34)))))]"

definition string_interpolation :: rule where
  "string_interpolation = Seq [
    Str bslash_brace,
    Sym ''expression'',
    Str ''}'']"

definition hid_escape_sequence :: rule where
  "hid_escape_sequence = Choice [
    Prec 2 (TokenImm (Seq [Str bslash,
      Pat (RSet True [CChar 98, CChar 102, CChar 110, CChar 114, CChar 116, CChar 115,
                      CChar 39, CChar 34, CChar 92])])),
    Prec 1 (Sym ''escape_sequence'')]"

definition escape_sequence :: rule where
  "escape_sequence = TokenImm (Seq [
    Str bslash,
    Choice [
      Pat (RSet True [CChar 120, CChar 117, CRange 48 55]),
      Pat (RRep 1 2 (RSet False [CRange 48 55])),
      Pat (RCat (RChr 120) (RTimes 2 r_hex)),
      Pat (RCat (RChr 117) (RTimes 4 r_hex)),
      Pat (RCat (RChr 117) (RCat (RChr 123) (RCat (RPlus r_hex) (RChr 125))))]])"

definition null_literal :: rule where
  "null_literal = Str ''null''"

subsection \<open>Rules: expressions\<close>

definition expression :: rule where
  "expression = Choice [
    Sym ''assignment_expression'',
    Sym ''binary_expression'',
    Sym ''instanceof_expression'',
    Sym ''lambda_expression'',
    Sym ''ternary_expression'',
    Sym ''update_expression'',
    Sym ''primary_expression'',
    Sym ''unary_expression'',
    Sym ''cast_expression'',
    Sym ''switch_expression'']"

definition cast_expression :: rule where
  "cast_expression = Prec PREC_CAST (Choice [
    Seq [
      Str ''('',
      Field ''type'' (Sym ''_type''),
      Str '')'',
      Field ''value'' (Sym ''expression'')],
    Seq [
      Str ''('',
      sep1 (Field ''type'' (Sym ''_type'')) (Str ''&''),
      Str '')'',
      Field ''value'' (Choice [Sym ''primary_expression'', Sym ''lambda_expression''])]])"

definition assignment_expression :: rule where
  "assignment_expression = PrecRight PREC_ASSIGN (Seq [
    Field ''left'' (Choice [
      Sym ''identifier'',
      Sym ''_reserved_identifier'',
      Sym ''field_access'',
      Sym ''array_access'']),
    Field ''operator'' (Choice [Str ''='', Str ''+='', Str ''-='', Str ''*='', Str ''/='', Str ''&='',
      Str ''|='', Str ''^='', Str ''%='', Str ''<<='', Str ''>>='', Str ''>>>='']),
    Field ''right'' (Sym ''expression'')])"

text \<open>
  The table of \<^verbatim>\<open>binary_expression\<close>, and the function the source maps over it: each
  pair \<^verbatim>\<open>[operator, precedence]\<close> becomes a left-associative sequence at that level.
\<close>

definition binary_operators :: "(string \<times> int) list" where
  "binary_operators = [
    (''>'', PREC_REL),
    (''<'', PREC_REL),
    (''>='', PREC_REL),
    (''<='', PREC_REL),
    (''=='', PREC_EQUALITY),
    (''!='', PREC_EQUALITY),
    (''&&'', PREC_AND),
    (''||'', PREC_OR),
    (''+'', PREC_ADD),
    (''-'', PREC_ADD),
    (''*'', PREC_MULT),
    (''/'', PREC_MULT),
    (''&'', PREC_BIT_AND),
    (''|'', PREC_BIT_OR),
    (''^'', PREC_BIT_XOR),
    (''%'', PREC_MULT),
    (''<<'', PREC_SHIFT),
    (''>>'', PREC_SHIFT),
    (''>>>'', PREC_SHIFT)]"

definition binary_alternative :: "string \<times> int \<Rightarrow> rule" where
  "binary_alternative = (\<lambda>(operator, precedence).
    PrecLeft precedence (Seq [
      Field ''left'' (Sym ''expression''),
      Field ''operator'' (Str operator),
      Field ''right'' (Sym ''expression'')]))"

definition binary_expression :: rule where
  "binary_expression = Choice (map binary_alternative binary_operators)"

definition instanceof_expression :: rule where
  "instanceof_expression = Prec PREC_REL (Seq [
    Field ''left'' (Sym ''expression''),
    Str ''instanceof'',
    optional (Str ''final''),
    Choice [
      Seq [
        Field ''right'' (Sym ''_type''),
        optional (Field ''name'' (Choice [Sym ''identifier'', Sym ''_reserved_identifier'']))],
      Field ''pattern'' (Sym ''record_pattern'')]])"

definition lambda_expression :: rule where
  "lambda_expression = Seq [
    Field ''parameters'' (Choice [
      Sym ''identifier'', Sym ''formal_parameters'', Sym ''inferred_parameters'',
      Sym ''_reserved_identifier'']),
    Str ''->'',
    Field ''body'' (Choice [Sym ''expression'', Sym ''block''])]"

definition inferred_parameters :: rule where
  "inferred_parameters = Seq [
    Str ''('',
    commaSep1 (Choice [Sym ''identifier'', Sym ''_reserved_identifier'']),
    Str '')'']"

definition ternary_expression :: rule where
  "ternary_expression = PrecRight PREC_TERNARY (Seq [
    Field ''condition'' (Sym ''expression''),
    Str ''?'',
    Field ''consequence'' (Sym ''expression''),
    Str '':'',
    Field ''alternative'' (Sym ''expression'')])"

definition unary_operators :: "(string \<times> int) list" where
  "unary_operators = [
    (''+'', PREC_UNARY),
    (''-'', PREC_UNARY),
    (''!'', PREC_UNARY),
    (''~'', PREC_UNARY)]"

definition unary_alternative :: "string \<times> int \<Rightarrow> rule" where
  "unary_alternative = (\<lambda>(operator, precedence).
    PrecLeft precedence (Seq [
      Field ''operator'' (Str operator),
      Field ''operand'' (Sym ''expression'')]))"

definition unary_expression :: rule where
  "unary_expression = Choice (map unary_alternative unary_operators)"

definition update_expression :: rule where
  "update_expression = PrecLeft PREC_UNARY (Choice [
    Seq [Sym ''expression'', Str ''++''],
    Seq [Sym ''expression'', Str ''--''],
    Seq [Str ''++'', Sym ''expression''],
    Seq [Str ''--'', Sym ''expression'']])"

definition primary_expression :: rule where
  "primary_expression = Choice [
    Sym ''_literal'',
    Sym ''class_literal'',
    Sym ''this'',
    Sym ''identifier'',
    Sym ''_reserved_identifier'',
    Sym ''parenthesized_expression'',
    Sym ''object_creation_expression'',
    Sym ''field_access'',
    Sym ''array_access'',
    Sym ''method_invocation'',
    Sym ''method_reference'',
    Sym ''array_creation_expression'',
    Sym ''template_expression'']"

definition array_creation_expression :: rule where
  "array_creation_expression = PrecRight 0 (Seq [
    Str ''new'',
    Repeat (Sym ''_annotation''),
    Field ''type'' (Sym ''_simple_type''),
    Choice [
      Seq [
        Field ''dimensions'' (Repeat1 (Sym ''dimensions_expr'')),
        Field ''dimensions'' (optional (Sym ''dimensions''))],
      Seq [
        Field ''dimensions'' (Sym ''dimensions''),
        Field ''value'' (Sym ''array_initializer'')]]])"

definition dimensions_expr :: rule where
  "dimensions_expr = Seq [Repeat (Sym ''_annotation''), Str ''['', Sym ''expression'', Str '']'']"

definition parenthesized_expression :: rule where
  "parenthesized_expression = Seq [Str ''('', Sym ''expression'', Str '')'']"

definition class_literal :: rule where
  "class_literal = PrecDynamic PREC_CLASS_LITERAL (Seq [Sym ''_unannotated_type'', Str ''.'', Str ''class''])"

definition object_creation_expression :: rule where
  "object_creation_expression = Choice [
    Sym ''_unqualified_object_creation_expression'',
    Seq [Sym ''primary_expression'', Str ''.'', Sym ''_unqualified_object_creation_expression'']]"

definition hid_unqualified_object_creation_expression :: rule where
  "hid_unqualified_object_creation_expression = PrecRight 0 (Seq [
    Str ''new'',
    Choice [
      Seq [
        Repeat (Sym ''_annotation''),
        Field ''type_arguments'' (Sym ''type_arguments''),
        Repeat (Sym ''_annotation'')],
      Repeat (Sym ''_annotation'')],
    Field ''type'' (Sym ''_simple_type''),
    Field ''arguments'' (Sym ''argument_list''),
    optional (Sym ''class_body'')])"

definition field_access :: rule where
  "field_access = Seq [
    Field ''object'' (Choice [Sym ''primary_expression'', Sym ''super'']),
    optional (Seq [
      Str ''.'',
      Sym ''super'']),
    Str ''.'',
    Field ''field'' (Choice [Sym ''identifier'', Sym ''_reserved_identifier'', Sym ''this''])]"

definition template_expression :: rule where
  "template_expression = Seq [
    Field ''template_processor'' (Sym ''primary_expression''),
    Str ''.'',
    Field ''template_argument'' (Sym ''string_literal'')]"

definition array_access :: rule where
  "array_access = Seq [
    Field ''array'' (Sym ''primary_expression''),
    Str ''['',
    Field ''index'' (Sym ''expression''),
    Str '']'']"

definition method_invocation :: rule where
  "method_invocation = Seq [
    Choice [
      Field ''name'' (Choice [Sym ''identifier'', Sym ''_reserved_identifier'']),
      Seq [
        Field ''object'' (Choice [Sym ''primary_expression'', Sym ''super'']),
        Str ''.'',
        optional (Seq [
          Sym ''super'',
          Str ''.'']),
        Field ''type_arguments'' (optional (Sym ''type_arguments'')),
        Field ''name'' (Choice [Sym ''identifier'', Sym ''_reserved_identifier''])]],
    Field ''arguments'' (Sym ''argument_list'')]"

definition argument_list :: rule where
  "argument_list = Seq [Str ''('', commaSep (Sym ''expression''), Str '')'']"

definition method_reference :: rule where
  "method_reference = Seq [
    Choice [Sym ''_type'', Sym ''primary_expression'', Sym ''super''],
    Str ''::'',
    optional (Sym ''type_arguments''),
    Choice [Str ''new'', Sym ''identifier'']]"

definition type_arguments :: rule where
  "type_arguments = Seq [
    Str ''<'',
    commaSep (Choice [Sym ''_type'', Sym ''wildcard'']),
    Str ''>'']"

definition wildcard :: rule where
  "wildcard = Seq [
    Repeat (Sym ''_annotation''),
    Str ''?'',
    optional (Sym ''_wildcard_bounds'')]"

definition hid_wildcard_bounds :: rule where
  "hid_wildcard_bounds = Choice [
    Seq [Str ''extends'', Sym ''_type''],
    Seq [Sym ''super'', Sym ''_type'']]"

definition dimensions :: rule where
  "dimensions = PrecRight 0 (Repeat1 (
    Seq [Repeat (Sym ''_annotation''), Str ''['', Str '']'']))"

definition switch_expression :: rule where
  "switch_expression = Seq [
    Str ''switch'',
    Field ''condition'' (Sym ''parenthesized_expression''),
    Field ''body'' (Sym ''switch_block'')]"

definition switch_block :: rule where
  "switch_block = Seq [
    Str ''{'',
    Choice [
      Repeat (Sym ''switch_block_statement_group''),
      Repeat (Sym ''switch_rule'')],
    Str ''}'']"

definition switch_block_statement_group :: rule where
  "switch_block_statement_group = PrecLeft 0 (Seq [
    Repeat1 (Seq [Sym ''switch_label'', Str '':'']),
    Repeat (Sym ''statement'')])"

definition switch_rule :: rule where
  "switch_rule = Seq [
    Sym ''switch_label'',
    Str ''->'',
    Choice [Sym ''expression_statement'', Sym ''throw_statement'', Sym ''block'']]"

definition switch_label :: rule where
  "switch_label = Choice [
    Seq [Str ''case'',
      Choice [
        Sym ''pattern'',
        commaSep1 (Sym ''expression'')],
      optional (Sym ''guard'')],
    Str ''default'']"

definition pattern :: rule where
  "pattern = Choice [
    Sym ''type_pattern'',
    Sym ''record_pattern'']"

definition type_pattern :: rule where
  "type_pattern = Seq [Sym ''_unannotated_type'', Choice [Sym ''identifier'', Sym ''_reserved_identifier'']]"

definition record_pattern :: rule where
  "record_pattern = Seq [
    Choice [Sym ''identifier'', Sym ''_reserved_identifier'', Sym ''generic_type''],
    Sym ''record_pattern_body'']"

definition record_pattern_body :: rule where
  "record_pattern_body = Seq [
    Str ''('',
    commaSep (Choice [Sym ''record_pattern_component'', Sym ''record_pattern'']),
    Str '')'']"

definition record_pattern_component :: rule where
  "record_pattern_component = Choice [
    Sym ''underscore_pattern'',
    Seq [
      Sym ''_unannotated_type'',
      Choice [Sym ''identifier'', Sym ''_reserved_identifier'']]]"

definition underscore_pattern :: rule where
  "underscore_pattern = Str ''_''"

definition guard :: rule where
  "guard = Seq [Str ''when'', Sym ''expression'']"

subsection \<open>Rules: statements\<close>

definition statement :: rule where
  "statement = Choice [
    Sym ''declaration'',
    Sym ''expression_statement'',
    Sym ''labeled_statement'',
    Sym ''if_statement'',
    Sym ''while_statement'',
    Sym ''for_statement'',
    Sym ''enhanced_for_statement'',
    Sym ''block'',
    Str '';'',
    Sym ''assert_statement'',
    Sym ''do_statement'',
    Sym ''break_statement'',
    Sym ''continue_statement'',
    Sym ''return_statement'',
    Sym ''yield_statement'',
    Sym ''switch_expression'',
    Sym ''synchronized_statement'',
    Sym ''local_variable_declaration'',
    Sym ''throw_statement'',
    Sym ''try_statement'',
    Sym ''try_with_resources_statement'']"

definition block :: rule where
  "block = Seq [
    Str ''{'', Repeat (Sym ''statement''), Str ''}'']"

definition expression_statement :: rule where
  "expression_statement = Seq [
    Sym ''expression'',
    Str '';'']"

definition labeled_statement :: rule where
  "labeled_statement = Seq [
    Sym ''identifier'', Str '':'', Sym ''statement'']"

definition assert_statement :: rule where
  "assert_statement = Choice [
    Seq [Str ''assert'', Sym ''expression'', Str '';''],
    Seq [Str ''assert'', Sym ''expression'', Str '':'', Sym ''expression'', Str '';'']]"

definition do_statement :: rule where
  "do_statement = Seq [
    Str ''do'',
    Field ''body'' (Sym ''statement''),
    Str ''while'',
    Field ''condition'' (Sym ''parenthesized_expression''),
    Str '';'']"

definition break_statement :: rule where
  "break_statement = Seq [Str ''break'', optional (Sym ''identifier''), Str '';'']"

definition continue_statement :: rule where
  "continue_statement = Seq [Str ''continue'', optional (Sym ''identifier''), Str '';'']"

definition return_statement :: rule where
  "return_statement = Seq [
    Str ''return'',
    optional (Sym ''expression''),
    Str '';'']"

definition yield_statement :: rule where
  "yield_statement = Seq [
    Str ''yield'',
    Sym ''expression'',
    Str '';'']"

definition synchronized_statement :: rule where
  "synchronized_statement = Seq [
    Str ''synchronized'',
    Sym ''parenthesized_expression'',
    Field ''body'' (Sym ''block'')]"

definition throw_statement :: rule where
  "throw_statement = Seq [Str ''throw'', Sym ''expression'', Str '';'']"

definition try_statement :: rule where
  "try_statement = Seq [
    Str ''try'',
    Field ''body'' (Sym ''block''),
    Choice [
      Repeat1 (Sym ''catch_clause''),
      Seq [Repeat (Sym ''catch_clause''), Sym ''finally_clause'']]]"

definition catch_clause :: rule where
  "catch_clause = Seq [
    Str ''catch'',
    Str ''('',
    Sym ''catch_formal_parameter'',
    Str '')'',
    Field ''body'' (Sym ''block'')]"

definition catch_formal_parameter :: rule where
  "catch_formal_parameter = Seq [
    optional (Sym ''modifiers''),
    Sym ''catch_type'',
    Sym ''_variable_declarator_id'']"

definition catch_type :: rule where
  "catch_type = sep1 (Sym ''_unannotated_type'') (Str ''|'')"

definition finally_clause :: rule where
  "finally_clause = Seq [Str ''finally'', Sym ''block'']"

definition try_with_resources_statement :: rule where
  "try_with_resources_statement = Seq [
    Str ''try'',
    Field ''resources'' (Sym ''resource_specification''),
    Field ''body'' (Sym ''block''),
    Repeat (Sym ''catch_clause''),
    optional (Sym ''finally_clause'')]"

definition resource_specification :: rule where
  "resource_specification = Seq [
    Str ''('', sep1 (Sym ''resource'') (Str '';''), optional (Str '';''), Str '')'']"

definition resource :: rule where
  "resource = Choice [
    Seq [
      optional (Sym ''modifiers''),
      Field ''type'' (Sym ''_unannotated_type''),
      Sym ''_variable_declarator_id'',
      Str ''='',
      Field ''value'' (Sym ''expression'')],
    Sym ''identifier'',
    Sym ''field_access'']"

definition if_statement :: rule where
  "if_statement = PrecRight 0 (Seq [
    Str ''if'',
    Field ''condition'' (Sym ''parenthesized_expression''),
    Field ''consequence'' (Sym ''statement''),
    optional (Seq [Str ''else'', Field ''alternative'' (Sym ''statement'')])])"

definition while_statement :: rule where
  "while_statement = Seq [
    Str ''while'',
    Field ''condition'' (Sym ''parenthesized_expression''),
    Field ''body'' (Sym ''statement'')]"

definition for_statement :: rule where
  "for_statement = Seq [
    Str ''for'', Str ''('',
    Choice [
      Field ''init'' (Sym ''local_variable_declaration''),
      Seq [
        commaSep (Field ''init'' (Sym ''expression'')),
        Str '';'']],
    Field ''condition'' (optional (Sym ''expression'')), Str '';'',
    commaSep (Field ''update'' (Sym ''expression'')), Str '')'',
    Field ''body'' (Sym ''statement'')]"

definition enhanced_for_statement :: rule where
  "enhanced_for_statement = Seq [
    Str ''for'',
    Str ''('',
    optional (Sym ''modifiers''),
    Field ''type'' (Sym ''_unannotated_type''),
    Sym ''_variable_declarator_id'',
    Str '':'',
    Field ''value'' (Sym ''expression''),
    Str '')'',
    Field ''body'' (Sym ''statement'')]"

subsection \<open>Rules: annotations\<close>

definition hid_annotation :: rule where
  "hid_annotation = Choice [
    Sym ''marker_annotation'',
    Sym ''annotation'']"

definition marker_annotation :: rule where
  "marker_annotation = Seq [
    Str ''@'',
    Field ''name'' (Sym ''_name'')]"

definition annotation :: rule where
  "annotation = Seq [
    Str ''@'',
    Field ''name'' (Sym ''_name''),
    Field ''arguments'' (Sym ''annotation_argument_list'')]"

definition annotation_argument_list :: rule where
  "annotation_argument_list = Seq [
    Str ''('',
    Choice [
      Sym ''_element_value'',
      commaSep (Sym ''element_value_pair'')],
    Str '')'']"

definition element_value_pair :: rule where
  "element_value_pair = Seq [
    Field ''key'' (Choice [Sym ''identifier'', Sym ''_reserved_identifier'']),
    Str ''='',
    Field ''value'' (Sym ''_element_value'')]"

definition hid_element_value :: rule where
  "hid_element_value = Prec PREC_ELEMENT_VAL (Choice [
    Sym ''expression'',
    Sym ''element_value_array_initializer'',
    Sym ''_annotation''])"

definition element_value_array_initializer :: rule where
  "element_value_array_initializer = Seq [
    Str ''{'',
    commaSep (Sym ''_element_value''),
    optional (Str '',''),
    Str ''}'']"

subsection \<open>Rules: declarations\<close>

definition declaration_rule :: rule where
  "declaration_rule = Prec PREC_DECL (Choice [
    Sym ''module_declaration'',
    Sym ''package_declaration'',
    Sym ''import_declaration'',
    Sym ''class_declaration'',
    Sym ''record_declaration'',
    Sym ''interface_declaration'',
    Sym ''annotation_type_declaration'',
    Sym ''enum_declaration''])"

definition module_declaration :: rule where
  "module_declaration = Seq [
    Repeat (Sym ''_annotation''),
    optional (Str ''open''),
    Str ''module'',
    Field ''name'' (Sym ''_name''),
    Field ''body'' (Sym ''module_body'')]"

definition module_body :: rule where
  "module_body = Seq [
    Str ''{'',
    Repeat (Sym ''module_directive''),
    Str ''}'']"

definition module_directive :: rule where
  "module_directive = Choice [
    Sym ''requires_module_directive'',
    Sym ''exports_module_directive'',
    Sym ''opens_module_directive'',
    Sym ''uses_module_directive'',
    Sym ''provides_module_directive'']"

definition requires_module_directive :: rule where
  "requires_module_directive = Seq [
    Str ''requires'',
    Repeat (Field ''modifiers'' (Sym ''requires_modifier'')),
    Field ''module'' (Sym ''_name''),
    Str '';'']"

definition requires_modifier :: rule where
  "requires_modifier = Choice [
    Str ''transitive'',
    Str ''static'']"

definition exports_module_directive :: rule where
  "exports_module_directive = Seq [
    Str ''exports'',
    Field ''package'' (Sym ''_name''),
    optional (Seq [
      Str ''to'',
      Field ''modules'' (Sym ''_name''),
      Repeat (Seq [Str '','', Field ''modules'' (Sym ''_name'')])]),
    Str '';'']"

definition opens_module_directive :: rule where
  "opens_module_directive = Seq [
    Str ''opens'',
    Field ''package'' (Sym ''_name''),
    optional (Seq [
      Str ''to'',
      Field ''modules'' (Sym ''_name''),
      Repeat (Seq [Str '','', Field ''modules'' (Sym ''_name'')])]),
    Str '';'']"

definition uses_module_directive :: rule where
  "uses_module_directive = Seq [
    Str ''uses'',
    Field ''type'' (Sym ''_name''),
    Str '';'']"

definition provides_module_directive :: rule where
  "provides_module_directive = Seq [
    Str ''provides'',
    Field ''provided'' (Sym ''_name''),
    Str ''with'',
    Sym ''_name'',
    Repeat (Seq [Str '','', Field ''provider'' (Sym ''_name'')]),
    Str '';'']"

definition package_declaration :: rule where
  "package_declaration = Seq [
    Repeat (Sym ''_annotation''),
    Str ''package'',
    Sym ''_name'',
    Str '';'']"

definition import_declaration :: rule where
  "import_declaration = Seq [
    Str ''import'',
    optional (Str ''static''),
    Sym ''_name'',
    optional (Seq [Str ''.'', Sym ''asterisk'']),
    Str '';'']"

definition asterisk :: rule where
  "asterisk = Str ''*''"

definition enum_declaration :: rule where
  "enum_declaration = Seq [
    optional (Sym ''modifiers''),
    Str ''enum'',
    Field ''name'' (Sym ''identifier''),
    Field ''interfaces'' (optional (Sym ''super_interfaces'')),
    Field ''body'' (Sym ''enum_body'')]"

definition enum_body :: rule where
  "enum_body = Seq [
    Str ''{'',
    commaSep (Sym ''enum_constant''),
    optional (Str '',''),
    optional (Sym ''enum_body_declarations''),
    Str ''}'']"

definition enum_body_declarations :: rule where
  "enum_body_declarations = Seq [
    Str '';'',
    Repeat (Sym ''_class_body_declaration'')]"

definition enum_constant :: rule where
  "enum_constant = Seq [
    optional (Sym ''modifiers''),
    Field ''name'' (Sym ''identifier''),
    Field ''arguments'' (optional (Sym ''argument_list'')),
    Field ''body'' (optional (Sym ''class_body''))]"

definition class_declaration :: rule where
  "class_declaration = Seq [
    optional (Sym ''modifiers''),
    Str ''class'',
    Field ''name'' (Sym ''identifier''),
    optional (Field ''type_parameters'' (Sym ''type_parameters'')),
    optional (Field ''superclass'' (Sym ''superclass'')),
    optional (Field ''interfaces'' (Sym ''super_interfaces'')),
    optional (Field ''permits'' (Sym ''permits'')),
    Field ''body'' (Sym ''class_body'')]"

definition modifiers :: rule where
  "modifiers = Repeat1 (Choice [
    Sym ''_annotation'',
    Str ''public'',
    Str ''protected'',
    Str ''private'',
    Str ''abstract'',
    Str ''static'',
    Str ''final'',
    Str ''strictfp'',
    Str ''default'',
    Str ''synchronized'',
    Str ''native'',
    Str ''transient'',
    Str ''volatile'',
    Str ''sealed'',
    Str ''non-sealed''])"

definition type_parameters :: rule where
  "type_parameters = Seq [
    Str ''<'', commaSep1 (Sym ''type_parameter''), Str ''>'']"

definition type_parameter :: rule where
  "type_parameter = Seq [
    Repeat (Sym ''_annotation''),
    Alias (Sym ''identifier'') ''type_identifier'',
    optional (Sym ''type_bound'')]"

definition type_bound :: rule where
  "type_bound = Seq [Str ''extends'', Sym ''_type'', Repeat (Seq [Str ''&'', Sym ''_type''])]"

definition superclass :: rule where
  "superclass = Seq [
    Str ''extends'',
    Sym ''_type'']"

definition super_interfaces :: rule where
  "super_interfaces = Seq [
    Str ''implements'',
    Sym ''type_list'']"

definition type_list :: rule where
  "type_list = Seq [
    Sym ''_type'',
    Repeat (Seq [Str '','', Sym ''_type''])]"

definition permits :: rule where
  "permits = Seq [
    Str ''permits'',
    Sym ''type_list'']"

definition class_body :: rule where
  "class_body = Seq [
    Str ''{'',
    Repeat (Sym ''_class_body_declaration''),
    Str ''}'']"

definition hid_class_body_declaration :: rule where
  "hid_class_body_declaration = Choice [
    Sym ''field_declaration'',
    Sym ''record_declaration'',
    Sym ''method_declaration'',
    Sym ''compact_constructor_declaration'',
    Sym ''class_declaration'',
    Sym ''interface_declaration'',
    Sym ''annotation_type_declaration'',
    Sym ''enum_declaration'',
    Sym ''block'',
    Sym ''static_initializer'',
    Sym ''constructor_declaration'',
    Str '';'']"

definition static_initializer :: rule where
  "static_initializer = Seq [
    Str ''static'',
    Sym ''block'']"

definition constructor_declaration :: rule where
  "constructor_declaration = Seq [
    optional (Sym ''modifiers''),
    Sym ''_constructor_declarator'',
    optional (Sym ''throws''),
    Field ''body'' (Sym ''constructor_body'')]"

definition hid_constructor_declarator :: rule where
  "hid_constructor_declarator = Seq [
    Field ''type_parameters'' (optional (Sym ''type_parameters'')),
    Field ''name'' (Sym ''identifier''),
    Field ''parameters'' (Sym ''formal_parameters'')]"

definition constructor_body :: rule where
  "constructor_body = Seq [
    Str ''{'',
    optional (Sym ''explicit_constructor_invocation''),
    Repeat (Sym ''statement''),
    Str ''}'']"

definition explicit_constructor_invocation :: rule where
  "explicit_constructor_invocation = Seq [
    Choice [
      Seq [
        Field ''type_arguments'' (optional (Sym ''type_arguments'')),
        Field ''constructor'' (Choice [Sym ''this'', Sym ''super''])],
      Seq [
        Field ''object'' (Choice [Sym ''primary_expression'']),
        Str ''.'',
        Field ''type_arguments'' (optional (Sym ''type_arguments'')),
        Field ''constructor'' (Sym ''super'')]],
    Field ''arguments'' (Sym ''argument_list''),
    Str '';'']"

definition hid_name :: rule where
  "hid_name = Choice [
    Sym ''identifier'',
    Sym ''_reserved_identifier'',
    Sym ''scoped_identifier'']"

definition scoped_identifier :: rule where
  "scoped_identifier = Seq [
    Field ''scope'' (Sym ''_name''),
    Str ''.'',
    Field ''name'' (Sym ''identifier'')]"

definition field_declaration :: rule where
  "field_declaration = Seq [
    optional (Sym ''modifiers''),
    Field ''type'' (Sym ''_unannotated_type''),
    Sym ''_variable_declarator_list'',
    Str '';'']"

definition record_declaration :: rule where
  "record_declaration = Seq [
    optional (Sym ''modifiers''),
    Str ''record'',
    Field ''name'' (Sym ''identifier''),
    optional (Field ''type_parameters'' (Sym ''type_parameters'')),
    Field ''parameters'' (Sym ''formal_parameters''),
    optional (Field ''interfaces'' (Sym ''super_interfaces'')),
    Field ''body'' (Sym ''class_body'')]"

definition annotation_type_declaration :: rule where
  "annotation_type_declaration = Seq [
    optional (Sym ''modifiers''),
    Str ''@interface'',
    Field ''name'' (Sym ''identifier''),
    Field ''body'' (Sym ''annotation_type_body'')]"

definition annotation_type_body :: rule where
  "annotation_type_body = Seq [
    Str ''{'',
    Repeat (Choice [
      Sym ''annotation_type_element_declaration'',
      Sym ''constant_declaration'',
      Sym ''class_declaration'',
      Sym ''interface_declaration'',
      Sym ''enum_declaration'',
      Sym ''annotation_type_declaration'',
      Str '';'']),
    Str ''}'']"

definition annotation_type_element_declaration :: rule where
  "annotation_type_element_declaration = Seq [
    optional (Sym ''modifiers''),
    Field ''type'' (Sym ''_unannotated_type''),
    Field ''name'' (Choice [Sym ''identifier'', Sym ''_reserved_identifier'']),
    Str ''('', Str '')'',
    Field ''dimensions'' (optional (Sym ''dimensions'')),
    optional (Sym ''_default_value''),
    Str '';'']"

definition hid_default_value :: rule where
  "hid_default_value = Seq [
    Str ''default'',
    Field ''value'' (Sym ''_element_value'')]"

definition interface_declaration :: rule where
  "interface_declaration = Seq [
    optional (Sym ''modifiers''),
    Str ''interface'',
    Field ''name'' (Sym ''identifier''),
    Field ''type_parameters'' (optional (Sym ''type_parameters'')),
    optional (Sym ''extends_interfaces''),
    optional (Field ''permits'' (Sym ''permits'')),
    Field ''body'' (Sym ''interface_body'')]"

definition extends_interfaces :: rule where
  "extends_interfaces = Seq [
    Str ''extends'',
    Sym ''type_list'']"

definition interface_body :: rule where
  "interface_body = Seq [
    Str ''{'',
    Repeat (Choice [
      Sym ''constant_declaration'',
      Sym ''enum_declaration'',
      Sym ''method_declaration'',
      Sym ''class_declaration'',
      Sym ''interface_declaration'',
      Sym ''record_declaration'',
      Sym ''annotation_type_declaration'',
      Str '';'']),
    Str ''}'']"

definition constant_declaration :: rule where
  "constant_declaration = Seq [
    optional (Sym ''modifiers''),
    Field ''type'' (Sym ''_unannotated_type''),
    Sym ''_variable_declarator_list'',
    Str '';'']"

definition hid_variable_declarator_list :: rule where
  "hid_variable_declarator_list = commaSep1 (
    Field ''declarator'' (Sym ''variable_declarator''))"

definition variable_declarator :: rule where
  "variable_declarator = Seq [
    Sym ''_variable_declarator_id'',
    optional (Seq [Str ''='', Field ''value'' (Sym ''_variable_initializer'')])]"

definition hid_variable_declarator_id :: rule where
  "hid_variable_declarator_id = Seq [
    Field ''name'' (Choice [Sym ''identifier'', Sym ''_reserved_identifier'', Sym ''underscore_pattern'']),
    Field ''dimensions'' (optional (Sym ''dimensions''))]"

definition hid_variable_initializer :: rule where
  "hid_variable_initializer = Choice [
    Sym ''expression'',
    Sym ''array_initializer'']"

definition array_initializer :: rule where
  "array_initializer = Seq [
    Str ''{'',
    commaSep (Sym ''_variable_initializer''),
    optional (Str '',''),
    Str ''}'']"

subsection \<open>Rules: types, methods, identifiers and comments\<close>

definition hid_type :: rule where
  "hid_type = Choice [
    Sym ''_unannotated_type'',
    Sym ''annotated_type'']"

definition hid_unannotated_type :: rule where
  "hid_unannotated_type = Choice [
    Sym ''_simple_type'',
    Sym ''array_type'']"

definition hid_simple_type :: rule where
  "hid_simple_type = Choice [
    Sym ''void_type'',
    Sym ''integral_type'',
    Sym ''floating_point_type'',
    Sym ''boolean_type'',
    Alias (Sym ''identifier'') ''type_identifier'',
    Sym ''scoped_type_identifier'',
    Sym ''generic_type'']"

definition annotated_type :: rule where
  "annotated_type = Seq [
    Repeat1 (Sym ''_annotation''),
    Sym ''_unannotated_type'']"

definition scoped_type_identifier :: rule where
  "scoped_type_identifier = Seq [
    Choice [
      Alias (Sym ''identifier'') ''type_identifier'',
      Sym ''scoped_type_identifier'',
      Sym ''generic_type''],
    Str ''.'',
    Repeat (Sym ''_annotation''),
    Alias (Sym ''identifier'') ''type_identifier'']"

definition generic_type :: rule where
  "generic_type = PrecDynamic PREC_GENERIC (Seq [
    Choice [
      Alias (Sym ''identifier'') ''type_identifier'',
      Sym ''scoped_type_identifier''],
    Sym ''type_arguments''])"

definition array_type :: rule where
  "array_type = Seq [
    Field ''element'' (Sym ''_unannotated_type''),
    Field ''dimensions'' (Sym ''dimensions'')]"

definition integral_type :: rule where
  "integral_type = Choice [
    Str ''byte'',
    Str ''short'',
    Str ''int'',
    Str ''long'',
    Str ''char'']"

definition floating_point_type :: rule where
  "floating_point_type = Choice [
    Str ''float'',
    Str ''double'']"

definition boolean_type :: rule where
  "boolean_type = Str ''boolean''"

definition void_type :: rule where
  "void_type = Str ''void''"

definition hid_method_header :: rule where
  "hid_method_header = Seq [
    optional (Seq [
      Field ''type_parameters'' (Sym ''type_parameters''),
      Repeat (Sym ''_annotation'')]),
    Field ''type'' (Sym ''_unannotated_type''),
    Sym ''_method_declarator'',
    optional (Sym ''throws'')]"

definition hid_method_declarator :: rule where
  "hid_method_declarator = Seq [
    Field ''name'' (Choice [Sym ''identifier'', Sym ''_reserved_identifier'']),
    Field ''parameters'' (Sym ''formal_parameters''),
    Field ''dimensions'' (optional (Sym ''dimensions''))]"

definition formal_parameters :: rule where
  "formal_parameters = Seq [
    Str ''('',
    Choice [
      Sym ''receiver_parameter'',
      Seq [
        optional (Seq [Sym ''receiver_parameter'', Str '','']),
        commaSep (Choice [Sym ''formal_parameter'', Sym ''spread_parameter''])]],
    Str '')'']"

definition formal_parameter :: rule where
  "formal_parameter = Seq [
    optional (Sym ''modifiers''),
    Field ''type'' (Sym ''_unannotated_type''),
    Sym ''_variable_declarator_id'']"

definition receiver_parameter :: rule where
  "receiver_parameter = Seq [
    Repeat (Sym ''_annotation''),
    Sym ''_unannotated_type'',
    Repeat (Seq [Sym ''identifier'', Str ''.'']),
    Sym ''this'']"

definition spread_parameter :: rule where
  "spread_parameter = Seq [
    optional (Sym ''modifiers''),
    Sym ''_unannotated_type'',
    Str ''...'',
    Repeat (Sym ''_annotation''),
    Sym ''variable_declarator'']"

definition throws :: rule where
  "throws = Seq [
    Str ''throws'', commaSep1 (Sym ''_type'')]"

definition local_variable_declaration :: rule where
  "local_variable_declaration = Seq [
    optional (Sym ''modifiers''),
    Field ''type'' (Sym ''_unannotated_type''),
    Sym ''_variable_declarator_list'',
    Str '';'']"

definition method_declaration :: rule where
  "method_declaration = Seq [
    optional (Sym ''modifiers''),
    Sym ''_method_header'',
    Choice [Field ''body'' (Sym ''block''), Str '';'']]"

definition compact_constructor_declaration :: rule where
  "compact_constructor_declaration = Seq [
    optional (Sym ''modifiers''),
    Field ''name'' (Sym ''identifier''),
    Field ''body'' (Sym ''block'')]"

definition hid_reserved_identifier :: rule where
  "hid_reserved_identifier = Choice [
    Prec (-3) (Alias
      (Choice [
        Str ''open'',
        Str ''module'',
        Str ''record'',
        Str ''with'',
        Str ''sealed''])
      ''identifier''),
    Alias (Str ''yield'') ''identifier'']"

definition this :: rule where
  "this = Str ''this''"

definition super :: rule where
  "super = Str ''super''"

definition identifier_rule :: rule where
  "identifier_rule = Pat (RCat
    (RSet False [CProp ''XID_Start'', CChar 95, CChar 36])
    (RStar (RSet False [CProp ''XID_Continue'', CChar 162, CChar 95, CChar 36])))"

definition line_comment :: rule where
  "line_comment = Token (Prec PREC_COMMENT (Seq [Str ''//'', Pat (RStar (RSet True [CChar 10]))]))"

definition block_comment :: rule where
  "block_comment = Token (Prec PREC_COMMENT (
    Seq [
      Str ''/*'',
      Pat (RCat (RStar (RSet True [CChar 42]))
          (RCat (RPlus (RChr 42))
          (RStar (RCat (RSet True [CChar 47, CChar 42])
                 (RCat (RStar (RSet True [CChar 42])) (RPlus (RChr 42))))))),
      Str ''/'']))"

subsection \<open>The rule table\<close>

definition rules :: "(string \<times> rule) list" where
  "rules = [
    (''program'', program),
    (''_toplevel_statement'', hid_toplevel_statement),
    (''_literal'', hid_literal),
    (''decimal_integer_literal'', decimal_integer_literal),
    (''hex_integer_literal'', hex_integer_literal),
    (''octal_integer_literal'', octal_integer_literal),
    (''binary_integer_literal'', binary_integer_literal),
    (''decimal_floating_point_literal'', decimal_floating_point_literal),
    (''hex_floating_point_literal'', hex_floating_point_literal),
    (''true'', true),
    (''false'', false),
    (''character_literal'', character_literal),
    (''string_literal'', string_literal),
    (''_string_literal'', hid_string_literal),
    (''_multiline_string_literal'', hid_multiline_string_literal),
    (''string_fragment'', string_fragment),
    (''_multiline_string_fragment'', hid_multiline_string_fragment),
    (''string_interpolation'', string_interpolation),
    (''_escape_sequence'', hid_escape_sequence),
    (''escape_sequence'', escape_sequence),
    (''null_literal'', null_literal),
    (''expression'', expression),
    (''cast_expression'', cast_expression),
    (''assignment_expression'', assignment_expression),
    (''binary_expression'', binary_expression),
    (''instanceof_expression'', instanceof_expression),
    (''lambda_expression'', lambda_expression),
    (''inferred_parameters'', inferred_parameters),
    (''ternary_expression'', ternary_expression),
    (''unary_expression'', unary_expression),
    (''update_expression'', update_expression),
    (''primary_expression'', primary_expression),
    (''array_creation_expression'', array_creation_expression),
    (''dimensions_expr'', dimensions_expr),
    (''parenthesized_expression'', parenthesized_expression),
    (''class_literal'', class_literal),
    (''object_creation_expression'', object_creation_expression),
    (''_unqualified_object_creation_expression'', hid_unqualified_object_creation_expression),
    (''field_access'', field_access),
    (''template_expression'', template_expression),
    (''array_access'', array_access),
    (''method_invocation'', method_invocation),
    (''argument_list'', argument_list),
    (''method_reference'', method_reference),
    (''type_arguments'', type_arguments),
    (''wildcard'', wildcard),
    (''_wildcard_bounds'', hid_wildcard_bounds),
    (''dimensions'', dimensions),
    (''switch_expression'', switch_expression),
    (''switch_block'', switch_block),
    (''switch_block_statement_group'', switch_block_statement_group),
    (''switch_rule'', switch_rule),
    (''switch_label'', switch_label),
    (''pattern'', pattern),
    (''type_pattern'', type_pattern),
    (''record_pattern'', record_pattern),
    (''record_pattern_body'', record_pattern_body),
    (''record_pattern_component'', record_pattern_component),
    (''underscore_pattern'', underscore_pattern),
    (''guard'', guard),
    (''statement'', statement),
    (''block'', block),
    (''expression_statement'', expression_statement),
    (''labeled_statement'', labeled_statement),
    (''assert_statement'', assert_statement),
    (''do_statement'', do_statement),
    (''break_statement'', break_statement),
    (''continue_statement'', continue_statement),
    (''return_statement'', return_statement),
    (''yield_statement'', yield_statement),
    (''synchronized_statement'', synchronized_statement),
    (''throw_statement'', throw_statement),
    (''try_statement'', try_statement),
    (''catch_clause'', catch_clause),
    (''catch_formal_parameter'', catch_formal_parameter),
    (''catch_type'', catch_type),
    (''finally_clause'', finally_clause),
    (''try_with_resources_statement'', try_with_resources_statement),
    (''resource_specification'', resource_specification),
    (''resource'', resource),
    (''if_statement'', if_statement),
    (''while_statement'', while_statement),
    (''for_statement'', for_statement),
    (''enhanced_for_statement'', enhanced_for_statement),
    (''_annotation'', hid_annotation),
    (''marker_annotation'', marker_annotation),
    (''annotation'', annotation),
    (''annotation_argument_list'', annotation_argument_list),
    (''element_value_pair'', element_value_pair),
    (''_element_value'', hid_element_value),
    (''element_value_array_initializer'', element_value_array_initializer),
    (''declaration'', declaration_rule),
    (''module_declaration'', module_declaration),
    (''module_body'', module_body),
    (''module_directive'', module_directive),
    (''requires_module_directive'', requires_module_directive),
    (''requires_modifier'', requires_modifier),
    (''exports_module_directive'', exports_module_directive),
    (''opens_module_directive'', opens_module_directive),
    (''uses_module_directive'', uses_module_directive),
    (''provides_module_directive'', provides_module_directive),
    (''package_declaration'', package_declaration),
    (''import_declaration'', import_declaration),
    (''asterisk'', asterisk),
    (''enum_declaration'', enum_declaration),
    (''enum_body'', enum_body),
    (''enum_body_declarations'', enum_body_declarations),
    (''enum_constant'', enum_constant),
    (''class_declaration'', class_declaration),
    (''modifiers'', modifiers),
    (''type_parameters'', type_parameters),
    (''type_parameter'', type_parameter),
    (''type_bound'', type_bound),
    (''superclass'', superclass),
    (''super_interfaces'', super_interfaces),
    (''type_list'', type_list),
    (''permits'', permits),
    (''class_body'', class_body),
    (''_class_body_declaration'', hid_class_body_declaration),
    (''static_initializer'', static_initializer),
    (''constructor_declaration'', constructor_declaration),
    (''_constructor_declarator'', hid_constructor_declarator),
    (''constructor_body'', constructor_body),
    (''explicit_constructor_invocation'', explicit_constructor_invocation),
    (''_name'', hid_name),
    (''scoped_identifier'', scoped_identifier),
    (''field_declaration'', field_declaration),
    (''record_declaration'', record_declaration),
    (''annotation_type_declaration'', annotation_type_declaration),
    (''annotation_type_body'', annotation_type_body),
    (''annotation_type_element_declaration'', annotation_type_element_declaration),
    (''_default_value'', hid_default_value),
    (''interface_declaration'', interface_declaration),
    (''extends_interfaces'', extends_interfaces),
    (''interface_body'', interface_body),
    (''constant_declaration'', constant_declaration),
    (''_variable_declarator_list'', hid_variable_declarator_list),
    (''variable_declarator'', variable_declarator),
    (''_variable_declarator_id'', hid_variable_declarator_id),
    (''_variable_initializer'', hid_variable_initializer),
    (''array_initializer'', array_initializer),
    (''_type'', hid_type),
    (''_unannotated_type'', hid_unannotated_type),
    (''_simple_type'', hid_simple_type),
    (''annotated_type'', annotated_type),
    (''scoped_type_identifier'', scoped_type_identifier),
    (''generic_type'', generic_type),
    (''array_type'', array_type),
    (''integral_type'', integral_type),
    (''floating_point_type'', floating_point_type),
    (''boolean_type'', boolean_type),
    (''void_type'', void_type),
    (''_method_header'', hid_method_header),
    (''_method_declarator'', hid_method_declarator),
    (''formal_parameters'', formal_parameters),
    (''formal_parameter'', formal_parameter),
    (''receiver_parameter'', receiver_parameter),
    (''spread_parameter'', spread_parameter),
    (''throws'', throws),
    (''local_variable_declaration'', local_variable_declaration),
    (''method_declaration'', method_declaration),
    (''compact_constructor_declaration'', compact_constructor_declaration),
    (''_reserved_identifier'', hid_reserved_identifier),
    (''this'', this),
    (''super'', super),
    (''identifier'', identifier_rule),
    (''line_comment'', line_comment),
    (''block_comment'', block_comment)]"

text \<open>A reference \<^verbatim>\<open>$.name\<close> is resolved in the table; the first entry of a name counts.\<close>

fun lookup :: "(string \<times> rule) list \<Rightarrow> string \<Rightarrow> rule option" where
  "lookup [] n = None"
| "lookup ((k, v) # ps) n = (if n = k then Some v else lookup ps n)"

definition java_rule :: "string \<Rightarrow> rule option" where
  "java_rule n = lookup rules n"

section \<open>Syntax trees and derivations\<close>

text \<open>
  Modelled from the spec: the combinators \<^verbatim>\<open>seq\<close>, \<^verbatim>\<open>choice\<close>, \<^verbatim>\<open>repeat\<close>, \<^verbatim>\<open>field\<close>,
  \<^verbatim>\<open>alias\<close>, \<^verbatim>\<open>token\<close> and \<^verbatim>\<open>prec\<close> are declared by the parser generator
  (\<^verbatim>\<open>tree-sitter-cli/dsl\<close>), not by this repository.  Their meaning is taken from the
  spec's data model: a rule is a named nonterminal with an ordered alternative set; a
  node is a kind tag, an ordered sequence of children and field labels on children; a
  token has a kind and its literal text; a rule of the inline list, a supertype and a
  rule whose name starts with an underscore leave no node of their own.

  A tree is an anonymous token of a string literal (\<open>Tok\<close>), an anonymous token of a
  pattern (\<open>Anon\<close>), a named token with its text (\<open>Lex\<close>), or a node with its children
  (\<open>Node\<close>); \<open>Fld f t\<close> is the child \<open>t\<close> carrying the field label \<open>f\<close>.
\<close>

datatype tree =
    Tok string
  | Anon "nat list"
  | Lex string "nat list"
  | Node string "tree list"
  | Fld string tree

text \<open>A rule that is a single token: its node is a leaf holding the matched text.\<close>

fun terminal :: "rule \<Rightarrow> bool" where
  "terminal (Str s) = True"
| "terminal (Pat p) = True"
| "terminal (Token r) = True"
| "terminal (TokenImm r) = True"
| "terminal r = False"

text \<open>The regular expression of a token's content.\<close>

fun rx_of :: "rule \<Rightarrow> rx" where
  "rx_of Blank = REps"
| "rx_of (Str s) = RLit s"
| "rx_of (Pat p) = p"
| "rx_of (Sym n) = RNone"
| "rx_of (Seq rs) = foldr RCat (map rx_of rs) REps"
| "rx_of (Choice rs) = foldr RAlt (map rx_of rs) RNone"
| "rx_of (Repeat r) = RStar (rx_of r)"
| "rx_of (Repeat1 r) = RPlus (rx_of r)"
| "rx_of (Token r) = rx_of r"
| "rx_of (TokenImm r) = rx_of r"
| "rx_of (Prec p r) = rx_of r"
| "rx_of (PrecLeft p r) = rx_of r"
| "rx_of (PrecRight p r) = rx_of r"
| "rx_of (PrecDynamic p r) = rx_of r"
| "rx_of (Field f r) = rx_of r"
| "rx_of (Alias r n) = rx_of r"

definition hidden :: "string \<Rightarrow> bool" where
  "hidden n = (take 1 n = ''_'' \<or> n \<in> set supertypes \<or> n \<in> set inline)"

fun relabel :: "string \<Rightarrow> tree \<Rightarrow> tree" where
  "relabel n (Tok s) = Lex n (cps s)"
| "relabel n (Anon t) = Lex n t"
| "relabel n (Lex k t) = Lex n t"
| "relabel n (Node k cs) = Node n cs"
| "relabel n (Fld f t) = Fld f (relabel n t)"

fun is_Sym :: "rule \<Rightarrow> bool" where
  "is_Sym (Sym n) = True"
| "is_Sym r = False"

text \<open>
  \<open>derives U r cs\<close>: the rule \<open>r\<close> produces the sequence of children \<open>cs\<close>.  Precedence
  annotations do not change what a rule derives; trivia (the grammar's \<open>extras\<close>) is not
  part of a derivation.
\<close>

inductive derives :: "utable \<Rightarrow> rule \<Rightarrow> tree list \<Rightarrow> bool" for U :: utable where
  d_blank: "derives U Blank []"
| d_str: "derives U (Str s) [Tok s]"
| d_pat: "rx_match U p t \<Longrightarrow> derives U (Pat p) [Anon t]"
| d_token: "rx_match U (rx_of r) t \<Longrightarrow> derives U (Token r) [Anon t]"
| d_token_imm: "rx_match U (rx_of r) t \<Longrightarrow> derives U (TokenImm r) [Anon t]"
| d_leaf: "java_rule n = Some b \<Longrightarrow> terminal b \<Longrightarrow> rx_match U (rx_of b) t \<Longrightarrow>
     derives U (Sym n) [Lex n t]"
| d_node: "java_rule n = Some b \<Longrightarrow> \<not> terminal b \<Longrightarrow> \<not> hidden n \<Longrightarrow> derives U b cs \<Longrightarrow>
     derives U (Sym n) [Node n cs]"
| d_hidden: "java_rule n = Some b \<Longrightarrow> \<not> terminal b \<Longrightarrow> hidden n \<Longrightarrow> derives U b cs \<Longrightarrow>
     derives U (Sym n) cs"
| d_seq_nil: "derives U (Seq []) []"
| d_seq_cons: "derives U r as \<Longrightarrow> derives U (Seq rs) bs \<Longrightarrow> derives U (Seq (r # rs)) (as @ bs)"
| d_choice: "r \<in> set rs \<Longrightarrow> derives U r cs \<Longrightarrow> derives U (Choice rs) cs"
| d_repeat_nil: "derives U (Repeat r) []"
| d_repeat_cons: "derives U r as \<Longrightarrow> derives U (Repeat r) bs \<Longrightarrow> derives U (Repeat r) (as @ bs)"
| d_repeat1: "derives U r as \<Longrightarrow> derives U (Repeat r) bs \<Longrightarrow> derives U (Repeat1 r) (as @ bs)"
| d_prec: "derives U r cs \<Longrightarrow> derives U (Prec p r) cs"
| d_prec_left: "derives U r cs \<Longrightarrow> derives U (PrecLeft p r) cs"
| d_prec_right: "derives U r cs \<Longrightarrow> derives U (PrecRight p r) cs"
| d_prec_dynamic: "derives U r cs \<Longrightarrow> derives U (PrecDynamic p r) cs"
| d_field: "derives U r cs \<Longrightarrow> derives U (Field f r) (map (Fld f) cs)"
| d_alias_leaf: "java_rule m = Some b \<Longrightarrow> terminal b \<Longrightarrow> rx_match U (rx_of b) t \<Longrightarrow>
     derives U (Alias (Sym m) n) [Lex n t]"
| d_alias_node: "java_rule m = Some b \<Longrightarrow> \<not> terminal b \<Longrightarrow> derives U b cs \<Longrightarrow>
     derives U (Alias (Sym m) n) [Node n cs]"
| d_alias_token: "\<not> is_Sym r \<Longrightarrow> derives U r [t] \<Longrightarrow> derives U (Alias r n) [relabel n t]"

text \<open>The tokens of a tree from left to right, and the text they spell.\<close>

fun leaves :: "tree \<Rightarrow> tree list" where
  "leaves (Tok s) = [Tok s]"
| "leaves (Anon t) = [Anon t]"
| "leaves (Lex k t) = [Lex k t]"
| "leaves (Node k cs) = concat (map leaves cs)"
| "leaves (Fld f t) = leaves t"

fun text_of :: "tree \<Rightarrow> nat list" where
  "text_of (Tok s) = cps s"
| "text_of (Anon t) = t"
| "text_of (Lex k t) = t"
| "text_of (Node k cs) = concat (map text_of cs)"
| "text_of (Fld f t) = text_of t"

fun unfield :: "tree \<Rightarrow> tree" where
  "unfield (Fld f t) = unfield t"
| "unfield t = t"

fun kind :: "tree \<Rightarrow> string" where
  "kind (Tok s) = s"
| "kind (Anon t) = []"
| "kind (Lex k t) = k"
| "kind (Node k cs) = k"
| "kind (Fld f t) = kind t"

fun has_field :: "string \<Rightarrow> tree \<Rightarrow> bool" where
  "has_field f (Fld g t) = (f = g \<or> has_field f t)"
| "has_field f t = False"

definition field_children :: "string \<Rightarrow> tree list \<Rightarrow> tree list" where
  "field_children f cs = map unfield (filter (has_field f) cs)"

subsection \<open>Precedence and associativity\<close>

text \<open>
  Modelled from the spec: a precedence level is an integer with an associativity (left,
  right or none), levels totally order binding strength, and the nesting of operators is
  resolved from the level table and the associativity.  The parser generator that applies
  the annotations \<^verbatim>\<open>prec\<close>, \<^verbatim>\<open>prec.left\<close> and \<^verbatim>\<open>prec.right\<close> is not part of this repository,
  so the resolution is stated on trees: a tree is admissible when no node holds, at an end
  that is an operand, a child that its level and associativity give to another nesting.

  The production of a node is the annotated rule that produced it, read from the rule
  table: the rule itself when it is annotated as a whole, or, in a choice of annotated
  sequences, the alternative with the node's operator.  An end of a production is an
  operand when the first (or last) member of its sequence is a reference to
  \<^verbatim>\<open>expression\<close>, with or without a field name.
\<close>

datatype assoc = ANone | ALeft | ARight

fun wrapper :: "rule \<Rightarrow> (assoc \<times> int) option" where
  "wrapper (Prec p r) = Some (ANone, p)"
| "wrapper (PrecLeft p r) = Some (ALeft, p)"
| "wrapper (PrecRight p r) = Some (ARight, p)"
| "wrapper r = None"

fun unwrapped :: "rule \<Rightarrow> rule" where
  "unwrapped (Prec p r) = r"
| "unwrapped (PrecLeft p r) = r"
| "unwrapped (PrecRight p r) = r"
| "unwrapped r = r"

fun members :: "rule \<Rightarrow> rule list" where
  "members (Seq rs) = rs"
| "members (Choice rs) = rs"
| "members r = [r]"

fun parts :: "rule \<Rightarrow> rule list" where
  "parts (Seq rs) = rs"
| "parts r = []"

fun strip_field :: "rule \<Rightarrow> rule" where
  "strip_field (Field f r) = strip_field r"
| "strip_field r = r"

definition operand :: "rule \<Rightarrow> bool" where
  "operand r = (strip_field r = Sym ''expression'')"

definition first_operand :: "rule \<Rightarrow> bool" where
  "first_operand a = (case parts (unwrapped a) of [] \<Rightarrow> False | m # ms \<Rightarrow> operand m)"

definition last_operand :: "rule \<Rightarrow> bool" where
  "last_operand a = (case parts (unwrapped a) of [] \<Rightarrow> False | m # ms \<Rightarrow> operand (last (m # ms)))"

definition operator_of :: "tree list \<Rightarrow> string option" where
  "operator_of cs = (case field_children ''operator'' cs of Tok s # ts \<Rightarrow> Some s | _ \<Rightarrow> None)"

definition production :: "string \<Rightarrow> tree list \<Rightarrow> rule option" where
  "production k cs =
    (case java_rule k of
       None \<Rightarrow> None
     | Some b \<Rightarrow>
        (case wrapper b of
           Some w \<Rightarrow> Some b
         | None \<Rightarrow>
            (case operator_of cs of
               None \<Rightarrow> None
             | Some s \<Rightarrow>
                (case filter (\<lambda>a. Field ''operator'' (Str s) \<in> set (parts (unwrapped a))) (members b) of
                   [] \<Rightarrow> None
                 | a # as \<Rightarrow> Some a))))"

definition production_of :: "tree \<Rightarrow> rule option" where
  "production_of t = (case unfield t of Node k cs \<Rightarrow> production k cs | _ \<Rightarrow> None)"

fun subtree :: "tree \<Rightarrow> bool" where
  "subtree (Tok s) = False"
| "subtree (Anon t) = False"
| "subtree (Lex k t) = True"
| "subtree (Node k cs) = True"
| "subtree (Fld f t) = subtree t"

text \<open>
  A node at level \<open>p\<close> whose production ends in an operand may end in a child whose own
  production begins with an operand only if the child binds tighter, or as tight and
  the node is right-associative.  A node whose production begins with an operand may
  begin with a child whose own production ends in an operand only if the child binds
  tighter, or as tight and the child is left-associative.  Nothing is asked of a child
  between the ends, of a child whose facing end is not an operand, or of a leaf.
\<close>

definition right_end_ok :: "assoc \<Rightarrow> int \<Rightarrow> tree \<Rightarrow> bool" where
  "right_end_ok a p c =
    (case production_of c of
       None \<Rightarrow> True
     | Some b \<Rightarrow>
        (case wrapper b of
           None \<Rightarrow> True
         | Some (a', q) \<Rightarrow> \<not> first_operand b \<or> p < q \<or> (q = p \<and> a = ARight)))"

definition left_end_ok :: "int \<Rightarrow> tree \<Rightarrow> bool" where
  "left_end_ok p c =
    (case production_of c of
       None \<Rightarrow> True
     | Some b \<Rightarrow>
        (case wrapper b of
           None \<Rightarrow> True
         | Some (a', q) \<Rightarrow> \<not> last_operand b \<or> p < q \<or> (q = p \<and> a' = ALeft)))"

definition ends_ok :: "string \<Rightarrow> tree list \<Rightarrow> bool" where
  "ends_ok k cs =
    (case production k cs of
       None \<Rightarrow> True
     | Some b \<Rightarrow>
        (case wrapper b of
           None \<Rightarrow> True
         | Some (a, p) \<Rightarrow>
            (case cs of
               [] \<Rightarrow> True
             | c # cs' \<Rightarrow>
                (\<not> first_operand b \<or> left_end_ok p c) \<and>
                (\<not> last_operand b \<or> right_end_ok a p (last cs)))))"

fun admissible :: "tree \<Rightarrow> bool" where
  "admissible (Node k cs) = (list_all admissible cs \<and> ends_ok k cs)"
| "admissible (Fld f t) = admissible t"
| "admissible t = True"

section \<open>Notions used by the statements\<close>

text \<open>
  The Unicode properties \<open>XID_Start\<close>, \<open>XID_Continue\<close> and \<open>White_Space\<close> (the class
  \<^verbatim>\<open>\s\<close>) restricted to the code points below 256, as a concrete table for examples.
\<close>

definition latin1_letter :: "nat \<Rightarrow> bool" where
  "latin1_letter c = ((65 \<le> c \<and> c \<le> 90) \<or> (97 \<le> c \<and> c \<le> 122) \<or> c = 170 \<or> c = 181 \<or> c = 186
     \<or> (192 \<le> c \<and> c \<le> 214) \<or> (216 \<le> c \<and> c \<le> 246) \<or> (248 \<le> c \<and> c \<le> 255))"

definition latin1_table :: utable where
  "latin1_table p c =
    (if p = ''XID_Start'' then latin1_letter c
     else if p = ''XID_Continue'' then latin1_letter c \<or> (48 \<le> c \<and> c \<le> 57) \<or> c = 95 \<or> c = 183
     else if p = ''s'' then (9 \<le> c \<and> c \<le> 13) \<or> c = 32 \<or> c = 133 \<or> c = 160
     else False)"

text \<open>
  The direct members of a supertype: the node kinds its alternatives name (a reference,
  the new name of an alias, or the text of an anonymous token).
\<close>

fun member_kind :: "rule \<Rightarrow> string" where
  "member_kind (Sym n) = n"
| "member_kind (Alias r n) = n"
| "member_kind (Str s) = s"
| "member_kind r = []"

definition direct_members :: "string \<Rightarrow> string list" where
  "direct_members s =
    (case java_rule s of None \<Rightarrow> [] | Some b \<Rightarrow> map member_kind (members (unwrapped b)))"

text \<open>
  A parse of a token sequence: a tree derived by the rule whose leaves, from left to
  right, are these tokens, and that is admissible.  The trivia between the tokens is not
  part of a derivation and is left out of the sequence.
\<close>

definition parses :: "utable \<Rightarrow> rule \<Rightarrow> tree list \<Rightarrow> tree \<Rightarrow> bool" where
  "parses U r ts t = (derives U r [t] \<and> leaves t = ts \<and> admissible t)"

text \<open>The identifier token as the spec words it, for comparison with the rule of the source.\<close>

definition spec_identifier :: "utable \<Rightarrow> nat list \<Rightarrow> bool" where
  "spec_identifier U s =
    (case s of
       [] \<Rightarrow> False
     | c # cs \<Rightarrow> (U ''XID_Start'' c \<or> c = 95 \<or> c = 36)
         \<and> list_all (\<lambda>x. U ''XID_Continue'' x \<or> x = 95 \<or> x = 36) cs)"

text \<open>The spellings of the rule \<^verbatim>\<open>_reserved_identifier\<close>.\<close>

definition reserved_words :: "string list" where
  "reserved_words = [''open'', ''module'', ''record'', ''with'', ''sealed'', ''yield'']"

text \<open>A reference to a rule that leaves a node of its own.\<close>

definition visible_sym :: "rule \<Rightarrow> bool" where
  "visible_sym r = (case r of Sym n \<Rightarrow> \<not> hidden n | _ \<Rightarrow> False)"

subsection \<open>Checking a derivation\<close>

text \<open>
  An executable check that a given sequence of children is derived by a rule, so that
  concrete derivations are found by evaluation.  \<open>check U k r cs\<close> follows references to
  at most \<open>k\<close> named rules deep; it is sound for \<open>derives\<close> (lemma \<open>check_sound\<close>).
\<close>

fun any :: "('a \<Rightarrow> bool) \<Rightarrow> 'a list \<Rightarrow> bool" where
  "any P [] = False"
| "any P (x # xs) = (if P x then True else any P xs)"

lemma any_cong [fundef_cong]:
  "xs = ys \<Longrightarrow> (\<And>x. x \<in> set ys \<Longrightarrow> P x = Q x) \<Longrightarrow> any P xs = any Q ys"
  by (induction ys arbitrary: xs) auto

fun unfld :: "string \<Rightarrow> tree list \<Rightarrow> tree list option" where
  "unfld f [] = Some []"
| "unfld f (Fld g t # cs) = (if f = g then (case unfld f cs of None \<Rightarrow> None | Some ts \<Rightarrow> Some (t # ts)) else None)"
| "unfld f (c # cs) = None"

fun single :: "tree list \<Rightarrow> tree option" where
  "single [c] = Some c"
| "single cs = None"

fun sym_name :: "rule \<Rightarrow> string" where
  "sym_name (Sym m) = m"
| "sym_name r = []"

function (sequential) check :: "utable \<Rightarrow> nat \<Rightarrow> rule \<Rightarrow> tree list \<Rightarrow> bool" where
  "check U k Blank cs = (cs = [])"
| "check U k (Str s) cs = (cs = [Tok s])"
| "check U k (Pat p) cs = (case single cs of Some (Anon t) \<Rightarrow> rx_match U p t | _ \<Rightarrow> False)"
| "check U k (Token r) cs = (case single cs of Some (Anon t) \<Rightarrow> rx_match U (rx_of r) t | _ \<Rightarrow> False)"
| "check U k (TokenImm r) cs = (case single cs of Some (Anon t) \<Rightarrow> rx_match U (rx_of r) t | _ \<Rightarrow> False)"
| "check U 0 (Sym n) cs = False"
| "check U (Suc k) (Sym n) cs =
    (if hidden n then
       (case java_rule n of
          None \<Rightarrow> False
        | Some b \<Rightarrow> if terminal b then False else check U k b cs)
     else
       (case single cs of
          Some (Lex m t) \<Rightarrow>
            if m = n then (case java_rule n of None \<Rightarrow> False
              | Some b \<Rightarrow> if terminal b then rx_match U (rx_of b) t else False)
            else False
        | Some (Node m ks) \<Rightarrow>
            if m = n then (case java_rule n of None \<Rightarrow> False
              | Some b \<Rightarrow> if terminal b then False else check U k b ks)
            else False
        | _ \<Rightarrow> False))"
| "check U k (Seq []) cs = (cs = [])"
| "check U k (Seq (r # rs)) cs =
    any (\<lambda>i. if check U k r (take i cs) then check U k (Seq rs) (drop i cs) else False)
      [0..<Suc (length cs)]"
| "check U k (Choice rs) cs = any (\<lambda>r. check U k r cs) rs"
| "check U k (Repeat r) cs =
    (if cs = [] then True
     else any (\<lambda>i. if check U k r (take (Suc i) cs) then check U k (Repeat r) (drop (Suc i) cs) else False)
       [0..<length cs])"
| "check U k (Repeat1 r) cs =
    any (\<lambda>i. if check U k r (take (Suc i) cs) then check U k (Repeat r) (drop (Suc i) cs) else False)
      [0..<length cs]"
| "check U k (Prec p r) cs = check U k r cs"
| "check U k (PrecLeft p r) cs = check U k r cs"
| "check U k (PrecRight p r) cs = check U k r cs"
| "check U k (PrecDynamic p r) cs = check U k r cs"
| "check U k (Field f r) cs = (case unfld f cs of None \<Rightarrow> False | Some ts \<Rightarrow> check U k r ts)"
| "check U k (Alias r n) cs =
    (if is_Sym r then
       (case k of
          0 \<Rightarrow> False
        | Suc k' \<Rightarrow>
           (case single cs of
              Some (Lex n' t) \<Rightarrow>
                if n' = n then (case java_rule (sym_name r) of None \<Rightarrow> False
                  | Some b \<Rightarrow> if terminal b then rx_match U (rx_of b) t else False)
                else False
            | Some (Node n' ks) \<Rightarrow>
                if n' = n then (case java_rule (sym_name r) of None \<Rightarrow> False
                  | Some b \<Rightarrow> if terminal b then False else check U k' b ks)
                else False
            | _ \<Rightarrow> False))
     else
       (case single cs of
          Some (Lex n' t) \<Rightarrow>
            if n' = n then
              (if t = cps (map char_of t) \<and> check U k r [Tok (map char_of t)] then True
               else check U k r [Anon t])
            else False
        | _ \<Rightarrow> False))"
  by pat_completeness auto
termination
  by (relation "measures [\<lambda>(U, k, r, cs). k, \<lambda>(U, k, r, cs). size r, \<lambda>(U, k, r, cs). length cs]")
     (auto simp: less_Suc_eq_le size_list_estimation')


section \<open>Example trees\<close>

definition ident :: "string \<Rightarrow> tree" where
  "ident s = Lex ''identifier'' (cps s)"

definition binary :: "tree \<Rightarrow> string \<Rightarrow> tree \<Rightarrow> tree" where
  "binary l operator r =
     Node ''binary_expression'' [Fld ''left'' l, Fld ''operator'' (Tok operator), Fld ''right'' r]"

definition unary :: "string \<Rightarrow> tree \<Rightarrow> tree" where
  "unary operator e =
     Node ''unary_expression'' [Fld ''operator'' (Tok operator), Fld ''operand'' e]"

definition assignment :: "tree \<Rightarrow> string \<Rightarrow> tree \<Rightarrow> tree" where
  "assignment l operator r =
     Node ''assignment_expression'' [Fld ''left'' l, Fld ''operator'' (Tok operator), Fld ''right'' r]"

definition ternary :: "tree \<Rightarrow> tree \<Rightarrow> tree \<Rightarrow> tree" where
  "ternary c x y =
     Node ''ternary_expression''
       [Fld ''condition'' c, Tok ''?'', Fld ''consequence'' x, Tok '':'', Fld ''alternative'' y]"

text \<open>\<^verbatim>\<open>{ default -> { } }\<close>, the block of a switch with one arrow rule.\<close>

definition ex_switch_block :: tree where
  "ex_switch_block = Node ''switch_block'' [Tok ''{'',
     Node ''switch_rule''
       [Node ''switch_label'' [Tok ''default''], Tok ''->'', Node ''block'' [Tok ''{'', Tok ''}'']],
     Tok ''}'']"

text \<open>\<^verbatim>\<open>void f();\<close>, a method declaration at the top level.\<close>

definition ex_method :: tree where
  "ex_method = Node ''method_declaration''
     [Fld ''type'' (Lex ''void_type'' (cps ''void'')),
      Fld ''name'' (ident ''f''),
      Fld ''parameters'' (Node ''formal_parameters'' [Tok ''('', Tok '')'']),
      Tok '';'']"

section \<open>Finding every derivation of a token sequence\<close>

subsection \<open>Rules that cannot derive a given vocabulary\<close>

text \<open>
  \<open>within T K t\<close>: every leaf of \<open>t\<close> is an anonymous token whose text is in \<open>T\<close> or a
  named token whose kind is in \<open>K\<close>.
\<close>

fun within :: "string list \<Rightarrow> string list \<Rightarrow> tree \<Rightarrow> bool" where
  "within T K (Tok s) = (s \<in> set T)"
| "within T K (Anon t) = False"
| "within T K (Lex k t) = (k \<in> set K)"
| "within T K (Node k cs) = list_all (within T K) cs"
| "within T K (Fld f t) = within T K t"

text \<open>
  \<open>feasible T K k r\<close> holds whenever the rule \<open>r\<close> derives children within \<open>T\<close> and \<open>K\<close>
  (lemma \<open>feasible_sound\<close>); it follows references at most \<open>k\<close> rules deep and answers
  \<open>True\<close> beyond.  A rule that is not feasible needs a token outside the vocabulary.
\<close>

fun feasible :: "string list \<Rightarrow> string list \<Rightarrow> nat \<Rightarrow> rule \<Rightarrow> bool" where
  "feasible T K k Blank = True"
| "feasible T K k (Str s) = (s \<in> set T)"
| "feasible T K k (Pat p) = False"
| "feasible T K k (Token r) = False"
| "feasible T K k (TokenImm r) = False"
| "feasible T K 0 (Sym n) = True"
| "feasible T K (Suc k) (Sym n) =
    (case java_rule n of
       None \<Rightarrow> False
     | Some b \<Rightarrow> if terminal b then n \<in> set K else feasible T K k b)"
| "feasible T K k (Seq []) = True"
| "feasible T K k (Seq (r # rs)) = (if feasible T K k r then feasible T K k (Seq rs) else False)"
| "feasible T K k (Choice rs) = any (feasible T K k) rs"
| "feasible T K k (Repeat r) = True"
| "feasible T K k (Repeat1 r) = feasible T K k r"
| "feasible T K k (Prec p r) = feasible T K k r"
| "feasible T K k (PrecLeft p r) = feasible T K k r"
| "feasible T K k (PrecRight p r) = feasible T K k r"
| "feasible T K k (PrecDynamic p r) = feasible T K k r"
| "feasible T K k (Field f r) = feasible T K k r"
| "feasible T K k (Alias r n) = (if n \<in> set K then True else feasible T K k r)"

text \<open>
  The vocabulary of the operator examples: the binary operators, \<^verbatim>\<open>=\<close>, \<^verbatim>\<open>?\<close> and \<^verbatim>\<open>:\<close> as
  anonymous tokens, and identifiers as the only named tokens.
\<close>

definition operator_tokens :: "string list" where
  "operator_tokens = map fst binary_operators @ [''='', ''?'', '':'']"

subsection \<open>Every expression over the operator vocabulary\<close>

text \<open>
  The ways to cut a sequence at one element: what is before it, the element, what is
  after it.
\<close>

fun cuts :: "'a list \<Rightarrow> ('a list \<times> 'a \<times> 'a list) list" where
  "cuts [] = []"
| "cuts (x # xs) = ([], x, xs) # map (\<lambda>(ls, y, rs). (x # ls, y, rs)) (cuts xs)"

text \<open>
  \<open>enum n ts\<close> lists the trees of the shapes identifier, binary expression, assignment
  with \<^verbatim>\<open>=\<close> to an identifier, ternary expression and unary expression whose leaves are
  \<open>ts\<close>, nested at most \<open>n\<close> deep.  Every expression derived by the grammar within the
  operator vocabulary is in the list (lemma \<open>enum_complete\<close>).
\<close>

definition identifier_leaf :: "tree list \<Rightarrow> tree list" where
  "identifier_leaf ts =
    (case ts of [Lex k t] \<Rightarrow> if k = ''identifier'' then [Lex k t] else [] | _ \<Rightarrow> [])"

definition binaries :: "(tree list \<Rightarrow> tree list) \<Rightarrow> tree list \<times> tree \<times> tree list \<Rightarrow> tree list" where
  "binaries sub = (\<lambda>(ls, x, rs).
     case x of
       Tok s \<Rightarrow>
         if s \<in> fst ` set binary_operators
         then concat (map (\<lambda>l. map (\<lambda>r. binary l s r) (sub rs)) (sub ls)) else []
     | _ \<Rightarrow> [])"

definition assignments :: "(tree list \<Rightarrow> tree list) \<Rightarrow> tree list \<times> tree \<times> tree list \<Rightarrow> tree list" where
  "assignments sub = (\<lambda>(ls, x, rs).
     if x = Tok ''=''
     then concat (map (\<lambda>l. map (\<lambda>r. assignment l ''='' r) (sub rs)) (identifier_leaf ls)) else [])"

definition ternaries :: "(tree list \<Rightarrow> tree list) \<Rightarrow> tree list \<times> tree \<times> tree list \<Rightarrow> tree list" where
  "ternaries sub = (\<lambda>(ls, x, rs).
     if x = Tok ''?''
     then concat (map (\<lambda>(xs, y, ys).
            if y = Tok '':''
            then concat (map (\<lambda>c. concat (map (\<lambda>a. map (\<lambda>b. ternary c a b) (sub ys)) (sub xs))) (sub ls))
            else []) (cuts rs))
     else [])"

definition unaries :: "(tree list \<Rightarrow> tree list) \<Rightarrow> tree list \<Rightarrow> tree list" where
  "unaries sub ts =
    (case ts of
       Tok s # rest \<Rightarrow> if s \<in> fst ` set unary_operators then map (unary s) (sub rest) else []
     | _ \<Rightarrow> [])"

definition candidates :: "(tree list \<Rightarrow> tree list) \<Rightarrow> tree list \<Rightarrow> tree list" where
  "candidates sub ts =
     identifier_leaf ts
   @ concat (map (\<lambda>c. binaries sub c @ assignments sub c @ ternaries sub c) (cuts ts))
   @ unaries sub ts"

primrec enum :: "nat \<Rightarrow> tree list \<Rightarrow> tree list" where
  "enum 0 ts = []"
| "enum (Suc n) ts = candidates (enum n) ts"

section \<open>Reading the rule table\<close>

lemma lookup_weak_cong: "n = n' \<Longrightarrow> lookup ps n = lookup ps n'"
  by simp

inductive_simps derives_Blank: "derives U Blank cs"
inductive_simps derives_Str: "derives U (Str s) cs"
inductive_simps derives_Pat: "derives U (Pat p) cs"
inductive_simps derives_Token: "derives U (Token r) cs"
inductive_simps derives_TokenImm: "derives U (TokenImm r) cs"
inductive_simps derives_Seq_Nil: "derives U (Seq []) cs"
inductive_simps derives_Seq_Cons: "derives U (Seq (r # rs)) cs"
inductive_simps derives_Choice: "derives U (Choice rs) cs"
inductive_simps derives_Repeat1: "derives U (Repeat1 r) cs"
inductive_simps derives_Prec: "derives U (Prec p r) cs"
inductive_simps derives_PrecLeft: "derives U (PrecLeft p r) cs"
inductive_simps derives_PrecRight: "derives U (PrecRight p r) cs"
inductive_simps derives_PrecDynamic: "derives U (PrecDynamic p r) cs"
inductive_simps derives_Field: "derives U (Field f r) cs"
inductive_simps derives_Sym: "derives U (Sym n) cs"
inductive_simps derives_Alias: "derives U (Alias r n) cs"

lemma derives_Sym_leaf:
  "java_rule n = Some b \<Longrightarrow> terminal b \<Longrightarrow>
   derives U (Sym n) cs = (\<exists>t. cs = [Lex n t] \<and> rx_match U (rx_of b) t)"
  by (auto simp: derives_Sym)

lemma derives_Sym_node:
  "java_rule n = Some b \<Longrightarrow> \<not> terminal b \<Longrightarrow> \<not> hidden n \<Longrightarrow>
   derives U (Sym n) cs = (\<exists>ks. cs = [Node n ks] \<and> derives U b ks)"
  by (auto simp: derives_Sym)

lemma derives_Sym_hidden:
  "java_rule n = Some b \<Longrightarrow> \<not> terminal b \<Longrightarrow> hidden n \<Longrightarrow>
   derives U (Sym n) cs = derives U b cs"
  by (auto simp: derives_Sym)

lemma derives_Sym_visible:
  "derives U (Sym n) cs \<Longrightarrow> \<not> hidden n \<Longrightarrow>
   \<exists>t. cs = [t] \<and> kind t = n \<and> subtree t \<and> unfield t = t"
  by (auto simp: derives_Sym)

lemma derives_Repeat_concat:
  "derives U (Repeat r) cs \<Longrightarrow> \<exists>css. cs = concat css \<and> (\<forall>c \<in> set css. derives U r c)"
proof (induction "Repeat r" cs rule: derives.induct)
  case d_repeat_nil
  show ?case by (rule exI[of _ "[]"]) simp
next
  case (d_repeat_cons as bs)
  then obtain css where "bs = concat css" "\<forall>c \<in> set css. derives U r c" by blast
  with d_repeat_cons.hyps(1) show ?case by (intro exI[of _ "as # css"]) simp
qed

lemma derives_concat_Repeat:
  "(\<forall>c \<in> set css. derives U r c) \<Longrightarrow> derives U (Repeat r) (concat css)"
  by (induction css) (auto intro: derives.intros)

lemma derives_Repeat_iff:
  "derives U (Repeat r) cs = (\<exists>css. cs = concat css \<and> (\<forall>c \<in> set css. derives U r c))"
  using derives_Repeat_concat derives_concat_Repeat by blast

lemma derives_Repeat_visible:
  assumes "derives U (Repeat (Sym n)) cs" and "\<not> hidden n"
  shows "\<forall>c \<in> set cs. kind c = n \<and> subtree c \<and> unfield c = c"
proof -
  from assms(1) obtain css where css: "cs = concat css" "\<forall>c \<in> set css. derives U (Sym n) c"
    using derives_Repeat_concat by blast
  show ?thesis
  proof
    fix c assume "c \<in> set cs"
    with css(1) obtain d where d: "d \<in> set css" "c \<in> set d" by auto
    with css(2) have "derives U (Sym n) d" by blast
    from derives_Sym_visible[OF this assms(2)] d(2) show "kind c = n \<and> subtree c \<and> unfield c = c"
      by auto
  qed
qed

subsection \<open>Matching\<close>

lemma rx_match_RNone: "rx_match U RNone s = False"
  by (induction s) simp_all

lemma rx_match_REps: "rx_match U REps s = (s = [])"
  by (cases s) (simp_all add: rx_match_RNone)

lemma rx_match_RAlt: "rx_match U (RAlt a b) s = (rx_match U a s \<or> rx_match U b s)"
  by (induction s arbitrary: a b) simp_all

lemma rx_match_RCat_RNone: "rx_match U (RCat RNone r) s = False"
  by (induction s) simp_all

lemma rx_match_RCat_REps: "rx_match U (RCat REps r) s = rx_match U r s"
  by (cases s) (simp_all add: rx_match_RAlt rx_match_RCat_RNone)

lemma rx_match_RStar_RSet:
  "rx_match U (RStar (RSet neg items)) s = list_all (cset_has U neg items) s"
  by (induction s) (simp_all add: rx_match_RCat_REps rx_match_RCat_RNone)

lemma rx_match_RSet_RStar_RSet:
  "rx_match U (RCat (RSet n1 i1) (RStar (RSet n2 i2))) s =
    (case s of [] \<Rightarrow> False | c # cs \<Rightarrow> cset_has U n1 i1 c \<and> list_all (cset_has U n2 i2) cs)"
  by (cases s) (simp_all add: rx_match_RCat_REps rx_match_RCat_RNone rx_match_RStar_RSet)

subsection \<open>Lookups\<close>

lemma hidden_simps:
  "hidden ''expression''" "hidden ''statement''" "hidden ''declaration''"
  "hidden ''primary_expression''" "hidden ''_literal''" "hidden ''_reserved_identifier''"
  "hidden ''_toplevel_statement''" "hidden ''_type''" "hidden ''_unannotated_type''"
  "hidden ''_simple_type''"
  by (simp_all add: hidden_def supertypes_def inline_def)

lemma java_rule_expression: "java_rule ''expression'' = Some expression"
  unfolding java_rule_def rules_def by (simp cong: lookup_weak_cong)

lemma java_rule_declaration_rule: "java_rule ''declaration'' = Some declaration_rule"
  unfolding java_rule_def rules_def by (simp cong: lookup_weak_cong)

lemma java_rule_statement: "java_rule ''statement'' = Some statement"
  unfolding java_rule_def rules_def by (simp cong: lookup_weak_cong)

lemma java_rule_primary_expression: "java_rule ''primary_expression'' = Some primary_expression"
  unfolding java_rule_def rules_def by (simp cong: lookup_weak_cong)

lemma java_rule_hid_literal: "java_rule ''_literal'' = Some hid_literal"
  unfolding java_rule_def rules_def by (simp cong: lookup_weak_cong)

lemma java_rule_hid_type: "java_rule ''_type'' = Some hid_type"
  unfolding java_rule_def rules_def by (simp cong: lookup_weak_cong)

lemma java_rule_hid_simple_type: "java_rule ''_simple_type'' = Some hid_simple_type"
  unfolding java_rule_def rules_def by (simp cong: lookup_weak_cong)

lemma java_rule_hid_unannotated_type: "java_rule ''_unannotated_type'' = Some hid_unannotated_type"
  unfolding java_rule_def rules_def by (simp cong: lookup_weak_cong)

lemma java_rule_module_directive: "java_rule ''module_directive'' = Some module_directive"
  unfolding java_rule_def rules_def by (simp cong: lookup_weak_cong)

lemma java_rule_switch_block: "java_rule ''switch_block'' = Some switch_block"
  unfolding java_rule_def rules_def by (simp cong: lookup_weak_cong)

lemma java_rule_switch_block_statement_group: "java_rule ''switch_block_statement_group'' = Some switch_block_statement_group"
  unfolding java_rule_def rules_def by (simp cong: lookup_weak_cong)

lemma java_rule_switch_rule: "java_rule ''switch_rule'' = Some switch_rule"
  unfolding java_rule_def rules_def by (simp cong: lookup_weak_cong)

lemma java_rule_switch_label: "java_rule ''switch_label'' = Some switch_label"
  unfolding java_rule_def rules_def by (simp cong: lookup_weak_cong)

lemma java_rule_block: "java_rule ''block'' = Some block"
  unfolding java_rule_def rules_def by (simp cong: lookup_weak_cong)

lemma java_rule_program: "java_rule ''program'' = Some program"
  unfolding java_rule_def rules_def by (simp cong: lookup_weak_cong)

lemma java_rule_hid_toplevel_statement: "java_rule ''_toplevel_statement'' = Some hid_toplevel_statement"
  unfolding java_rule_def rules_def by (simp cong: lookup_weak_cong)

lemma java_rule_assignment_expression: "java_rule ''assignment_expression'' = Some assignment_expression"
  unfolding java_rule_def rules_def by (simp cong: lookup_weak_cong)

lemma java_rule_hid_reserved_identifier: "java_rule ''_reserved_identifier'' = Some hid_reserved_identifier"
  unfolding java_rule_def rules_def by (simp cong: lookup_weak_cong)

lemma java_rule_identifier_rule: "java_rule ''identifier'' = Some identifier_rule"
  unfolding java_rule_def rules_def by (simp cong: lookup_weak_cong)

lemma java_rule_field_access: "java_rule ''field_access'' = Some field_access"
  unfolding java_rule_def rules_def by (simp cong: lookup_weak_cong)

lemma java_rule_array_access: "java_rule ''array_access'' = Some array_access"
  unfolding java_rule_def rules_def by (simp cong: lookup_weak_cong)

lemma java_rule_binary_expression: "java_rule ''binary_expression'' = Some binary_expression"
  unfolding java_rule_def rules_def by (simp cong: lookup_weak_cong)

lemma java_rule_ternary_expression: "java_rule ''ternary_expression'' = Some ternary_expression"
  unfolding java_rule_def rules_def by (simp cong: lookup_weak_cong)

lemma java_rule_method_declaration: "java_rule ''method_declaration'' = Some method_declaration"
  unfolding java_rule_def rules_def by (simp cong: lookup_weak_cong)

lemma java_rule_hid_method_header: "java_rule ''_method_header'' = Some hid_method_header"
  unfolding java_rule_def rules_def by (simp cong: lookup_weak_cong)

lemma java_rule_hid_method_declarator: "java_rule ''_method_declarator'' = Some hid_method_declarator"
  unfolding java_rule_def rules_def by (simp cong: lookup_weak_cong)

lemma java_rule_formal_parameters: "java_rule ''formal_parameters'' = Some formal_parameters"
  unfolding java_rule_def rules_def by (simp cong: lookup_weak_cong)

lemma java_rule_formal_parameter: "java_rule ''formal_parameter'' = Some formal_parameter"
  unfolding java_rule_def rules_def by (simp cong: lookup_weak_cong)

lemma java_rule_void_type: "java_rule ''void_type'' = Some void_type"
  unfolding java_rule_def rules_def by (simp cong: lookup_weak_cong)

lemma java_rule_integral_type: "java_rule ''integral_type'' = Some integral_type"
  unfolding java_rule_def rules_def by (simp cong: lookup_weak_cong)

lemma java_rule_local_variable_declaration: "java_rule ''local_variable_declaration'' = Some local_variable_declaration"
  unfolding java_rule_def rules_def by (simp cong: lookup_weak_cong)

lemma java_rule_hid_variable_declarator_list: "java_rule ''_variable_declarator_list'' = Some hid_variable_declarator_list"
  unfolding java_rule_def rules_def by (simp cong: lookup_weak_cong)

lemma java_rule_variable_declarator: "java_rule ''variable_declarator'' = Some variable_declarator"
  unfolding java_rule_def rules_def by (simp cong: lookup_weak_cong)

lemma java_rule_hid_variable_declarator_id: "java_rule ''_variable_declarator_id'' = Some hid_variable_declarator_id"
  unfolding java_rule_def rules_def by (simp cong: lookup_weak_cong)

lemma java_rule_hid_variable_initializer: "java_rule ''_variable_initializer'' = Some hid_variable_initializer"
  unfolding java_rule_def rules_def by (simp cong: lookup_weak_cong)

lemma java_rule_decimal_integer_literal: "java_rule ''decimal_integer_literal'' = Some decimal_integer_literal"
  unfolding java_rule_def rules_def by (simp cong: lookup_weak_cong)

lemma java_rule_record_declaration: "java_rule ''record_declaration'' = Some record_declaration"
  unfolding java_rule_def rules_def by (simp cong: lookup_weak_cong)

lemma java_rule_class_body: "java_rule ''class_body'' = Some class_body"
  unfolding java_rule_def rules_def by (simp cong: lookup_weak_cong)

lemma java_rule_string_literal: "java_rule ''string_literal'' = Some string_literal"
  unfolding java_rule_def rules_def by (simp cong: lookup_weak_cong)

lemma java_rule_hid_string_literal: "java_rule ''_string_literal'' = Some hid_string_literal"
  unfolding java_rule_def rules_def by (simp cong: lookup_weak_cong)

lemma java_rule_string_fragment: "java_rule ''string_fragment'' = Some string_fragment"
  unfolding java_rule_def rules_def by (simp cong: lookup_weak_cong)

lemma java_rule_string_interpolation: "java_rule ''string_interpolation'' = Some string_interpolation"
  unfolding java_rule_def rules_def by (simp cong: lookup_weak_cong)

lemma java_rule_unary_expression: "java_rule ''unary_expression'' = Some unary_expression"
  unfolding java_rule_def rules_def by (simp cong: lookup_weak_cong)

lemma java_rule_cast_expression: "java_rule ''cast_expression'' = Some cast_expression"
  unfolding java_rule_def rules_def by (simp cong: lookup_weak_cong)

lemma java_rule_instanceof_expression: "java_rule ''instanceof_expression'' = Some instanceof_expression"
  unfolding java_rule_def rules_def by (simp cong: lookup_weak_cong)

lemma java_rule_lambda_expression: "java_rule ''lambda_expression'' = Some lambda_expression"
  unfolding java_rule_def rules_def by (simp cong: lookup_weak_cong)

lemma java_rule_update_expression: "java_rule ''update_expression'' = Some update_expression"
  unfolding java_rule_def rules_def by (simp cong: lookup_weak_cong)

lemma java_rule_switch_expression: "java_rule ''switch_expression'' = Some switch_expression"
  unfolding java_rule_def rules_def by (simp cong: lookup_weak_cong)

lemma java_rule_class_literal: "java_rule ''class_literal'' = Some class_literal"
  unfolding java_rule_def rules_def by (simp cong: lookup_weak_cong)

lemma java_rule_this: "java_rule ''this'' = Some this"
  unfolding java_rule_def rules_def by (simp cong: lookup_weak_cong)

lemma java_rule_parenthesized_expression: "java_rule ''parenthesized_expression'' = Some parenthesized_expression"
  unfolding java_rule_def rules_def by (simp cong: lookup_weak_cong)

lemma java_rule_object_creation_expression: "java_rule ''object_creation_expression'' = Some object_creation_expression"
  unfolding java_rule_def rules_def by (simp cong: lookup_weak_cong)

lemma java_rule_hid_unqualified_object_creation_expression: "java_rule ''_unqualified_object_creation_expression'' = Some hid_unqualified_object_creation_expression"
  unfolding java_rule_def rules_def by (simp cong: lookup_weak_cong)

lemma java_rule_method_invocation: "java_rule ''method_invocation'' = Some method_invocation"
  unfolding java_rule_def rules_def by (simp cong: lookup_weak_cong)

lemma java_rule_argument_list: "java_rule ''argument_list'' = Some argument_list"
  unfolding java_rule_def rules_def by (simp cong: lookup_weak_cong)

lemma java_rule_method_reference: "java_rule ''method_reference'' = Some method_reference"
  unfolding java_rule_def rules_def by (simp cong: lookup_weak_cong)

lemma java_rule_array_creation_expression: "java_rule ''array_creation_expression'' = Some array_creation_expression"
  unfolding java_rule_def rules_def by (simp cong: lookup_weak_cong)

lemma java_rule_template_expression: "java_rule ''template_expression'' = Some template_expression"
  unfolding java_rule_def rules_def by (simp cong: lookup_weak_cong)

lemma java_rule_hex_integer_literal: "java_rule ''hex_integer_literal'' = Some hex_integer_literal"
  unfolding java_rule_def rules_def by (simp cong: lookup_weak_cong)

lemma java_rule_octal_integer_literal: "java_rule ''octal_integer_literal'' = Some octal_integer_literal"
  unfolding java_rule_def rules_def by (simp cong: lookup_weak_cong)

lemma java_rule_binary_integer_literal: "java_rule ''binary_integer_literal'' = Some binary_integer_literal"
  unfolding java_rule_def rules_def by (simp cong: lookup_weak_cong)

lemma java_rule_decimal_floating_point_literal: "java_rule ''decimal_floating_point_literal'' = Some decimal_floating_point_literal"
  unfolding java_rule_def rules_def by (simp cong: lookup_weak_cong)

lemma java_rule_hex_floating_point_literal: "java_rule ''hex_floating_point_literal'' = Some hex_floating_point_literal"
  unfolding java_rule_def rules_def by (simp cong: lookup_weak_cong)

lemma java_rule_true: "java_rule ''true'' = Some true"
  unfolding java_rule_def rules_def by (simp cong: lookup_weak_cong)

lemma java_rule_false: "java_rule ''false'' = Some false"
  unfolding java_rule_def rules_def by (simp cong: lookup_weak_cong)

lemma java_rule_character_literal: "java_rule ''character_literal'' = Some character_literal"
  unfolding java_rule_def rules_def by (simp cong: lookup_weak_cong)

lemma java_rule_null_literal: "java_rule ''null_literal'' = Some null_literal"
  unfolding java_rule_def rules_def by (simp cong: lookup_weak_cong)

lemma java_rule_hid_multiline_string_literal: "java_rule ''_multiline_string_literal'' = Some hid_multiline_string_literal"
  unfolding java_rule_def rules_def by (simp cong: lookup_weak_cong)


subsection \<open>The checker is sound\<close>

lemma single_Some [simp]: "(single cs = Some c) = (cs = [c])"
  by (cases cs rule: single.cases) auto

lemma any_iff: "any P xs = (\<exists>x \<in> set xs. P x)"
  by (induction xs) auto

lemma is_Sym_name: "is_Sym r \<Longrightarrow> r = Sym (sym_name r)"
  by (cases r) auto

lemma unfld_Some: "unfld f cs = Some ts \<Longrightarrow> cs = map (Fld f) ts"
  by (induction f cs arbitrary: ts rule: unfld.induct) (auto split: if_splits option.splits)

lemma any_split:
  assumes "any (\<lambda>i. if P i then Q i else False) xs"
  obtains i where "i \<in> set xs" "P i" "Q i"
  using assms by (induction xs) (auto split: if_splits)

lemma check_sound: "check U k r cs \<Longrightarrow> derives U r cs"
proof (induction U k r cs rule: check.induct)
  case (7 U k n cs)
  show ?case
  proof (cases "hidden n")
    case True
    with "7.prems" obtain b where b: "java_rule n = Some b" "\<not> terminal b" "check U k b cs"
      by (auto split: option.splits if_splits)
    from "7.IH"(1)[OF True b(1) b(2) b(3)] have "derives U b cs" .
    with b True show ?thesis by (blast intro: d_hidden)
  next
    case False
    with "7.prems" consider
      (leaf) t b where "cs = [Lex n t]" "java_rule n = Some b" "terminal b" "rx_match U (rx_of b) t"
    | (node) ks b where "cs = [Node n ks]" "java_rule n = Some b" "\<not> terminal b" "check U k b ks"
      by (auto split: tree.splits if_splits option.splits)
    then show ?thesis
    proof cases
      case leaf
      then show ?thesis by (auto intro: d_leaf)
    next
      case node
      have "single cs = Some (Node n ks)" using node(1) by simp
      from "7.IH"(2)[OF False this refl refl node(2,3,4)] have "derives U b ks" .
      with node False show ?thesis by (auto intro: d_node)
    qed
  qed
next
  case (9 U k r rs cs)
  from "9.prems" have "any (\<lambda>i. if check U k r (take i cs) then check U k (Seq rs) (drop i cs) else False)
      [0..<Suc (length cs)]" by (simp only: check.simps)
  then obtain i where i: "i \<in> set [0..<Suc (length cs)]"
    "check U k r (take i cs)" "check U k (Seq rs) (drop i cs)"
    by (rule any_split)
  from "9.IH"(1)[OF i(1) i(2)] "9.IH"(2)[OF i(1) i(2) i(3)]
  have "derives U (Seq (r # rs)) (take i cs @ drop i cs)" by (rule d_seq_cons)
  then show ?case by simp
next
  case (10 U k rs cs)
  from "10.prems" obtain r where r: "r \<in> set rs" "check U k r cs"
    by (auto simp: any_iff)
  from "10.IH"[OF r] r(1) show ?case by (rule d_choice[rotated])
next
  case (11 U k r cs)
  show ?case
  proof (cases "cs = []")
    case True
    then show ?thesis by (simp add: d_repeat_nil)
  next
    case False
    have e: "check U k (Repeat r) cs = (if cs = [] then True
       else any (\<lambda>i. if check U k r (take (Suc i) cs)
        then check U k (Repeat r) (drop (Suc i) cs) else False) [0..<length cs])"
      by (rule check.simps)
    from "11.prems"[unfolded e] False have "any (\<lambda>i. if check U k r (take (Suc i) cs)
        then check U k (Repeat r) (drop (Suc i) cs) else False) [0..<length cs]"
      by (simp only: if_False)
    then obtain i where i: "i \<in> set [0..<length cs]"
      "check U k r (take (Suc i) cs)" "check U k (Repeat r) (drop (Suc i) cs)"
      by (rule any_split)
    from "11.IH"(1)[OF False i(1) i(2)] "11.IH"(2)[OF False i(1) i(2) i(3)]
    have "derives U (Repeat r) (take (Suc i) cs @ drop (Suc i) cs)" by (rule d_repeat_cons)
    then show ?thesis by simp
  qed
next
  case (12 U k r cs)
  have e: "check U k (Repeat1 r) cs = any (\<lambda>i. if check U k r (take (Suc i) cs)
        then check U k (Repeat r) (drop (Suc i) cs) else False) [0..<length cs]"
    by (rule check.simps)
  from "12.prems"[unfolded e] have "any (\<lambda>i. if check U k r (take (Suc i) cs)
        then check U k (Repeat r) (drop (Suc i) cs) else False) [0..<length cs]" .
  then obtain i where i: "i \<in> set [0..<length cs]"
    "check U k r (take (Suc i) cs)" "check U k (Repeat r) (drop (Suc i) cs)"
    by (rule any_split)
  from "12.IH"(1)[OF i(1) i(2)] "12.IH"(2)[OF i(1) i(2) i(3)]
  have "derives U (Repeat1 r) (take (Suc i) cs @ drop (Suc i) cs)" by (rule d_repeat1)
  then show ?case by simp
next
  case (17 U k f r cs)
  then obtain ts where ts: "unfld f cs = Some ts" "check U k r ts"
    by (auto split: option.splits)
  with "17.IH" have "derives U r ts" by blast
  with unfld_Some[OF ts(1)] show ?case by (auto intro: d_field)
next
  case (18 U k r n cs)
  show ?case
  proof (cases "is_Sym r")
    case True
    then obtain m where m: "r = Sym m" "sym_name r = m" using is_Sym_name by (cases r) auto
    from "18.prems" True obtain k' where k': "k = Suc k'" by (auto split: nat.splits)
    with "18.prems" True m consider
      (leaf) t b where "cs = [Lex n t]" "java_rule m = Some b" "terminal b" "rx_match U (rx_of b) t"
    | (node) ks b where "cs = [Node n ks]" "java_rule m = Some b" "\<not> terminal b" "check U k' b ks"
      by (auto split: tree.splits if_splits option.splits)
    then show ?thesis
    proof cases
      case leaf
      with m show ?thesis by (auto intro: d_alias_leaf)
    next
      case node
      have s: "single cs = Some (Node n ks)" using node(1) by simp
      have j: "java_rule (sym_name r) = Some b" using node(2) m by simp
      from "18.IH"(1)[OF True k' s refl refl j node(3)] node(4) have "derives U b ks" by simp
      with node m show ?thesis by (auto intro: d_alias_node)
    qed
  next
    case False
    with "18.prems" obtain t where t: "cs = [Lex n t]"
      "(t = cps (map char_of t) \<and> check U k r [Tok (map char_of t)]) \<or> check U k r [Anon t]"
      by (auto split: tree.splits if_splits option.splits)
    have s: "single cs = Some (Lex n t)" using t(1) by simp
    from t(2) show ?thesis
    proof
      assume a: "t = cps (map char_of t) \<and> check U k r [Tok (map char_of t)]"
      from "18.IH"(2)[OF False s refl refl] a have "derives U r [Tok (map char_of t)]" by simp
      from d_alias_token[OF False this, of n] a t(1) show ?thesis by simp
    next
      assume a: "check U k r [Anon t]"
      show ?thesis
      proof (cases "t = cps (map char_of t) \<and> check U k r [Tok (map char_of t)]")
        case True
        from "18.IH"(2)[OF False s refl refl] True have "derives U r [Tok (map char_of t)]" by simp
        from d_alias_token[OF False this, of n] True t(1) show ?thesis by simp
      next
        case False
        from "18.IH"(3)[OF \<open>\<not> is_Sym r\<close> s refl refl False] a have "derives U r [Anon t]" by simp
        from d_alias_token[OF \<open>\<not> is_Sym r\<close> this, of n] t(1) show ?thesis by simp
      qed
    qed
  qed
next
  case (1 U k cs)
  then show ?case by (simp add: d_blank)
next
  case (2 U k s cs)
  then show ?case by (simp add: d_str)
next
  case (3 U k p cs)
  then obtain t where "cs = [Anon t]" "rx_match U p t"
    by (auto split: option.splits tree.splits)
  then show ?case by (simp add: d_pat)
next
  case (4 U k r cs)
  then obtain t where "cs = [Anon t]" "rx_match U (rx_of r) t"
    by (auto split: option.splits tree.splits)
  then show ?case by (simp add: d_token)
next
  case (5 U k r cs)
  then obtain t where "cs = [Anon t]" "rx_match U (rx_of r) t"
    by (auto split: option.splits tree.splits)
  then show ?case by (simp add: d_token_imm)
next
  case (6 U n cs)
  then show ?case by simp
next
  case (8 U k cs)
  then show ?case by (simp add: d_seq_nil)
next
  case (13 U k p r cs)
  then show ?case by (simp add: d_prec)
next
  case (14 U k p r cs)
  then show ?case by (simp add: d_prec_left)
next
  case (15 U k p r cs)
  then show ?case by (simp add: d_prec_right)
next
  case (16 U k p r cs)
  then show ?case by (simp add: d_prec_dynamic)
qed


subsection \<open>Shapes of derivations\<close>

lemma any_weak_cong: "xs = ys \<Longrightarrow> any P xs = any P ys"
  by simp

lemma derives_Choice_ex: "derives U (Choice rs) cs = list_ex (\<lambda>r. derives U r cs) rs"
  by (auto simp: derives_Choice list_ex_iff)

lemma derives_Alias_token:
  "\<not> is_Sym r \<Longrightarrow> derives U (Alias r n) cs = (\<exists>t. cs = [relabel n t] \<and> derives U r [t])"
  by (auto simp: derives_Alias)

lemma unfield_not_Fld: "unfield t \<noteq> Fld f u"
  by (induction t) auto

lemma unfield_fixed_no_field: "unfield c = c \<Longrightarrow> \<not> has_field f c"
  by (cases c) (auto simp: unfield_not_Fld)

lemma not_hidden_kinds:
  "\<not> hidden ''assignment_expression''" "\<not> hidden ''binary_expression''"
  "\<not> hidden ''instanceof_expression''" "\<not> hidden ''lambda_expression''"
  "\<not> hidden ''ternary_expression''" "\<not> hidden ''update_expression''"
  "\<not> hidden ''unary_expression''" "\<not> hidden ''cast_expression''"
  "\<not> hidden ''switch_expression''" "\<not> hidden ''class_literal''" "\<not> hidden ''this''"
  "\<not> hidden ''identifier''" "\<not> hidden ''parenthesized_expression''"
  "\<not> hidden ''object_creation_expression''" "\<not> hidden ''field_access''"
  "\<not> hidden ''array_access''" "\<not> hidden ''method_invocation''"
  "\<not> hidden ''method_reference''" "\<not> hidden ''array_creation_expression''"
  "\<not> hidden ''template_expression''" "\<not> hidden ''decimal_integer_literal''"
  "\<not> hidden ''hex_integer_literal''" "\<not> hidden ''octal_integer_literal''"
  "\<not> hidden ''binary_integer_literal''" "\<not> hidden ''decimal_floating_point_literal''"
  "\<not> hidden ''hex_floating_point_literal''" "\<not> hidden ''true''" "\<not> hidden ''false''"
  "\<not> hidden ''character_literal''" "\<not> hidden ''string_literal''" "\<not> hidden ''null_literal''"
  "\<not> hidden ''switch_block''" "\<not> hidden ''switch_block_statement_group''"
  "\<not> hidden ''switch_rule''" "\<not> hidden ''switch_label''" "\<not> hidden ''block''"
  "\<not> hidden ''program''" "\<not> hidden ''method_declaration''"
  "\<not> hidden ''expression_statement''" "\<not> hidden ''labeled_statement''"
  "\<not> hidden ''if_statement''" "\<not> hidden ''while_statement''" "\<not> hidden ''for_statement''"
  "\<not> hidden ''enhanced_for_statement''" "\<not> hidden ''assert_statement''"
  "\<not> hidden ''do_statement''" "\<not> hidden ''break_statement''"
  "\<not> hidden ''continue_statement''" "\<not> hidden ''return_statement''"
  "\<not> hidden ''yield_statement''" "\<not> hidden ''synchronized_statement''"
  "\<not> hidden ''local_variable_declaration''" "\<not> hidden ''throw_statement''"
  "\<not> hidden ''try_statement''" "\<not> hidden ''try_with_resources_statement''"
  "\<not> hidden ''module_declaration''" "\<not> hidden ''package_declaration''"
  "\<not> hidden ''import_declaration''" "\<not> hidden ''class_declaration''"
  "\<not> hidden ''record_declaration''" "\<not> hidden ''interface_declaration''"
  "\<not> hidden ''annotation_type_declaration''" "\<not> hidden ''enum_declaration''"
  "\<not> hidden ''formal_parameters''" "\<not> hidden ''formal_parameter''" "\<not> hidden ''void_type''"
  "\<not> hidden ''integral_type''" "\<not> hidden ''variable_declarator''" "\<not> hidden ''class_body''"
  "\<not> hidden ''string_fragment''" "\<not> hidden ''string_interpolation''"
  "\<not> hidden ''argument_list''" "\<not> hidden ''escape_sequence''"
  by (simp_all add: hidden_def supertypes_def inline_def)

lemma hidden_more:
  "hidden ''_method_header''" "hidden ''_method_declarator''"
  "hidden ''_variable_declarator_list''" "hidden ''_variable_declarator_id''"
  "hidden ''_variable_initializer''" "hidden ''_string_literal''"
  "hidden ''_unqualified_object_creation_expression''"
  by (simp_all add: hidden_def supertypes_def inline_def)

lemma terminal_simps:
  "\<not> terminal expression" "\<not> terminal primary_expression" "\<not> terminal hid_literal"
  "\<not> terminal hid_reserved_identifier" "\<not> terminal assignment_expression"
  "terminal identifier_rule" "\<not> terminal statement" "\<not> terminal declaration_rule"
  "\<not> terminal program" "\<not> terminal hid_toplevel_statement"
  "\<not> terminal switch_block" "\<not> terminal binary_expression" "\<not> terminal ternary_expression"
  "\<not> terminal unary_expression" "\<not> terminal string_interpolation"
  "\<not> terminal string_literal" "\<not> terminal hid_string_literal"
  by (simp_all add: expression_def primary_expression_def hid_literal_def
      hid_reserved_identifier_def assignment_expression_def identifier_rule_def statement_def
      declaration_rule_def program_def hid_toplevel_statement_def switch_block_def
      binary_expression_def ternary_expression_def unary_expression_def unary_operators_def
      binary_operators_def string_interpolation_def string_literal_def hid_string_literal_def)

lemma derives_reserved_identifier:
  "derives U (Sym ''_reserved_identifier'') cs =
     (\<exists>s \<in> set reserved_words. cs = [Lex ''identifier'' (cps s)])"
  by (simp add: derives_Sym_hidden[OF java_rule_hid_reserved_identifier] terminal_simps hidden_simps
      hid_reserved_identifier_def derives_Choice_ex derives_Prec derives_Alias_token derives_Str
      reserved_words_def conj_disj_distribL ex_disj_distrib disj_ac)

lemma derives_literal_single:
  assumes "derives U (Sym ''_literal'') cs"
  shows "\<exists>t. cs = [t] \<and> unfield t = t \<and> kind t \<in> set (direct_members ''_literal'')"
proof -
  have dm: "direct_members ''_literal'' = map member_kind (members hid_literal)"
    by (simp add: direct_members_def java_rule_hid_literal hid_literal_def)
  from assms have "derives U hid_literal cs"
    by (simp add: derives_Sym_hidden[OF java_rule_hid_literal] terminal_simps hidden_simps)
  then have "\<exists>n \<in> set (map member_kind (members hid_literal)). \<not> hidden n \<and> derives U (Sym n) cs"
    unfolding hid_literal_def
    by (simp add: derives_Choice_ex not_hidden_kinds)
  then show ?thesis
    unfolding dm using derives_Sym_visible by blast
qed

lemma derives_primary_single:
  assumes "derives U (Sym ''primary_expression'') cs"
  shows "\<exists>t. cs = [t] \<and> unfield t = t"
proof -
  from assms have "derives U primary_expression cs"
    by (simp add: derives_Sym_hidden[OF java_rule_primary_expression] terminal_simps hidden_simps)
  then consider (lit) "derives U (Sym ''_literal'') cs"
    | (res) "derives U (Sym ''_reserved_identifier'') cs"
    | (vis) n where "\<not> hidden n" "derives U (Sym n) cs"
    unfolding primary_expression_def
    by (simp add: derives_Choice_ex) (use not_hidden_kinds in blast)
  then show ?thesis
  proof cases
    case lit
    then show ?thesis using derives_literal_single by blast
  next
    case res
    then show ?thesis by (auto simp: derives_reserved_identifier)
  next
    case vis
    then show ?thesis using derives_Sym_visible by blast
  qed
qed

lemma derives_expression_single:
  assumes "derives U (Sym ''expression'') cs"
  shows "\<exists>t. cs = [t] \<and> unfield t = t"
proof -
  from assms have "derives U expression cs"
    by (simp add: derives_Sym_hidden[OF java_rule_expression] terminal_simps hidden_simps)
  then consider (prim) "derives U (Sym ''primary_expression'') cs"
    | (vis) n where "\<not> hidden n" "derives U (Sym n) cs"
    unfolding expression_def
    by (simp add: derives_Choice_ex) (use not_hidden_kinds in blast)
  then show ?thesis
  proof cases
    case prim
    then show ?thesis using derives_primary_single by blast
  next
    case vis
    then show ?thesis using derives_Sym_visible by blast
  qed
qed

lemmas PREC_defs = PREC_COMMENT_def PREC_ASSIGN_def PREC_DECL_def PREC_ELEMENT_VAL_def
  PREC_TERNARY_def PREC_OR_def PREC_AND_def PREC_BIT_OR_def PREC_BIT_XOR_def PREC_BIT_AND_def
  PREC_EQUALITY_def PREC_GENERIC_def PREC_REL_def PREC_SHIFT_def PREC_ADD_def PREC_MULT_def
  PREC_CAST_def PREC_OBJ_INST_def PREC_UNARY_def PREC_ARRAY_def PREC_OBJ_ACCESS_def
  PREC_PARENS_def PREC_CLASS_LITERAL_def

subsection \<open>Members of the supertypes\<close>

lemma dm_expression: "direct_members ''expression'' = [''assignment_expression'', ''binary_expression'',
   ''instanceof_expression'', ''lambda_expression'', ''ternary_expression'', ''update_expression'',
   ''primary_expression'', ''unary_expression'', ''cast_expression'', ''switch_expression'']"
  by (simp add: direct_members_def java_rule_expression expression_def)

lemma dm_statement: "direct_members ''statement'' = [''declaration'', ''expression_statement'',
    ''labeled_statement'', ''if_statement'', ''while_statement'', ''for_statement'',
    ''enhanced_for_statement'', ''block'', '';'', ''assert_statement'', ''do_statement'',
    ''break_statement'', ''continue_statement'', ''return_statement'', ''yield_statement'',
    ''switch_expression'', ''synchronized_statement'', ''local_variable_declaration'',
    ''throw_statement'', ''try_statement'', ''try_with_resources_statement'']"
  by (simp add: direct_members_def java_rule_statement statement_def)

lemma dm_declaration: "direct_members ''declaration'' = [''module_declaration'', ''package_declaration'',
    ''import_declaration'', ''class_declaration'', ''record_declaration'', ''interface_declaration'',
    ''annotation_type_declaration'', ''enum_declaration'']"
  by (simp add: direct_members_def java_rule_declaration_rule declaration_rule_def)

lemma dm_primary: "direct_members ''primary_expression'' = [''_literal'', ''class_literal'', ''this'',
    ''identifier'', ''_reserved_identifier'', ''parenthesized_expression'',
    ''object_creation_expression'', ''field_access'', ''array_access'', ''method_invocation'',
    ''method_reference'', ''array_creation_expression'', ''template_expression'']"
  by (simp add: direct_members_def java_rule_primary_expression primary_expression_def)

lemma dm_literal: "direct_members ''_literal'' = [''decimal_integer_literal'', ''hex_integer_literal'',
    ''octal_integer_literal'', ''binary_integer_literal'', ''decimal_floating_point_literal'',
    ''hex_floating_point_literal'', ''true'', ''false'', ''character_literal'', ''string_literal'',
    ''null_literal'']"
  by (simp add: direct_members_def java_rule_hid_literal hid_literal_def)

lemma dm_type: "direct_members ''_type'' = [''_unannotated_type'', ''annotated_type'']"
  by (simp add: direct_members_def java_rule_hid_type hid_type_def)

lemma dm_simple_type: "direct_members ''_simple_type'' = [''void_type'', ''integral_type'',
    ''floating_point_type'', ''boolean_type'', ''type_identifier'', ''scoped_type_identifier'',
    ''generic_type'']"
  by (simp add: direct_members_def java_rule_hid_simple_type hid_simple_type_def)

lemma dm_unannotated_type: "direct_members ''_unannotated_type'' = [''_simple_type'', ''array_type'']"
  by (simp add: direct_members_def java_rule_hid_unannotated_type hid_unannotated_type_def)

lemma dm_module_directive: "direct_members ''module_directive'' = [''requires_module_directive'',
    ''exports_module_directive'', ''opens_module_directive'', ''uses_module_directive'',
    ''provides_module_directive'']"
  by (simp add: direct_members_def java_rule_module_directive module_directive_def)

lemmas dm_simps = dm_expression dm_statement dm_declaration dm_primary dm_literal dm_type
  dm_simple_type dm_unannotated_type dm_module_directive

lemma derives_visible_sym:
  "visible_sym r \<Longrightarrow> derives U r cs \<Longrightarrow>
   \<exists>t. cs = [t] \<and> unfield t = t \<and> subtree t \<and> kind t = member_kind r"
  by (cases r) (auto simp: visible_sym_def dest: derives_Sym_visible)

lemma derives_Choice_split:
  assumes "derives U (Choice rs) cs"
  shows "(\<exists>t. cs = [t] \<and> unfield t = t \<and> subtree t \<and>
            kind t \<in> set (map member_kind (filter visible_sym rs)))
       \<or> list_ex (\<lambda>r. derives U r cs) (filter (\<lambda>r. \<not> visible_sym r) rs)"
proof -
  from assms obtain r where r: "r \<in> set rs" "derives U r cs"
    by (auto simp: derives_Choice)
  show ?thesis
  proof (cases "visible_sym r")
    case True
    from derives_visible_sym[OF True r(2)] r(1) True show ?thesis by force
  next
    case False
    with r show ?thesis by (auto simp: list_ex_iff)
  qed
qed

lemma visible_sym_simps:
  "visible_sym (Sym n) = (\<not> hidden n)" "visible_sym (Str s) = False"
  by (simp_all add: visible_sym_def)

lemmas hidden_eval = visible_sym_simps hidden_def supertypes_def inline_def

lemma derives_statement_kind:
  assumes "derives U (Sym ''statement'') cs"
  shows "\<exists>t. cs = [t] \<and> unfield t = t \<and>
     kind t \<in> set (direct_members ''statement'') \<union> set (direct_members ''declaration'')"
proof -
  have vis: "set (map member_kind (filter visible_sym (members statement)))
      \<subseteq> set (direct_members ''statement'')"
    unfolding dm_statement unfolding statement_def by (simp add: hidden_eval)
  have rest: "filter (\<lambda>r. \<not> visible_sym r) (members statement) = [Sym ''declaration'', Str '';'']"
    unfolding statement_def by (simp add: hidden_eval)
  have vis': "set (map member_kind (filter visible_sym (members (unwrapped declaration_rule))))
      \<subseteq> set (direct_members ''declaration'')"
    unfolding dm_declaration unfolding declaration_rule_def by (simp add: hidden_eval)
  have rest': "filter (\<lambda>r. \<not> visible_sym r) (members (unwrapped declaration_rule)) = []"
    unfolding declaration_rule_def by (simp add: hidden_eval)
  from assms have "derives U (Choice (members statement)) cs"
    by (simp add: derives_Sym_hidden[OF java_rule_statement] terminal_simps hidden_simps
        statement_def)
  from derives_Choice_split[OF this, unfolded rest] vis
  consider (decl) "derives U (Sym ''declaration'') cs"
    | (semi) "cs = [Tok '';'']"
    | (vis) t where "cs = [t]" "unfield t = t" "kind t \<in> set (direct_members ''statement'')"
    by (auto simp: derives_Str)
  then show ?thesis
  proof cases
    case decl
    then have "derives U (Choice (members (unwrapped declaration_rule))) cs"
      by (simp add: derives_Sym_hidden[OF java_rule_declaration_rule] terminal_simps hidden_simps
          declaration_rule_def derives_Prec)
    from derives_Choice_split[OF this, unfolded rest'] vis'
    show ?thesis by auto
  next
    case semi
    then show ?thesis by (simp add: dm_statement)
  next
    case vis
    then show ?thesis by blast
  qed
qed


subsection \<open>Derivations of the examples\<close>

lemmas check_eval = eval_nat_numeral hidden_eval

lemma rx_match_RLit: "rx_match U (RLit s) t = (t = cps s)"
proof (induction s arbitrary: t)
  case Nil
  then show ?case by (simp add: RLit_def cps_def rx_match_REps)
next
  case (Cons c s)
  have e: "RLit (c # s) = RCat (RChr (of_char c)) (RLit s)"
    by (simp add: RLit_def cps_def)
  show ?case
    by (cases t) (auto simp: e RChr_def cset_has_def rx_match_RCat_REps rx_match_RCat_RNone Cons cps_def)
qed

lemma identifier_f: "rx_match latin1_table (rx_of identifier_rule) (cps ''f'')"
  by (simp add: identifier_rule_def rx_match_RSet_RStar_RSet cps_def cset_has_def latin1_table_def
      latin1_letter_def)

lemma derives_ex_method: "derives latin1_table (Sym ''method_declaration'') [ex_method]"
proof (rule check_sound[of _ 8])
  show "check latin1_table 8 (Sym ''method_declaration'') [ex_method]"
    unfolding ex_method_def ident_def
    by (simp add: check_eval java_rule_method_declaration java_rule_hid_method_header
        java_rule_hid_method_declarator java_rule_formal_parameters java_rule_void_type
        java_rule_hid_unannotated_type java_rule_hid_simple_type java_rule_identifier_rule
        method_declaration_def hid_method_header_def hid_method_declarator_def
        formal_parameters_def void_type_def hid_unannotated_type_def hid_simple_type_def
        optional_def commaSep_def commaSep1_def rx_match_RLit identifier_f terminal_simps
        cong: any_weak_cong if_weak_cong)
qed



lemma identifier_latin1:
  "rx_match latin1_table (rx_of identifier_rule) (cps ''a'')"
  "rx_match latin1_table (rx_of identifier_rule) (cps ''b'')"
  "rx_match latin1_table (rx_of identifier_rule) (cps ''c'')"
  "rx_match latin1_table (rx_of identifier_rule) (cps ''d'')"
  "rx_match latin1_table (rx_of identifier_rule) (cps ''e'')"
  "rx_match latin1_table (rx_of identifier_rule) (cps ''x'')"
  "rx_match latin1_table (rx_of identifier_rule) (cps ''y'')"
  "rx_match latin1_table (rx_of identifier_rule) (cps ''z'')"
  "rx_match latin1_table (rx_of identifier_rule) (cps ''record'')"
  "rx_match latin1_table (rx_of identifier_rule) (cps ''Point'')"
  by (simp_all add: identifier_rule_def rx_match_RSet_RStar_RSet cps_def cset_has_def
      latin1_table_def latin1_letter_def)

lemma derives_ex_assignment:
  "derives latin1_table (Sym ''assignment_expression'') [assignment (ident ''x'') ''='' (ident ''y'')]"
proof (rule check_sound[of _ 6])
  show "check latin1_table 6 (Sym ''assignment_expression'') [assignment (ident ''x'') ''='' (ident ''y'')]"
    unfolding assignment_def ident_def
    by (simp add: check_eval java_rule_assignment_expression java_rule_identifier_rule
        java_rule_expression java_rule_primary_expression java_rule_hid_literal
        assignment_expression_def expression_def primary_expression_def hid_literal_def
        identifier_latin1 terminal_simps
        cong: any_weak_cong if_weak_cong)
qed

subsection \<open>The rule \<^verbatim>\<open>program\<close>\<close>

text \<open>
  What the rule \<^verbatim>\<open>program\<close> derives: one \<^verbatim>\<open>program\<close> node whose children are, in order,
  the children derived by \<^verbatim>\<open>statement\<close> or by \<^verbatim>\<open>method_declaration\<close>.  This is a fact
  about derivations only: trivia and error nodes are not part of a derivation, and the
  table does not say which rule the parser starts from.
\<close>

lemma derives_program_children:
  assumes "derives U (Sym ''program'') cs"
  shows "\<exists>ks css. cs = [Node ''program'' ks] \<and> ks = concat css \<and>
     (\<forall>p \<in> set css. derives U (Sym ''statement'') p \<or> derives U (Sym ''method_declaration'') p) \<and>
     (\<forall>c \<in> set ks. kind c \<in> set (direct_members ''statement'') \<union>
        set (direct_members ''declaration'') \<union> {''method_declaration''})"
proof -
  from assms obtain ks where ks: "cs = [Node ''program'' ks]" "derives U program ks"
    by (auto simp: derives_Sym_node[OF java_rule_program] terminal_simps not_hidden_kinds)
  from ks(2) obtain css where css: "ks = concat css"
      "\<forall>p \<in> set css. derives U (Sym ''_toplevel_statement'') p"
    unfolding program_def using derives_Repeat_concat by blast
  have top: "derives U (Sym ''statement'') p \<or> derives U (Sym ''method_declaration'') p"
    if "derives U (Sym ''_toplevel_statement'') p" for p
    using that
    by (simp add: derives_Sym_hidden[OF java_rule_hid_toplevel_statement] terminal_simps
        hidden_simps hid_toplevel_statement_def derives_Choice_ex)
  have kinds: "\<forall>c \<in> set p. kind c \<in> set (direct_members ''statement'') \<union>
        set (direct_members ''declaration'') \<union> {''method_declaration''}"
    if "derives U (Sym ''_toplevel_statement'') p" for p
    using top[OF that]
  proof
    assume "derives U (Sym ''statement'') p"
    from derives_statement_kind[OF this] show ?thesis by auto
  next
    assume "derives U (Sym ''method_declaration'') p"
    from derives_Sym_visible[OF this] show ?thesis by (auto simp: not_hidden_kinds)
  qed
  from css top have "\<forall>p \<in> set css. derives U (Sym ''statement'') p \<or> derives U (Sym ''method_declaration'') p"
    by blast
  moreover from css kinds have "\<forall>c \<in> set ks. kind c \<in> set (direct_members ''statement'') \<union>
        set (direct_members ''declaration'') \<union> {''method_declaration''}"
    by auto
  ultimately show ?thesis using ks(1) css(1) by blast
qed

lemma derives_ex_program:
  "derives latin1_table (Sym ''program'') [Node ''program'' [ex_method]]"
proof -
  have top: "derives latin1_table (Sym ''_toplevel_statement'') [ex_method]"
    using derives_ex_method
    by (simp add: derives_Sym_hidden[OF java_rule_hid_toplevel_statement] terminal_simps
        hidden_simps hid_toplevel_statement_def derives_Choice_ex)
  have "derives latin1_table (Repeat (Sym ''_toplevel_statement'')) ([ex_method] @ [])"
    by (rule d_repeat_cons[OF top d_repeat_nil])
  then show ?thesis
    by (simp add: derives_Sym_node[OF java_rule_program] terminal_simps not_hidden_kinds program_def)
qed

text \<open>
  \<^verbatim>\<open>void f();\<close> is derived by \<^verbatim>\<open>program\<close> with a \<^verbatim>\<open>method_declaration\<close> as its only
  child, which is neither an alternative of \<^verbatim>\<open>statement\<close> nor one of \<^verbatim>\<open>declaration\<close>,
  and is derived by neither.
\<close>

lemma derives_program_method:
  "derives latin1_table (Sym ''program'') [Node ''program'' [ex_method]] \<and>
   kind ex_method = ''method_declaration'' \<and>
   ''method_declaration'' \<notin> set (direct_members ''statement'') \<and>
   ''method_declaration'' \<notin> set (direct_members ''declaration'') \<and>
   \<not> derives latin1_table (Sym ''statement'') [ex_method] \<and>
   \<not> derives latin1_table (Sym ''declaration'') [ex_method]"
proof -
  have k: "kind ex_method = ''method_declaration''"
    by (simp add: ex_method_def)
  have n1: "''method_declaration'' \<notin> set (direct_members ''statement'')"
    by (simp add: dm_statement)
  have n2: "''method_declaration'' \<notin> set (direct_members ''declaration'')"
    by (simp add: dm_declaration)
  have s: "\<not> derives latin1_table (Sym ''statement'') [ex_method]"
    using derives_statement_kind[of latin1_table "[ex_method]"] k n1 n2 by auto
  have "derives latin1_table (Sym ''statement'') cs" if "derives latin1_table (Sym ''declaration'') cs" for cs
    using that
    by (simp add: derives_Sym_hidden[OF java_rule_statement] terminal_simps hidden_simps
        statement_def derives_Choice_ex)
  with s have d: "\<not> derives latin1_table (Sym ''declaration'') [ex_method]" by blast
  from derives_ex_program k n1 n2 s d show ?thesis by blast
qed

subsection \<open>Rules outside a vocabulary\<close>

lemma within_relabel: "within T K (relabel n t) \<Longrightarrow> n \<in> set K \<or> within T K t"
  by (induction t) auto

lemma feasible_sound:
  "derives U r cs \<Longrightarrow> list_all (within T K) cs \<Longrightarrow> feasible T K k r"
proof (induction arbitrary: k rule: derives.induct)
  case (d_leaf n b t)
  then show ?case by (cases k) auto
next
  case (d_node n b cs)
  then show ?case by (cases k) auto
next
  case (d_hidden n b cs)
  then show ?case by (cases k) auto
next
  case (d_choice r rs cs)
  then show ?case by (auto simp: any_iff)
next
  case (d_alias_leaf m b t n)
  then show ?case by auto
next
  case (d_alias_node m b cs n)
  then show ?case by (cases k) auto
next
  case (d_alias_token r t n)
  then show ?case using within_relabel[of T K n t] by auto
qed (auto simp: list_all_iff)

lemma operator_tokens_eq: "operator_tokens = [''>'', ''<'', ''>='', ''<='', ''=='', ''!='', ''&&'', ''||'', ''+'', ''-'',
  ''*'', ''/'', ''&'', ''|'', ''^'', ''%'', ''<<'', ''>>'', ''>>>'', ''='', ''?'', '':'']"
  by (simp add: operator_tokens_def binary_operators_def)

lemma feasible_expression:
  "filter (feasible operator_tokens [''identifier''] 1) (members expression) =
     [Sym ''assignment_expression'', Sym ''binary_expression'', Sym ''ternary_expression'',
      Sym ''primary_expression'', Sym ''unary_expression'']"
  unfolding operator_tokens_eq expression_def
  by (simp add: java_rule_assignment_expression java_rule_binary_expression
      java_rule_instanceof_expression java_rule_lambda_expression java_rule_ternary_expression
      java_rule_update_expression java_rule_primary_expression java_rule_unary_expression
      java_rule_cast_expression java_rule_switch_expression
      assignment_expression_def binary_expression_def instanceof_expression_def
      lambda_expression_def ternary_expression_def update_expression_def primary_expression_def
      unary_expression_def cast_expression_def switch_expression_def
      binary_operators_def binary_alternative_def unary_operators_def unary_alternative_def
      optional_def sep1_def
      cong: any_weak_cong if_weak_cong)

lemma feasible_primary:
  "filter (feasible operator_tokens [''identifier''] 3) (members primary_expression) =
     [Sym ''identifier'', Sym ''_reserved_identifier'']"
  unfolding operator_tokens_eq primary_expression_def
  by (simp add: eval_nat_numeral
      java_rule_hid_literal java_rule_class_literal java_rule_this java_rule_identifier_rule
      java_rule_hid_reserved_identifier java_rule_parenthesized_expression
      java_rule_object_creation_expression java_rule_hid_unqualified_object_creation_expression
      java_rule_field_access java_rule_array_access java_rule_method_invocation
      java_rule_argument_list java_rule_method_reference java_rule_array_creation_expression
      java_rule_template_expression
      java_rule_decimal_integer_literal java_rule_hex_integer_literal java_rule_octal_integer_literal
      java_rule_binary_integer_literal java_rule_decimal_floating_point_literal
      java_rule_hex_floating_point_literal java_rule_true java_rule_false
      java_rule_character_literal java_rule_string_literal java_rule_hid_string_literal
      java_rule_null_literal
      hid_literal_def class_literal_def this_def identifier_rule_def hid_reserved_identifier_def
      parenthesized_expression_def object_creation_expression_def
      hid_unqualified_object_creation_expression_def field_access_def array_access_def
      method_invocation_def argument_list_def method_reference_def array_creation_expression_def
      template_expression_def decimal_integer_literal_def hex_integer_literal_def
      octal_integer_literal_def binary_integer_literal_def decimal_floating_point_literal_def
      hex_floating_point_literal_def true_def false_def character_literal_def string_literal_def
      hid_string_literal_def null_literal_def java_rule_hid_multiline_string_literal
      hid_multiline_string_literal_def dquote_def dquote3_def
      optional_def sep1_def commaSep_def commaSep1_def
      cong: any_weak_cong if_weak_cong)

subsection \<open>Derivations of operator expressions\<close>

lemma derives_Choice_feasible:
  assumes "derives U (Choice rs) cs" "list_all (within T K) cs"
  shows "list_ex (\<lambda>r. derives U r cs) (filter (feasible T K k) rs)"
proof -
  from assms(1) obtain r where r: "r \<in> set rs" "derives U r cs"
    by (auto simp: derives_Choice)
  from feasible_sound[OF r(2) assms(2)] r show ?thesis
    by (auto simp: list_ex_iff)
qed

lemma derives_Field_expression:
  "derives U (Field f (Sym ''expression'')) ks =
     (\<exists>e. ks = [Fld f e] \<and> derives U (Sym ''expression'') [e])"
proof
  assume "derives U (Field f (Sym ''expression'')) ks"
  then obtain cs where cs: "ks = map (Fld f) cs" "derives U (Sym ''expression'') cs"
    by (auto simp: derives_Field)
  from derives_expression_single[OF cs(2)] obtain e where "cs = [e]" by blast
  with cs show "\<exists>e. ks = [Fld f e] \<and> derives U (Sym ''expression'') [e]" by auto
next
  assume "\<exists>e. ks = [Fld f e] \<and> derives U (Sym ''expression'') [e]"
  then obtain e where e: "ks = map (Fld f) [e]" "derives U (Sym ''expression'') [e]" by auto
  from d_field[OF e(2)] e(1) show "derives U (Field f (Sym ''expression'')) ks" by simp
qed

lemma derives_Field_Str: "derives U (Field f (Str s)) ks = (ks = [Fld f (Tok s)])"
  by (auto simp: derives_Field derives_Str)

lemma derives_Seq_Cons_single:
  assumes "\<And>as. derives U r as = (\<exists>a. as = [a] \<and> P a)"
  shows "derives U (Seq (r # rs)) cs = (\<exists>a bs. cs = a # bs \<and> P a \<and> derives U (Seq rs) bs)"
proof
  assume "derives U (Seq (r # rs)) cs"
  then obtain as bs where "cs = as @ bs" "derives U r as" "derives U (Seq rs) bs"
    by (auto simp: derives_Seq_Cons)
  with assms show "\<exists>a bs. cs = a # bs \<and> P a \<and> derives U (Seq rs) bs" by auto
next
  assume "\<exists>a bs. cs = a # bs \<and> P a \<and> derives U (Seq rs) bs"
  then obtain a bs where a: "cs = [a] @ bs" "P a" "derives U (Seq rs) bs" by auto
  from a(2) assms have "derives U r [a]" by simp
  from d_seq_cons[OF this a(3)] a(1) show "derives U (Seq (r # rs)) cs" by simp
qed

lemma derives_Seq_Field_expression:
  "derives U (Seq (Field f (Sym ''expression'') # rs)) cs =
     (\<exists>e bs. cs = Fld f e # bs \<and> derives U (Sym ''expression'') [e] \<and> derives U (Seq rs) bs)"
proof -
  have "derives U (Seq (Field f (Sym ''expression'') # rs)) cs =
     (\<exists>a bs. cs = a # bs \<and> (\<exists>e. a = Fld f e \<and> derives U (Sym ''expression'') [e]) \<and> derives U (Seq rs) bs)"
    by (rule derives_Seq_Cons_single) (auto simp: derives_Field_expression)
  then show ?thesis by auto
qed

lemma derives_Seq_Str:
  "derives U (Seq (Str s # rs)) cs = (\<exists>bs. cs = Tok s # bs \<and> derives U (Seq rs) bs)"
proof -
  have "derives U (Seq (Str s # rs)) cs =
     (\<exists>a bs. cs = a # bs \<and> a = Tok s \<and> derives U (Seq rs) bs)"
    by (rule derives_Seq_Cons_single) (auto simp: derives_Str)
  then show ?thesis by auto
qed

lemma derives_Seq_Field_Str:
  "derives U (Seq (Field f (Str s) # rs)) cs = (\<exists>bs. cs = Fld f (Tok s) # bs \<and> derives U (Seq rs) bs)"
proof -
  have "derives U (Seq (Field f (Str s) # rs)) cs =
     (\<exists>a bs. cs = a # bs \<and> a = Fld f (Tok s) \<and> derives U (Seq rs) bs)"
    by (rule derives_Seq_Cons_single) (auto simp: derives_Field_Str)
  then show ?thesis by auto
qed

lemmas derives_Seq_operands = derives_Seq_Field_expression derives_Seq_Str derives_Seq_Field_Str
  derives_Seq_Nil

lemma derives_binary_alternative:
  "derives U (binary_alternative (operator, p)) ks =
    (\<exists>l r. ks = [Fld ''left'' l, Fld ''operator'' (Tok operator), Fld ''right'' r] \<and>
       derives U (Sym ''expression'') [l] \<and> derives U (Sym ''expression'') [r])"
  by (auto simp: binary_alternative_def derives_PrecLeft derives_Seq_operands)

lemma derives_binary_expression:
  "derives U (Sym ''binary_expression'') cs =
    (\<exists>l operator r. operator \<in> fst ` set binary_operators \<and> cs = [binary l operator r] \<and>
       derives U (Sym ''expression'') [l] \<and> derives U (Sym ''expression'') [r])"
  by (simp add: derives_Sym_node[OF java_rule_binary_expression] terminal_simps not_hidden_kinds)
     (force simp: binary_expression_def derives_Choice derives_binary_alternative binary_def)

lemma derives_unary_alternative:
  "derives U (unary_alternative (operator, p)) ks =
    (\<exists>e. ks = [Fld ''operator'' (Tok operator), Fld ''operand'' e] \<and>
       derives U (Sym ''expression'') [e])"
  by (auto simp: unary_alternative_def derives_PrecLeft derives_Seq_operands)

lemma derives_unary_expression:
  "derives U (Sym ''unary_expression'') cs =
    (\<exists>operator e. operator \<in> fst ` set unary_operators \<and> cs = [unary operator e] \<and>
       derives U (Sym ''expression'') [e])"
  by (simp add: derives_Sym_node[OF java_rule_unary_expression] terminal_simps not_hidden_kinds)
     (force simp: unary_expression_def derives_Choice derives_unary_alternative unary_def)

lemma derives_ternary_expression:
  "derives U (Sym ''ternary_expression'') cs =
    (\<exists>c x y. cs = [ternary c x y] \<and> derives U (Sym ''expression'') [c] \<and>
       derives U (Sym ''expression'') [x] \<and> derives U (Sym ''expression'') [y])"
  by (simp add: derives_Sym_node[OF java_rule_ternary_expression] terminal_simps not_hidden_kinds)
     (auto simp: ternary_expression_def derives_PrecRight derives_Seq_operands ternary_def)

lemma derives_identifier:
  "derives U (Sym ''identifier'') cs = (\<exists>t. cs = [Lex ''identifier'' t] \<and> rx_match U (rx_of identifier_rule) t)"
  by (simp add: derives_Sym_leaf[OF java_rule_identifier_rule] terminal_simps)

lemma not_feasible_access:
  "\<not> feasible operator_tokens [''identifier''] 1 (Sym ''field_access'')"
  "\<not> feasible operator_tokens [''identifier''] 1 (Sym ''array_access'')"
  unfolding operator_tokens_eq
  by (simp_all add: java_rule_field_access java_rule_array_access field_access_def array_access_def
      optional_def cong: any_weak_cong if_weak_cong)

lemma derives_assignment_operators:
  assumes "derives U (Sym ''assignment_expression'') cs"
    and "list_all (within operator_tokens [''identifier'']) cs"
  shows "\<exists>t r. cs = [assignment (Lex ''identifier'' t) ''='' r] \<and> derives U (Sym ''expression'') [r]"
proof -
  from assms(1) obtain ks where ks: "cs = [Node ''assignment_expression'' ks]"
      "derives U assignment_expression ks"
    by (auto simp: derives_Sym_node[OF java_rule_assignment_expression] terminal_simps not_hidden_kinds)
  from ks(2) have "\<exists>as bs. ks = as @ bs \<and>
      derives U (Field ''left'' (Choice [Sym ''identifier'', Sym ''_reserved_identifier'',
        Sym ''field_access'', Sym ''array_access''])) as \<and>
      (\<exists>os bs'. bs = os @ bs' \<and>
        derives U (Field ''operator'' (Choice [Str ''='', Str ''+='', Str ''-='', Str ''*='', Str ''/='', Str ''&='',
          Str ''|='', Str ''^='', Str ''%='', Str ''<<='', Str ''>>='', Str ''>>>=''])) os \<and>
        (\<exists>r. bs' = [Fld ''right'' r] \<and> derives U (Sym ''expression'') [r]))"
    unfolding assignment_expression_def derives_PrecRight derives_Seq_Cons[of U "Field ''left'' x" for x]
      derives_Seq_Cons[of U "Field ''operator'' x" for x] derives_Seq_Field_expression derives_Seq_Nil
    by simp
  then obtain as os r where parts: "ks = as @ os @ [Fld ''right'' r]"
      "derives U (Field ''left'' (Choice [Sym ''identifier'', Sym ''_reserved_identifier'',
        Sym ''field_access'', Sym ''array_access''])) as"
      "derives U (Field ''operator'' (Choice [Str ''='', Str ''+='', Str ''-='', Str ''*='', Str ''/='', Str ''&='',
          Str ''|='', Str ''^='', Str ''%='', Str ''<<='', Str ''>>='', Str ''>>>=''])) os"
      "derives U (Sym ''expression'') [r]"
    by blast
  from assms(2) ks(1) parts(1) have w: "list_all (within operator_tokens [''identifier'']) as"
    "list_all (within operator_tokens [''identifier'']) os"
    by (auto simp: list_all_iff)
  from parts(3) w(2) have os: "os = [Fld ''operator'' (Tok ''='')]"
    by (auto simp: derives_Field derives_Choice_ex derives_Str operator_tokens_eq)
  from parts(2) obtain ls where ls: "as = map (Fld ''left'') ls"
    "derives U (Sym ''identifier'') ls \<or> derives U (Sym ''_reserved_identifier'') ls
       \<or> derives U (Sym ''field_access'') ls \<or> derives U (Sym ''array_access'') ls"
    by (auto simp: derives_Field derives_Choice_ex)
  from w(1) ls(1) have wl: "list_all (within operator_tokens [''identifier'']) ls"
    by (auto simp: list_all_iff)
  from ls(2) feasible_sound[OF _ wl, of U _ 1] not_feasible_access
  have "derives U (Sym ''identifier'') ls \<or> derives U (Sym ''_reserved_identifier'') ls"
    by blast
  then obtain t where "ls = [Lex ''identifier'' t]"
    by (auto simp: derives_reserved_identifier derives_identifier)
  with ks(1) parts(1,4) os ls(1) show ?thesis by (auto simp: assignment_def)
qed

lemma derives_primary_operators:
  assumes "derives U (Sym ''primary_expression'') cs"
    and "list_all (within operator_tokens [''identifier'']) cs"
  shows "\<exists>t. cs = [Lex ''identifier'' t]"
proof -
  from assms(1) have "derives U (Choice (members primary_expression)) cs"
    by (simp add: derives_Sym_hidden[OF java_rule_primary_expression] terminal_simps hidden_simps
        primary_expression_def)
  from derives_Choice_feasible[OF this assms(2), of 3, unfolded feasible_primary]
  have "derives U (Sym ''identifier'') cs \<or> derives U (Sym ''_reserved_identifier'') cs"
    by simp
  then show ?thesis
    by (auto simp: derives_reserved_identifier derives_identifier)
qed

lemma expression_shape:
  assumes "derives U (Sym ''expression'') cs"
    and "list_all (within operator_tokens [''identifier'']) cs"
  shows "(\<exists>t. cs = [Lex ''identifier'' t])
    \<or> (\<exists>l operator r. operator \<in> fst ` set binary_operators \<and> cs = [binary l operator r] \<and>
         derives U (Sym ''expression'') [l] \<and> derives U (Sym ''expression'') [r])
    \<or> (\<exists>operator e. operator \<in> fst ` set unary_operators \<and> cs = [unary operator e] \<and>
         derives U (Sym ''expression'') [e])
    \<or> (\<exists>t r. cs = [assignment (Lex ''identifier'' t) ''='' r] \<and> derives U (Sym ''expression'') [r])
    \<or> (\<exists>c x y. cs = [ternary c x y] \<and> derives U (Sym ''expression'') [c] \<and>
         derives U (Sym ''expression'') [x] \<and> derives U (Sym ''expression'') [y])"
proof -
  from assms(1) have "derives U (Choice (members expression)) cs"
    by (simp add: derives_Sym_hidden[OF java_rule_expression] terminal_simps hidden_simps
        expression_def)
  from derives_Choice_feasible[OF this assms(2), of 1, unfolded feasible_expression]
  consider (a) "derives U (Sym ''assignment_expression'') cs"
    | (b) "derives U (Sym ''binary_expression'') cs"
    | (t) "derives U (Sym ''ternary_expression'') cs"
    | (p) "derives U (Sym ''primary_expression'') cs"
    | (u) "derives U (Sym ''unary_expression'') cs"
    by auto
  then show ?thesis
  proof cases
    case a
    from derives_assignment_operators[OF this assms(2)] show ?thesis by blast
  next
    case b
    then show ?thesis unfolding derives_binary_expression by blast
  next
    case t
    then show ?thesis unfolding derives_ternary_expression by blast
  next
    case p
    from derives_primary_operators[OF this assms(2)] show ?thesis by blast
  next
    case u
    then show ?thesis unfolding derives_unary_expression by blast
  qed
qed

subsection \<open>Completeness of the enumeration\<close>

lemma cuts_iff: "(ls, x, rs) \<in> set (cuts xs) \<longleftrightarrow> xs = ls @ x # rs"
  by (induction xs arbitrary: ls) (auto simp: Cons_eq_append_conv)

lemma leaves_simps:
  "leaves (binary l s r) = leaves l @ Tok s # leaves r"
  "leaves (assignment l s r) = leaves l @ Tok s # leaves r"
  "leaves (ternary c x y) = leaves c @ Tok ''?'' # leaves x @ Tok '':'' # leaves y"
  "leaves (unary s e) = Tok s # leaves e"
  by (simp_all add: binary_def assignment_def ternary_def unary_def)

lemma within_simps:
  "within T K (binary l s r) = (within T K l \<and> s \<in> set T \<and> within T K r)"
  "within T K (assignment l s r) = (within T K l \<and> s \<in> set T \<and> within T K r)"
  "within T K (ternary c x y) = (within T K c \<and> ''?'' \<in> set T \<and> within T K x \<and> '':'' \<in> set T \<and> within T K y)"
  "within T K (unary s e) = (s \<in> set T \<and> within T K e)"
  by (simp_all add: binary_def assignment_def ternary_def unary_def)

lemma candidates_cut:
  assumes "t \<in> set (binaries sub (ls, x, rs)) \<or> t \<in> set (assignments sub (ls, x, rs))
     \<or> t \<in> set (ternaries sub (ls, x, rs))"
  shows "t \<in> set (candidates sub (ls @ x # rs))"
proof -
  have "(ls, x, rs) \<in> set (cuts (ls @ x # rs))" by (simp add: cuts_iff)
  with assms have "\<exists>c \<in> set (cuts (ls @ x # rs)).
      t \<in> set (binaries sub c @ assignments sub c @ ternaries sub c)"
    by (intro bexI[of _ "(ls, x, rs)"]) simp_all
  then show ?thesis by (simp add: candidates_def)
qed

lemma candidates_leaf: "Lex ''identifier'' a \<in> set (candidates sub [Lex ''identifier'' a])"
  by (simp add: candidates_def identifier_leaf_def)

lemma candidates_binary:
  assumes "s \<in> fst ` set binary_operators" "l \<in> set (sub ls)" "r \<in> set (sub rs)"
  shows "binary l s r \<in> set (candidates sub (ls @ Tok s # rs))"
proof -
  from assms have "binary l s r \<in> set (binaries sub (ls, Tok s, rs))"
    by (auto simp: binaries_def)
  then show ?thesis by (intro candidates_cut) simp
qed

lemma candidates_assignment:
  assumes "r \<in> set (sub rs)"
  shows "assignment (Lex ''identifier'' a) ''='' r
     \<in> set (candidates sub ([Lex ''identifier'' a] @ Tok ''='' # rs))"
proof -
  from assms have "assignment (Lex ''identifier'' a) ''='' r
      \<in> set (assignments sub ([Lex ''identifier'' a], Tok ''='', rs))"
    by (simp add: assignments_def identifier_leaf_def)
  then show ?thesis by (intro candidates_cut) simp
qed

lemma candidates_ternary:
  assumes "c \<in> set (sub cs)" "x \<in> set (sub xs)" "y \<in> set (sub ys)"
  shows "ternary c x y \<in> set (candidates sub (cs @ Tok ''?'' # xs @ Tok '':'' # ys))"
proof -
  have "(xs, Tok '':'', ys) \<in> set (cuts (xs @ Tok '':'' # ys))" by (simp add: cuts_iff)
  with assms have "\<exists>q \<in> set (cuts (xs @ Tok '':'' # ys)). ternary c x y \<in> set ((\<lambda>(xs, y, ys).
            if y = Tok '':''
            then concat (map (\<lambda>c. concat (map (\<lambda>a. map (\<lambda>b. ternary c a b) (sub ys)) (sub xs))) (sub cs))
            else []) q)"
    by (intro bexI[of _ "(xs, Tok '':'', ys)"]) auto
  then have "ternary c x y \<in> set (ternaries sub (cs, Tok ''?'', xs @ Tok '':'' # ys))"
    by (simp add: ternaries_def)
  then show ?thesis by (intro candidates_cut) simp
qed

lemma candidates_unary:
  assumes "s \<in> fst ` set unary_operators" "e \<in> set (sub es)"
  shows "unary s e \<in> set (candidates sub (Tok s # es))"
  using assms by (simp add: candidates_def unaries_def)

lemma expression_leaves:
  assumes "derives U (Sym ''expression'') [t]" "within operator_tokens [''identifier''] t"
  shows "leaves t \<noteq> []"
proof -
  from assms(2) have "list_all (within operator_tokens [''identifier'']) [t]" by simp
  from expression_shape[OF assms(1) this] show ?thesis
    by (elim disjE exE conjE) (simp_all add: leaves_simps)
qed

lemma expression_cases:
  assumes "derives U (Sym ''expression'') [t]" "within operator_tokens [''identifier''] t"
  obtains (i) a where "t = Lex ''identifier'' a"
    | (b) l s r where "s \<in> fst ` set binary_operators" "t = binary l s r"
         "derives U (Sym ''expression'') [l]" "derives U (Sym ''expression'') [r]"
    | (u) s e where "s \<in> fst ` set unary_operators" "t = unary s e"
         "derives U (Sym ''expression'') [e]"
    | (a) a r where "t = assignment (Lex ''identifier'' a) ''='' r" "derives U (Sym ''expression'') [r]"
    | (t) c x y where "t = ternary c x y" "derives U (Sym ''expression'') [c]"
         "derives U (Sym ''expression'') [x]" "derives U (Sym ''expression'') [y]"
proof -
  from assms(2) have "list_all (within operator_tokens [''identifier'']) [t]" by simp
  from expression_shape[OF assms(1) this] that show ?thesis
    by (elim disjE exE conjE) simp_all
qed

lemma enum_complete:
  "derives U (Sym ''expression'') [t] \<Longrightarrow> within operator_tokens [''identifier''] t \<Longrightarrow>
   length (leaves t) \<le> n \<Longrightarrow> t \<in> set (enum n (leaves t))"
proof (induction n arbitrary: t)
  case 0
  from expression_leaves[OF 0(1,2)] 0(3) show ?case by simp
next
  case (Suc n)
  from Suc(2,3) show ?case
  proof (cases rule: expression_cases)
    case (i a)
    then show ?thesis using candidates_leaf by simp
  next
    case (b l s r)
    from b(2) Suc(3,4) have w: "within operator_tokens [''identifier''] l"
        "within operator_tokens [''identifier''] r" "length (leaves l) \<le> n" "length (leaves r) \<le> n"
      by (simp_all add: within_simps leaves_simps)
    from candidates_binary[where sub="enum n" and ls="leaves l" and rs="leaves r", OF b(1) Suc.IH[OF b(3) w(1,3)] Suc.IH[OF b(4) w(2,4)]]
    show ?thesis by (simp add: b(2) leaves_simps)
  next
    case (u s e)
    from u(2) Suc(3,4) have w: "within operator_tokens [''identifier''] e" "length (leaves e) \<le> n"
      by (simp_all add: within_simps leaves_simps)
    from candidates_unary[where sub="enum n" and es="leaves e", OF u(1) Suc.IH[OF u(3) w]]
    show ?thesis by (simp add: u(2) leaves_simps)
  next
    case (a a r)
    from a(1) Suc(3,4) have w: "within operator_tokens [''identifier''] r" "length (leaves r) \<le> n"
      by (simp_all add: within_simps leaves_simps)
    from candidates_assignment[where sub="enum n" and rs="leaves r", OF Suc.IH[OF a(2) w]]
    show ?thesis by (simp add: a(1) leaves_simps)
  next
    case (t c x y)
    from t(1) Suc(3,4) have w: "within operator_tokens [''identifier''] c"
        "within operator_tokens [''identifier''] x" "within operator_tokens [''identifier''] y"
        "length (leaves c) \<le> n" "length (leaves x) \<le> n" "length (leaves y) \<le> n"
      by (simp_all add: within_simps leaves_simps)
    from candidates_ternary[where sub="enum n" and cs="leaves c" and xs="leaves x" and ys="leaves y", OF Suc.IH[OF t(2) w(1,4)] Suc.IH[OF t(3) w(2,5)] Suc.IH[OF t(4) w(3,6)]]
    show ?thesis by (simp add: t(1) leaves_simps)
  qed
qed

subsection \<open>Productions and levels of operator nodes\<close>

lemma binary_operators_eq: "binary_operators = [(''>'', 10), (''<'', 10), (''>='', 10), (''<='', 10),
    (''=='', 9), (''!='', 9), (''&&'', 5), (''||'', 4), (''+'', 12), (''-'', 12), (''*'', 13),
    (''/'', 13), (''&'', 8), (''|'', 6), (''^'', 7), (''%'', 13), (''<<'', 11), (''>>'', 11),
    (''>>>'', 11)]"
  by (simp add: binary_operators_def PREC_defs)

lemma binary_alternative_operator:
  "Field ''operator'' (Str s) \<in> set (parts (unwrapped (binary_alternative (s', p')))) \<longleftrightarrow> s = s'"
  by (auto simp: binary_alternative_def)

lemma filter_binary_alternative:
  "filter (\<lambda>a. Field ''operator'' (Str s) \<in> set (parts (unwrapped a))) (map binary_alternative ops)
     = map binary_alternative (filter (\<lambda>q. s = fst q) ops)"
  by (induction ops) (auto simp: binary_alternative_operator)

lemma filter_distinct_key:
  "distinct (map fst ops) \<Longrightarrow> (s, p) \<in> set ops \<Longrightarrow> filter (\<lambda>q. s = fst q) ops = [(s, p)]"
proof (induction ops)
  case Nil
  then show ?case by simp
next
  case (Cons q ops)
  show ?case
  proof (cases "q = (s, p)")
    case True
    with Cons.prems(1) have "\<forall>x \<in> set ops. s \<noteq> fst x" by force
    then have "filter (\<lambda>q. s = fst q) ops = []" by (simp add: filter_empty_conv)
    with True show ?thesis by simp
  next
    case False
    with Cons.prems have m: "(s, p) \<in> set ops" "distinct (map fst ops)" by auto
    from m(1) have "s \<in> fst ` set ops" by force
    with Cons.prems(1) have "fst q \<noteq> s" by auto
    with Cons.IH[OF m(2,1)] show ?thesis by auto
  qed
qed

lemma binary_alternative_first:
  assumes "(s, p) \<in> set binary_operators"
  shows "filter (\<lambda>a. Field ''operator'' (Str s) \<in> set (parts (unwrapped a)))
           (map binary_alternative binary_operators) = [binary_alternative (s, p)]"
proof -
  have "distinct (map fst binary_operators)"
    by (simp add: binary_operators_def)
  from filter_distinct_key[OF this assms] show ?thesis
    by (simp add: filter_binary_alternative)
qed

lemma production_binary:
  assumes "(s, p) \<in> set binary_operators" "\<not> has_field ''operator'' l" "\<not> has_field ''operator'' r"
  shows "production ''binary_expression'' [Fld ''left'' l, Fld ''operator'' (Tok s), Fld ''right'' r]
     = Some (binary_alternative (s, p))"
  using assms(2,3)
  by (simp add: production_def java_rule_binary_expression binary_expression_def operator_of_def
      field_children_def binary_alternative_first[OF assms(1)])

lemma binary_alternative_ends:
  "wrapper (binary_alternative (s, p)) = Some (ALeft, p)"
  "first_operand (binary_alternative (s, p))" "last_operand (binary_alternative (s, p))"
  by (simp_all add: binary_alternative_def first_operand_def last_operand_def operand_def)

lemma map_weak_cong: "xs = ys \<Longrightarrow> map f xs = map f ys"
  by simp

lemma within_leaves: "within T K t = list_all (within T K) (leaves t)"
  by (induction t) (auto simp: list_all_iff)

lemma derives_expression_intro:
  "derives U (Sym ''binary_expression'') cs \<Longrightarrow> derives U (Sym ''expression'') cs"
  "derives U (Sym ''assignment_expression'') cs \<Longrightarrow> derives U (Sym ''expression'') cs"
  "derives U (Sym ''ternary_expression'') cs \<Longrightarrow> derives U (Sym ''expression'') cs"
  "derives U (Sym ''unary_expression'') cs \<Longrightarrow> derives U (Sym ''expression'') cs"
  "derives U (Sym ''primary_expression'') cs \<Longrightarrow> derives U (Sym ''expression'') cs"
  by (simp_all add: derives_Sym_hidden[OF java_rule_expression] terminal_simps hidden_simps
      expression_def derives_Choice_ex)

lemma derives_identifier_expression:
  assumes "rx_match U (rx_of identifier_rule) a"
  shows "derives U (Sym ''expression'') [Lex ''identifier'' a]"
proof -
  from assms have "derives U (Sym ''identifier'') [Lex ''identifier'' a]"
    by (simp add: derives_identifier)
  then have "derives U (Sym ''primary_expression'') [Lex ''identifier'' a]"
    by (simp add: derives_Sym_hidden[OF java_rule_primary_expression] terminal_simps hidden_simps
      primary_expression_def derives_Choice_ex)
  then show ?thesis by (rule derives_expression_intro)
qed

lemma derives_binary:
  assumes "s \<in> fst ` set binary_operators" "derives U (Sym ''expression'') [l]"
    "derives U (Sym ''expression'') [r]"
  shows "derives U (Sym ''expression'') [binary l s r]"
  using assms by (intro derives_expression_intro(1)) (auto simp: derives_binary_expression)

lemma admissible_binary_left:
  assumes "(s1, p1) \<in> set binary_operators" "(s2, p2) \<in> set binary_operators"
  shows "admissible (binary (binary (Lex k a) s1 (Lex k b)) s2 (Lex k c)) \<longleftrightarrow> p2 \<le> p1"
  by (auto simp: binary_def ends_ok_def production_binary[OF assms(1)] production_binary[OF assms(2)]
      binary_alternative_ends left_end_ok_def right_end_ok_def production_of_def)

lemma admissible_binary_right:
  assumes "(s1, p1) \<in> set binary_operators" "(s2, p2) \<in> set binary_operators"
  shows "admissible (binary (Lex k a) s1 (binary (Lex k b) s2 (Lex k c))) \<longleftrightarrow> p1 < p2"
  by (auto simp: binary_def ends_ok_def production_binary[OF assms(1)] production_binary[OF assms(2)]
      binary_alternative_ends left_end_ok_def right_end_ok_def production_of_def)

lemma binary_not_other:
  assumes "(s, p) \<in> set binary_operators"
  shows "s \<noteq> ''=''" "s \<noteq> ''?''" "s \<noteq> '':''" "s \<in> set operator_tokens"
  using assms by (auto simp: binary_operators_def operator_tokens_def)

lemmas enum_eval = eval_nat_numeral candidates_def binaries_def assignments_def ternaries_def
  unaries_def identifier_leaf_def

lemma enum_two_operators:
  assumes "(s1, p1) \<in> set binary_operators" "(s2, p2) \<in> set binary_operators"
  shows "set (enum 5 [Lex ''identifier'' a, Tok s1, Lex ''identifier'' b, Tok s2, Lex ''identifier'' c])
    = {binary (binary (Lex ''identifier'' a) s1 (Lex ''identifier'' b)) s2 (Lex ''identifier'' c),
       binary (Lex ''identifier'' a) s1 (binary (Lex ''identifier'' b) s2 (Lex ''identifier'' c))}"
proof -
  from assms have m: "s1 \<in> fst ` set binary_operators" "s2 \<in> fst ` set binary_operators"
    by force+
  show ?thesis
    by (simp add: enum_eval m binary_not_other[OF assms(1)] binary_not_other[OF assms(2)]
        insert_commute cong: map_weak_cong if_weak_cong)
qed

subsection \<open>Parses of the operator examples\<close>

lemma parses_two_operators:
  assumes o1: "(s1, p1) \<in> set binary_operators" and o2: "(s2, p2) \<in> set binary_operators"
    and a: "rx_match U (rx_of identifier_rule) a" and b: "rx_match U (rx_of identifier_rule) b"
    and c: "rx_match U (rx_of identifier_rule) c"
  shows "parses U (Sym ''expression'')
      [Lex ''identifier'' a, Tok s1, Lex ''identifier'' b, Tok s2, Lex ''identifier'' c] t
    \<longleftrightarrow> t = (if p2 \<le> p1
        then binary (binary (Lex ''identifier'' a) s1 (Lex ''identifier'' b)) s2 (Lex ''identifier'' c)
        else binary (Lex ''identifier'' a) s1 (binary (Lex ''identifier'' b) s2 (Lex ''identifier'' c)))"
    (is "parses U _ ?L t \<longleftrightarrow> t = (if _ then ?A else ?B)")
proof
  assume p: "parses U (Sym ''expression'') ?L t"
  then have d: "derives U (Sym ''expression'') [t]" and l: "leaves t = ?L" and ad: "admissible t"
    by (simp_all add: parses_def)
  from l have w: "within operator_tokens [''identifier''] t"
    by (simp add: within_leaves[of _ _ t] binary_not_other[OF o1] binary_not_other[OF o2])
  from enum_complete[OF d w, of 5] l have "t \<in> set (enum 5 ?L)" by simp
  then have "t = ?A \<or> t = ?B" by (simp add: enum_two_operators[OF o1 o2])
  with ad show "t = (if p2 \<le> p1 then ?A else ?B)"
    by (auto simp: admissible_binary_left[OF o1 o2] admissible_binary_right[OF o1 o2])
next
  assume t: "t = (if p2 \<le> p1 then ?A else ?B)"
  from o1 o2 have m: "s1 \<in> fst ` set binary_operators" "s2 \<in> fst ` set binary_operators"
    by force+
  note i = derives_identifier_expression[OF a] derives_identifier_expression[OF b]
    derives_identifier_expression[OF c]
  have "derives U (Sym ''expression'') [?A]" "derives U (Sym ''expression'') [?B]"
    by (intro derives_binary m i)+
  moreover have "leaves ?A = ?L" "leaves ?B = ?L" by (simp_all add: leaves_simps)
  moreover have "admissible (if p2 \<le> p1 then ?A else ?B)"
    by (simp add: admissible_binary_left[OF o1 o2] admissible_binary_right[OF o1 o2])
  ultimately show "parses U (Sym ''expression'') ?L t"
    unfolding t parses_def by (cases "p2 \<le> p1") simp_all
qed

lemma production_wrapped:
  "production ''assignment_expression'' cs = Some assignment_expression"
  "production ''ternary_expression'' cs = Some ternary_expression"
  by (simp_all add: production_def java_rule_assignment_expression java_rule_ternary_expression
      assignment_expression_def ternary_expression_def)

lemma assignment_ends:
  "wrapper assignment_expression = Some (ARight, 1)"
  "\<not> first_operand assignment_expression" "last_operand assignment_expression"
  by (simp_all add: assignment_expression_def first_operand_def last_operand_def operand_def
      PREC_defs)

lemma ternary_ends:
  "wrapper ternary_expression = Some (ARight, 3)"
  "first_operand ternary_expression" "last_operand ternary_expression"
  by (simp_all add: ternary_expression_def first_operand_def last_operand_def operand_def
      PREC_defs)

lemma derives_assignment:
  assumes "rx_match U (rx_of identifier_rule) a" "derives U (Sym ''expression'') [r]"
  shows "derives U (Sym ''expression'') [assignment (Lex ''identifier'' a) ''='' r]"
proof -
  from assms(1) have i: "derives U (Sym ''identifier'') [Lex ''identifier'' a]"
    by (simp add: derives_identifier)
  have l: "derives U (Field ''left'' (Choice [Sym ''identifier'', Sym ''_reserved_identifier'',
        Sym ''field_access'', Sym ''array_access''])) (map (Fld ''left'') [Lex ''identifier'' a])"
    by (intro d_field d_choice[OF _ i]) simp
  have o: "derives U (Field ''operator'' (Choice [Str ''='', Str ''+='', Str ''-='', Str ''*='', Str ''/='', Str ''&='',
      Str ''|='', Str ''^='', Str ''%='', Str ''<<='', Str ''>>='', Str ''>>>=''])) (map (Fld ''operator'') [Tok ''=''])"
    by (intro d_field d_choice[OF _ d_str]) simp
  have r: "derives U (Seq [Field ''right'' (Sym ''expression'')]) [Fld ''right'' r]"
    using assms(2) by (simp add: derives_Seq_operands)
  from d_seq_cons[OF l d_seq_cons[OF o r]]
  have "derives U assignment_expression [Fld ''left'' (Lex ''identifier'' a), Fld ''operator'' (Tok ''=''), Fld ''right'' r]"
    by (simp add: assignment_expression_def derives_PrecRight)
  then have "derives U (Sym ''assignment_expression'') [assignment (Lex ''identifier'' a) ''='' r]"
    by (simp add: derives_Sym_node[OF java_rule_assignment_expression] terminal_simps
        not_hidden_kinds assignment_def)
  then show ?thesis by (rule derives_expression_intro)
qed

lemma derives_ternary:
  assumes "derives U (Sym ''expression'') [c]" "derives U (Sym ''expression'') [x]"
    "derives U (Sym ''expression'') [y]"
  shows "derives U (Sym ''expression'') [ternary c x y]"
  using assms by (intro derives_expression_intro(3)) (auto simp: derives_ternary_expression)

lemma enum_assignments:
  "set (enum 5 [Lex ''identifier'' a, Tok ''='', Lex ''identifier'' b, Tok ''='', Lex ''identifier'' c])
    = {assignment (Lex ''identifier'' a) ''='' (assignment (Lex ''identifier'' b) ''='' (Lex ''identifier'' c))}"
  by (simp add: enum_eval binary_operators_def unary_operators_def
      cong: map_weak_cong if_weak_cong)

lemma admissible_assignments:
  "admissible (assignment (Lex k a) ''='' (assignment (Lex k b) ''='' (Lex k c)))"
  by (simp add: assignment_def ends_ok_def production_wrapped assignment_ends
      left_end_ok_def right_end_ok_def production_of_def)

lemma parses_assignments:
  assumes a: "rx_match U (rx_of identifier_rule) a" and b: "rx_match U (rx_of identifier_rule) b"
    and c: "rx_match U (rx_of identifier_rule) c"
  shows "parses U (Sym ''expression'')
      [Lex ''identifier'' a, Tok ''='', Lex ''identifier'' b, Tok ''='', Lex ''identifier'' c] t
    \<longleftrightarrow> t = assignment (Lex ''identifier'' a) ''='' (assignment (Lex ''identifier'' b) ''='' (Lex ''identifier'' c))"
    (is "parses U _ ?L t \<longleftrightarrow> t = ?A")
proof
  assume p: "parses U (Sym ''expression'') ?L t"
  then have d: "derives U (Sym ''expression'') [t]" and l: "leaves t = ?L" and ad: "admissible t"
    by (simp_all add: parses_def)
  from l have w: "within operator_tokens [''identifier''] t"
    by (simp add: within_leaves[of _ _ t] operator_tokens_def)
  from enum_complete[OF d w, of 5] l have "t \<in> set (enum 5 ?L)" by simp
  then show "t = ?A" by (simp add: enum_assignments)
next
  assume t: "t = ?A"
  have "derives U (Sym ''expression'') [?A]"
    by (intro derives_assignment derives_identifier_expression a b c)
  moreover have "leaves ?A = ?L" by (simp add: leaves_simps)
  ultimately show "parses U (Sym ''expression'') ?L t"
    unfolding t parses_def by (simp add: admissible_assignments)
qed

lemma enum_ternaries:
  "set (enum 9 [Lex ''identifier'' a, Tok ''?'', Lex ''identifier'' b, Tok '':'', Lex ''identifier'' c,
       Tok ''?'', Lex ''identifier'' d, Tok '':'', Lex ''identifier'' e])
    = {ternary (Lex ''identifier'' a) (Lex ''identifier'' b)
         (ternary (Lex ''identifier'' c) (Lex ''identifier'' d) (Lex ''identifier'' e)),
       ternary (ternary (Lex ''identifier'' a) (Lex ''identifier'' b) (Lex ''identifier'' c))
         (Lex ''identifier'' d) (Lex ''identifier'' e)}"
  by (simp add: enum_eval binary_operators_def unary_operators_def
      cong: map_weak_cong if_weak_cong)

lemma admissible_ternaries:
  "admissible (ternary (Lex k a) (Lex k b) (ternary (Lex k c) (Lex k d) (Lex k e)))"
  "\<not> admissible (ternary (ternary (Lex k a) (Lex k b) (Lex k c)) (Lex k d) (Lex k e))"
  by (simp_all add: ternary_def ends_ok_def production_wrapped ternary_ends
      left_end_ok_def right_end_ok_def production_of_def)

lemma parses_ternaries:
  assumes a: "rx_match U (rx_of identifier_rule) a" and b: "rx_match U (rx_of identifier_rule) b"
    and c: "rx_match U (rx_of identifier_rule) c" and d: "rx_match U (rx_of identifier_rule) d"
    and e: "rx_match U (rx_of identifier_rule) e"
  shows "parses U (Sym ''expression'')
      [Lex ''identifier'' a, Tok ''?'', Lex ''identifier'' b, Tok '':'', Lex ''identifier'' c,
       Tok ''?'', Lex ''identifier'' d, Tok '':'', Lex ''identifier'' e] t
    \<longleftrightarrow> t = ternary (Lex ''identifier'' a) (Lex ''identifier'' b)
         (ternary (Lex ''identifier'' c) (Lex ''identifier'' d) (Lex ''identifier'' e))"
    (is "parses U _ ?L t \<longleftrightarrow> t = ?A")
proof
  assume p: "parses U (Sym ''expression'') ?L t"
  then have dv: "derives U (Sym ''expression'') [t]" and l: "leaves t = ?L" and ad: "admissible t"
    by (simp_all add: parses_def)
  from l have w: "within operator_tokens [''identifier''] t"
    by (simp add: within_leaves[of _ _ t] operator_tokens_def)
  from enum_complete[OF dv w, of 9] l have "t \<in> set (enum 9 ?L)" by simp
  with ad show "t = ?A" by (auto simp: enum_ternaries admissible_ternaries)
next
  assume t: "t = ?A"
  have "derives U (Sym ''expression'') [?A]"
    by (intro derives_ternary derives_identifier_expression a b c d e)
  moreover have "leaves ?A = ?L" by (simp add: leaves_simps)
  ultimately show "parses U (Sym ''expression'') ?L t"
    unfolding t parses_def by (simp add: admissible_ternaries)
qed

subsection \<open>Nested operators with any operands\<close>

lemma derives_primary_kind:
  assumes "derives U (Sym ''primary_expression'') cs"
  shows "\<exists>t. cs = [t] \<and> unfield t = t \<and>
     kind t \<in> set (direct_members ''primary_expression'') \<union> set (direct_members ''_literal'')"
proof -
  have vis: "set (map member_kind (filter visible_sym (members primary_expression)))
      \<subseteq> set (direct_members ''primary_expression'')"
    unfolding dm_primary unfolding primary_expression_def by (simp add: hidden_eval)
  have rest: "filter (\<lambda>r. \<not> visible_sym r) (members primary_expression)
      = [Sym ''_literal'', Sym ''_reserved_identifier'']"
    unfolding primary_expression_def by (simp add: hidden_eval)
  from assms have "derives U (Choice (members primary_expression)) cs"
    by (simp add: derives_Sym_hidden[OF java_rule_primary_expression] terminal_simps hidden_simps
        primary_expression_def)
  from derives_Choice_split[OF this, unfolded rest] vis
  consider (lit) "derives U (Sym ''_literal'') cs"
    | (res) "derives U (Sym ''_reserved_identifier'') cs"
    | (vis) t where "cs = [t]" "unfield t = t" "kind t \<in> set (direct_members ''primary_expression'')"
    by auto
  then show ?thesis
  proof cases
    case lit
    from derives_literal_single[OF this] show ?thesis by blast
  next
    case res
    then show ?thesis by (auto simp: derives_reserved_identifier dm_primary)
  next
    case vis
    then show ?thesis by blast
  qed
qed

lemma derives_expression_node:
  assumes "derives U (Sym ''expression'') [Node k ks]"
    and "k \<in> {''assignment_expression'', ''binary_expression'', ''ternary_expression'',
      ''unary_expression''}"
  shows "derives U (Sym k) [Node k ks]"
proof -
  have rest: "filter (\<lambda>r. \<not> visible_sym r) (members expression) = [Sym ''primary_expression'']"
    unfolding expression_def by (simp add: hidden_eval)
  from assms(1) have "derives U (Choice (members expression)) [Node k ks]"
    by (simp add: derives_Sym_hidden[OF java_rule_expression] terminal_simps hidden_simps
        expression_def)
  then obtain r where r: "r \<in> set (members expression)" "derives U r [Node k ks]"
    by (auto simp: derives_Choice)
  show ?thesis
  proof (cases "visible_sym r")
    case True
    from derives_visible_sym[OF True r(2)] have "member_kind r = k" by auto
    with True r(2) show ?thesis by (cases r) (auto simp: visible_sym_def)
  next
    case False
    with r(1) have "r \<in> set (filter (\<lambda>r. \<not> visible_sym r) (members expression))" by simp
    then have "r = Sym ''primary_expression''" unfolding rest by simp
    with r(2) derives_primary_kind[of U "[Node k ks]"] assms(2) show ?thesis
      by (auto simp: dm_primary dm_literal)
  qed
qed

lemma derives_binary_operands:
  assumes "derives U (Sym ''expression'') [binary l s r]"
  shows "s \<in> fst ` set binary_operators" "derives U (Sym ''expression'') [l]"
    "derives U (Sym ''expression'') [r]" "\<not> has_field f l" "\<not> has_field f r"
proof -
  from assms have "derives U (Sym ''binary_expression'') [binary l s r]"
    unfolding binary_def by (intro derives_expression_node) simp_all
  then show a: "s \<in> fst ` set binary_operators" "derives U (Sym ''expression'') [l]"
    "derives U (Sym ''expression'') [r]"
    by (auto simp: derives_binary_expression binary_def)
  from derives_expression_single[OF a(2)] derives_expression_single[OF a(3)]
  show "\<not> has_field f l" "\<not> has_field f r"
    by (auto simp: unfield_fixed_no_field)
qed

lemma derives_ternary_operands:
  assumes "derives U (Sym ''expression'') [ternary c x y]"
  shows "derives U (Sym ''expression'') [c]" "derives U (Sym ''expression'') [x]"
    "derives U (Sym ''expression'') [y]"
proof -
  from assms have "derives U (Sym ''ternary_expression'') [ternary c x y]"
    unfolding ternary_def by (intro derives_expression_node) simp_all
  then show "derives U (Sym ''expression'') [c]" "derives U (Sym ''expression'') [x]"
    "derives U (Sym ''expression'') [y]"
    by (auto simp: derives_ternary_expression ternary_def)
qed

lemma parses_binary_right:
  assumes o1: "(s1, p1) \<in> set binary_operators" and o2: "(s2, p2) \<in> set binary_operators"
    and p: "parses U (Sym ''expression'') ts (binary l s1 (binary m s2 r))"
  shows "p1 < p2"
proof -
  from p have d: "derives U (Sym ''expression'') [binary l s1 (binary m s2 r)]"
    and ad: "admissible (binary l s1 (binary m s2 r))"
    by (simp_all add: parses_def)
  note a = derives_binary_operands[OF d]
  note b = derives_binary_operands[OF a(3)]
  have pr: "production ''binary_expression'' [Fld ''left'' l, Fld ''operator'' (Tok s1),
       Fld ''right'' (binary m s2 r)] = Some (binary_alternative (s1, p1))"
    by (rule production_binary[OF o1 a(4,5)])
  have pr': "production ''binary_expression'' [Fld ''left'' m, Fld ''operator'' (Tok s2),
       Fld ''right'' r] = Some (binary_alternative (s2, p2))"
    by (rule production_binary[OF o2 b(4,5)])
  from ad have "ends_ok ''binary_expression'' [Fld ''left'' l, Fld ''operator'' (Tok s1),
       Fld ''right'' (binary m s2 r)]"
    by (simp add: binary_def)
  then have "right_end_ok ALeft p1 (Fld ''right'' (binary m s2 r))"
    by (simp add: ends_ok_def pr binary_alternative_ends)
  then show ?thesis
    by (simp add: right_end_ok_def production_of_def binary_def pr'[unfolded binary_def]
        binary_alternative_ends)
qed


lemma parses_ternary_condition:
  "\<not> parses U (Sym ''expression'') ts (ternary (ternary c x y) x' y')"
  by (simp add: parses_def ternary_def ends_ok_def production_wrapped ternary_ends
      left_end_ok_def production_of_def)

section \<open>The claims\<close>

text \<open>
  C6.  Every derivation of \<^verbatim>\<open>switch_block\<close> is a node whose children, between the braces,
  are all colon-labeled statement groups or all arrow rules: no block derived by the
  grammar holds both a \<^verbatim>\<open>switch_block_statement_group\<close> and a \<^verbatim>\<open>switch_rule\<close>, so a
  block that mixes them has no derivation.
\<close>

theorem switch_block_consistent:
  assumes "derives U (Sym ''switch_block'') cs"
  shows "\<exists>ms. cs = [Node ''switch_block'' (Tok ''{'' # ms @ [Tok ''}''])] \<and>
     ((\<forall>m \<in> set ms. kind m = ''switch_block_statement_group'') \<or>
      (\<forall>m \<in> set ms. kind m = ''switch_rule'')) \<and>
     \<not> ((\<exists>m \<in> set ms. kind m = ''switch_block_statement_group'') \<and>
        (\<exists>m \<in> set ms. kind m = ''switch_rule''))"
proof -
  from assms obtain ks where ks: "cs = [Node ''switch_block'' ks]" "derives U switch_block ks"
    by (auto simp: derives_Sym_node[OF java_rule_switch_block] terminal_simps not_hidden_kinds)
  from ks(2) obtain ms where ms: "ks = Tok ''{'' # ms @ [Tok ''}'']"
    "derives U (Repeat (Sym ''switch_block_statement_group'')) ms \<or>
     derives U (Repeat (Sym ''switch_rule'')) ms"
    unfolding switch_block_def
    by (auto simp: derives_Seq_Cons derives_Seq_Nil derives_Str derives_Choice_ex)
  from ms(2) have "(\<forall>m \<in> set ms. kind m = ''switch_block_statement_group'') \<or>
      (\<forall>m \<in> set ms. kind m = ''switch_rule'')"
    using derives_Repeat_visible[of U _ ms] not_hidden_kinds by blast
  with ks(1) ms(1) show ?thesis by auto
qed

lemma derives_ex_switch_block: "derives U (Sym ''switch_block'') [ex_switch_block]"
proof (rule check_sound[of U 5])
  show "check U 5 (Sym ''switch_block'') [ex_switch_block]"
    unfolding ex_switch_block_def
    by (simp add: check_eval java_rule_switch_block java_rule_switch_rule
       java_rule_switch_label java_rule_block switch_block_def switch_rule_def switch_label_def
       block_def cong: any_weak_cong if_weak_cong)
qed

text \<open>The block \<^verbatim>\<open>{ default -> { } }\<close> is derived, and it holds arrow rules only.\<close>

theorem switch_block_consistent_witness:
  "derives latin1_table (Sym ''switch_block'') [ex_switch_block] \<and>
   (\<exists>ms. [ex_switch_block] = [Node ''switch_block'' (Tok ''{'' # ms @ [Tok ''}''])] \<and>
     ((\<forall>m \<in> set ms. kind m = ''switch_block_statement_group'') \<or>
      (\<forall>m \<in> set ms. kind m = ''switch_rule'')) \<and>
     \<not> ((\<exists>m \<in> set ms. kind m = ''switch_block_statement_group'') \<and>
        (\<exists>m \<in> set ms. kind m = ''switch_rule'')))"
  using switch_block_consistent[OF derives_ex_switch_block[of latin1_table]]
    derives_ex_switch_block[of latin1_table] by blast


text \<open>
  C10.  Every derivation of \<^verbatim>\<open>assignment_expression\<close> is a node with exactly one child in
  the field \<^verbatim>\<open>left\<close>, and that child is an identifier (also for a reserved identifier,
  which is aliased to \<^verbatim>\<open>identifier\<close>), a \<^verbatim>\<open>field_access\<close> or an \<^verbatim>\<open>array_access\<close>; it is
  never a parenthesized expression, a method invocation or a literal.
\<close>

theorem assignment_target:
  assumes "derives U (Sym ''assignment_expression'') cs"
  shows "\<exists>ks l. cs = [Node ''assignment_expression'' ks] \<and> field_children ''left'' ks = [l] \<and>
    kind l \<in> {''identifier'', ''field_access'', ''array_access''} \<and>
    kind l \<notin> {''parenthesized_expression'', ''method_invocation''} \<union> set (direct_members ''_literal'')"
proof -
  from assms obtain ks where ks: "cs = [Node ''assignment_expression'' ks]"
      "derives U assignment_expression ks"
    by (auto simp: derives_Sym_node[OF java_rule_assignment_expression] terminal_simps not_hidden_kinds)
  from ks(2) obtain ls os rs where parts: "ks = map (Fld ''left'') ls @ map (Fld ''operator'') os @ map (Fld ''right'') rs"
      "derives U (Sym ''identifier'') ls \<or> derives U (Sym ''_reserved_identifier'') ls
       \<or> derives U (Sym ''field_access'') ls \<or> derives U (Sym ''array_access'') ls"
      "\<exists>op. os = [Tok op]"
      "derives U (Sym ''expression'') rs"
    unfolding assignment_expression_def
    by (auto simp: derives_PrecRight derives_Seq_Cons derives_Seq_Nil derives_Field derives_Choice_ex
        derives_Str)
  from parts(2) obtain l where kl: "ls = [l]" "kind l \<in> {''identifier'', ''field_access'', ''array_access''}" "unfield l = l"
    by (auto simp: derives_reserved_identifier dest!: derives_Sym_visible simp: not_hidden_kinds)
  from derives_expression_single[OF parts(4)] obtain r where r: "rs = [r]" "unfield r = r" by blast
  have "field_children ''left'' ks = [l]"
    using parts(1,3) r kl(1,3) by (auto simp: field_children_def unfield_fixed_no_field)
  moreover have "kind l \<notin> {''parenthesized_expression'', ''method_invocation''} \<union> set (direct_members ''_literal'')"
    using kl(2) by (auto simp: dm_literal)
  ultimately show ?thesis using ks(1) kl(2) by blast
qed

text \<open>The assignment \<^verbatim>\<open>x = y\<close> is an instance.\<close>

theorem assignment_target_witness:
  "derives latin1_table (Sym ''assignment_expression'') [assignment (ident ''x'') ''='' (ident ''y'')] \<and>
   (\<exists>ks l. [assignment (ident ''x'') ''='' (ident ''y'')] = [Node ''assignment_expression'' ks] \<and>
    field_children ''left'' ks = [l] \<and>
    kind l \<in> {''identifier'', ''field_access'', ''array_access''} \<and>
    kind l \<notin> {''parenthesized_expression'', ''method_invocation''} \<union> set (direct_members ''_literal''))"
  using assignment_target[OF derives_ex_assignment] derives_ex_assignment by blast

text \<open>
  C4 (amended).  Two distinct supertypes have no direct member in common, except that
  \<^verbatim>\<open>switch_expression\<close> is a direct member of both \<^verbatim>\<open>expression\<close> and \<^verbatim>\<open>statement\<close>.
\<close>

theorem supertype_members:
  "\<forall>s1 \<in> set supertypes. \<forall>s2 \<in> set supertypes. s1 \<noteq> s2 \<longrightarrow>
     set (direct_members s1) \<inter> set (direct_members s2) =
       (if (s1 = ''expression'' \<and> s2 = ''statement'') \<or> (s1 = ''statement'' \<and> s2 = ''expression'')
        then {''switch_expression''} else {})"
  unfolding supertypes_def
  apply (simp only: list.set ball_simps)
  apply (intro conjI ballI impI)
  by (simp_all add: dm_simps)

text \<open>
  The claim as stated fails: \<^verbatim>\<open>switch_expression\<close> is an alternative of \<^verbatim>\<open>expression\<close> and
  of \<^verbatim>\<open>statement\<close> (the source: "switch statements and expressions are identical").
\<close>

theorem supertype_members_counterexample:
  "''expression'' \<in> set supertypes \<and> ''statement'' \<in> set supertypes \<and>
   ''expression'' \<noteq> ''statement'' \<and>
   ''switch_expression'' \<in> set (direct_members ''expression'') \<and>
   ''switch_expression'' \<in> set (direct_members ''statement'')"
  by (simp add: supertypes_def dm_simps)

text \<open>The supertypes \<^verbatim>\<open>expression\<close> and \<^verbatim>\<open>declaration\<close> are an instance.\<close>

theorem supertype_members_witness:
  "''expression'' \<in> set supertypes \<and> ''declaration'' \<in> set supertypes \<and>
   ''expression'' \<noteq> ''declaration'' \<and>
   set (direct_members ''expression'') \<inter> set (direct_members ''declaration'') = {}"
proof -
  have m: "''expression'' \<in> set supertypes" "''declaration'' \<in> set supertypes"
    by (simp_all add: supertypes_def)
  have n: "''expression'' \<noteq> ''declaration''" by simp
  from supertype_members[THEN bspec, OF m(1), THEN bspec, OF m(2)] n
  have "set (direct_members ''expression'') \<inter> set (direct_members ''declaration'') = {}"
    by simp
  with m n show ?thesis by simp
qed

text \<open>
  C7 (amended).  A string matches the identifier token if and only if its first character
  is an XID-start character, \<^verbatim>\<open>_\<close> or \<^verbatim>\<open>$\<close>, and every later character is an
  XID-continue character, the cent sign U+00A2, \<^verbatim>\<open>_\<close> or \<^verbatim>\<open>$\<close>.
\<close>

theorem identifier_characters:
  "rx_match U (rx_of identifier_rule) s =
    (case s of
       [] \<Rightarrow> False
     | c # cs \<Rightarrow> (U ''XID_Start'' c \<or> c = 95 \<or> c = 36)
         \<and> list_all (\<lambda>x. U ''XID_Continue'' x \<or> x = 162 \<or> x = 95 \<or> x = 36) cs)"
proof -
  have a: "cset_has U False [CProp ''XID_Start'', CChar 95, CChar 36] c
      = (U ''XID_Start'' c \<or> c = 95 \<or> c = 36)" for c
    by (simp add: cset_has_def)
  have b: "cset_has U False [CProp ''XID_Continue'', CChar 162, CChar 95, CChar 36]
      = (\<lambda>x. U ''XID_Continue'' x \<or> x = 162 \<or> x = 95 \<or> x = 36)"
    by (simp add: cset_has_def fun_eq_iff)
  show ?thesis
    by (simp only: identifier_rule_def rx_of.simps rx_match_RSet_RStar_RSet a b)
qed

text \<open>
  The claim as stated fails: the two characters \<^verbatim>\<open>a\<close> and U+00A2 match the identifier
  token, and U+00A2 is neither an XID-continue character nor \<^verbatim>\<open>_\<close> nor \<^verbatim>\<open>$\<close>.
\<close>

theorem identifier_characters_counterexample:
  "rx_match latin1_table (rx_of identifier_rule) [97, 162] \<and>
   \<not> spec_identifier latin1_table [97, 162]"
  by (simp only: identifier_characters) (simp add: spec_identifier_def
      latin1_table_def latin1_letter_def)

text \<open>Instances: a string that matches, one that starts with a digit, one with a hyphen.\<close>

theorem identifier_characters_witness:
  "rx_match latin1_table (rx_of identifier_rule) [97, 162, 95, 36, 49] \<and>
   \<not> rx_match latin1_table (rx_of identifier_rule) [49, 97] \<and>
   \<not> rx_match latin1_table (rx_of identifier_rule) [97, 45]"
  by (simp only: identifier_characters) (simp add: latin1_table_def latin1_letter_def)



text \<open>
  C3.  Every alternative of \<^verbatim>\<open>binary_expression\<close> is left-associative at the level of its
  operator: no parse, whatever the operands, has a binary expression as the right operand
  of a binary operator of the same level, and two binary operators of one level between
  identifiers have exactly one parse, nested to the left (\<^verbatim>\<open>a - b - c\<close> is \<^verbatim>\<open>(a - b) - c\<close>).
  Assignment and the ternary conditional are right-associative: \<^verbatim>\<open>x = y = z\<close> has exactly
  the parse \<^verbatim>\<open>x = (y = z)\<close>; no parse has a ternary expression as the condition of a ternary
  expression, and \<^verbatim>\<open>a ? b : c ? d : e\<close> has exactly the parse \<^verbatim>\<open>a ? b : (c ? d : e)\<close>, nested
  in the alternative.
\<close>

theorem associativity:
  assumes a: "rx_match U (rx_of identifier_rule) a" and b: "rx_match U (rx_of identifier_rule) b"
    and c: "rx_match U (rx_of identifier_rule) c" and d: "rx_match U (rx_of identifier_rule) d"
    and e: "rx_match U (rx_of identifier_rule) e"
  shows "(\<forall>q \<in> set binary_operators. wrapper (binary_alternative q) = Some (ALeft, snd q)) \<and>
    wrapper assignment_expression = Some (ARight, PREC_ASSIGN) \<and>
    wrapper ternary_expression = Some (ARight, PREC_TERNARY) \<and>
    (\<forall>(s1, p1) \<in> set binary_operators. \<forall>(s2, p2) \<in> set binary_operators. p1 = p2 \<longrightarrow>
       (\<forall>ts l m r. \<not> parses U (Sym ''expression'') ts (binary l s1 (binary m s2 r))) \<and>
       (\<forall>t. parses U (Sym ''expression'') [Lex ''identifier'' a, Tok s1, Lex ''identifier'' b, Tok s2, Lex ''identifier'' c] t
          = (t = binary (binary (Lex ''identifier'' a) s1 (Lex ''identifier'' b)) s2 (Lex ''identifier'' c)))) \<and>
    (\<forall>t. parses U (Sym ''expression'') [Lex ''identifier'' a, Tok ''='', Lex ''identifier'' b, Tok ''='', Lex ''identifier'' c] t
       = (t = assignment (Lex ''identifier'' a) ''='' (assignment (Lex ''identifier'' b) ''='' (Lex ''identifier'' c)))) \<and>
    (\<forall>ts c x y x' y'. \<not> parses U (Sym ''expression'') ts (ternary (ternary c x y) x' y')) \<and>
    (\<forall>t. parses U (Sym ''expression'')
           [Lex ''identifier'' a, Tok ''?'', Lex ''identifier'' b, Tok '':'', Lex ''identifier'' c,
            Tok ''?'', Lex ''identifier'' d, Tok '':'', Lex ''identifier'' e] t
       = (t = ternary (Lex ''identifier'' a) (Lex ''identifier'' b) (ternary (Lex ''identifier'' c) (Lex ''identifier'' d) (Lex ''identifier'' e))))"
proof (intro conjI)
  show "\<forall>q \<in> set binary_operators. wrapper (binary_alternative q) = Some (ALeft, snd q)"
    by (simp add: binary_alternative_def split_beta)
  show "wrapper assignment_expression = Some (ARight, PREC_ASSIGN)"
    by (simp add: assignment_expression_def)
  show "wrapper ternary_expression = Some (ARight, PREC_TERNARY)"
    by (simp add: ternary_expression_def)
  show "\<forall>(s1, p1) \<in> set binary_operators. \<forall>(s2, p2) \<in> set binary_operators. p1 = p2 \<longrightarrow>
       (\<forall>ts l m r. \<not> parses U (Sym ''expression'') ts (binary l s1 (binary m s2 r))) \<and>
       (\<forall>t. parses U (Sym ''expression'') [Lex ''identifier'' a, Tok s1, Lex ''identifier'' b, Tok s2, Lex ''identifier'' c] t
          = (t = binary (binary (Lex ''identifier'' a) s1 (Lex ''identifier'' b)) s2 (Lex ''identifier'' c)))"
  proof (intro ballI, clarify, intro conjI allI)
    fix s1 s2 p2 ts l m r
    assume o: "(s1, p2) \<in> set binary_operators" "(s2, p2) \<in> set binary_operators"
    from parses_binary_right[OF o, of U ts l m r]
    show "\<not> parses U (Sym ''expression'') ts (binary l s1 (binary m s2 r))"
      by auto
  next
    fix s1 s2 p2 t
    assume o: "(s1, p2) \<in> set binary_operators" "(s2, p2) \<in> set binary_operators"
    from parses_two_operators[OF o a b c, of t]
    show "parses U (Sym ''expression'') [Lex ''identifier'' a, Tok s1, Lex ''identifier'' b, Tok s2, Lex ''identifier'' c] t
          = (t = binary (binary (Lex ''identifier'' a) s1 (Lex ''identifier'' b)) s2 (Lex ''identifier'' c))"
      by simp
  qed
  show "\<forall>t. parses U (Sym ''expression'') [Lex ''identifier'' a, Tok ''='', Lex ''identifier'' b, Tok ''='', Lex ''identifier'' c] t
       = (t = assignment (Lex ''identifier'' a) ''='' (assignment (Lex ''identifier'' b) ''='' (Lex ''identifier'' c)))"
    using parses_assignments[OF a b c] by simp
  show "\<forall>ts c x y x' y'. \<not> parses U (Sym ''expression'') ts (ternary (ternary c x y) x' y')"
    by (simp add: parses_ternary_condition)
  show "\<forall>t. parses U (Sym ''expression'')
           [Lex ''identifier'' a, Tok ''?'', Lex ''identifier'' b, Tok '':'', Lex ''identifier'' c,
            Tok ''?'', Lex ''identifier'' d, Tok '':'', Lex ''identifier'' e] t
       = (t = ternary (Lex ''identifier'' a) (Lex ''identifier'' b) (ternary (Lex ''identifier'' c) (Lex ''identifier'' d) (Lex ''identifier'' e)))"
    using parses_ternaries[OF a b c d e] by simp
qed

text \<open>
  With the identifiers \<^verbatim>\<open>a\<close> to \<^verbatim>\<open>e\<close>: \<^verbatim>\<open>(a - b) - c\<close> is a parse of \<^verbatim>\<open>a - b - c\<close> and
  \<^verbatim>\<open>a - (b - c)\<close> is not; \<^verbatim>\<open>a = (b = c)\<close> is a parse; \<^verbatim>\<open>a ? b : (c ? d : e)\<close> is a parse and
  \<^verbatim>\<open>(a ? b : c) ? d : e\<close> is not.
\<close>

theorem associativity_witness:
  "(''-'', 12) \<in> set binary_operators \<and>
   parses latin1_table (Sym ''expression'')
     [ident ''a'', Tok ''-'', ident ''b'', Tok ''-'', ident ''c'']
     (binary (binary (ident ''a'') ''-'' (ident ''b'')) ''-'' (ident ''c'')) \<and>
   \<not> parses latin1_table (Sym ''expression'')
     [ident ''a'', Tok ''-'', ident ''b'', Tok ''-'', ident ''c'']
     (binary (ident ''a'') ''-'' (binary (ident ''b'') ''-'' (ident ''c''))) \<and>
   parses latin1_table (Sym ''expression'')
     [ident ''a'', Tok ''='', ident ''b'', Tok ''='', ident ''c'']
     (assignment (ident ''a'') ''='' (assignment (ident ''b'') ''='' (ident ''c''))) \<and>
   parses latin1_table (Sym ''expression'')
     [ident ''a'', Tok ''?'', ident ''b'', Tok '':'', ident ''c'', Tok ''?'', ident ''d'', Tok '':'', ident ''e'']
     (ternary (ident ''a'') (ident ''b'') (ternary (ident ''c'') (ident ''d'') (ident ''e''))) \<and>
   \<not> parses latin1_table (Sym ''expression'')
     [ident ''a'', Tok ''?'', ident ''b'', Tok '':'', ident ''c'', Tok ''?'', ident ''d'', Tok '':'', ident ''e'']
     (ternary (ternary (ident ''a'') (ident ''b'') (ident ''c'')) (ident ''d'') (ident ''e''))"
proof -
  note th = associativity[OF identifier_latin1(1,2,3,4,5)]
  note g = th[THEN conjunct2, THEN conjunct2, THEN conjunct2, THEN conjunct1]
  note h = th[THEN conjunct2, THEN conjunct2, THEN conjunct2, THEN conjunct2]
  have m: "(''-'', 12) \<in> set binary_operators"
    by (simp add: binary_operators_eq)
  from g[THEN bspec, OF m] have "\<forall>(s2, p2) \<in> set binary_operators. 12 = p2 \<longrightarrow>
       (\<forall>ts l m r. \<not> parses latin1_table (Sym ''expression'') ts (binary l ''-'' (binary m s2 r))) \<and>
       (\<forall>t. parses latin1_table (Sym ''expression'')
            [ident ''a'', Tok ''-'', ident ''b'', Tok s2, ident ''c''] t
          = (t = binary (binary (ident ''a'') ''-'' (ident ''b'')) s2 (ident ''c'')))"
    by (simp add: ident_def split_beta)
  from this[THEN bspec, OF m]
  have i: "\<forall>ts l m r. \<not> parses latin1_table (Sym ''expression'') ts (binary l ''-'' (binary m ''-'' r))"
    "\<forall>t. parses latin1_table (Sym ''expression'')
            [ident ''a'', Tok ''-'', ident ''b'', Tok ''-'', ident ''c''] t
          = (t = binary (binary (ident ''a'') ''-'' (ident ''b'')) ''-'' (ident ''c''))"
    by simp_all
  from i(2) have p: "parses latin1_table (Sym ''expression'')
     [ident ''a'', Tok ''-'', ident ''b'', Tok ''-'', ident ''c'']
     (binary (binary (ident ''a'') ''-'' (ident ''b'')) ''-'' (ident ''c''))"
    by simp
  from i(1) have n: "\<not> parses latin1_table (Sym ''expression'')
     [ident ''a'', Tok ''-'', ident ''b'', Tok ''-'', ident ''c'']
     (binary (ident ''a'') ''-'' (binary (ident ''b'') ''-'' (ident ''c'')))"
    by simp
  from h have q: "parses latin1_table (Sym ''expression'')
     [ident ''a'', Tok ''='', ident ''b'', Tok ''='', ident ''c'']
     (assignment (ident ''a'') ''='' (assignment (ident ''b'') ''='' (ident ''c'')))"
    "\<not> parses latin1_table (Sym ''expression'')
     [ident ''a'', Tok ''?'', ident ''b'', Tok '':'', ident ''c'', Tok ''?'', ident ''d'', Tok '':'', ident ''e'']
     (ternary (ternary (ident ''a'') (ident ''b'') (ident ''c'')) (ident ''d'') (ident ''e''))"
    "parses latin1_table (Sym ''expression'')
     [ident ''a'', Tok ''?'', ident ''b'', Tok '':'', ident ''c'', Tok ''?'', ident ''d'', Tok '':'', ident ''e'']
     (ternary (ident ''a'') (ident ''b'') (ternary (ident ''c'') (ident ''d'') (ident ''e'')))"
    by (simp_all add: ident_def)
  from m p n q show ?thesis by simp
qed

end
